theory Spec2Isabelle
  imports Main "HOL-Library.Word" "HOL-Library.Sublist"
begin

unbundle bit_operations_syntax

section \<open>Strings and numbers of the runtime\<close>

text \<open>
  A string of the program is a \<^typ>\<open>string\<close>: each \<^typ>\<open>char\<close> stands for one
  UTF-16 code unit in the range 0..255, so the model covers the strings whose code units
  all lie in that range. \<open>length\<close> is the program's \<open>.length\<close> and \<open>of_char\<close> is
  \<open>charCodeAt\<close>.
\<close>

definition lower_char :: "char \<Rightarrow> char" where
  "lower_char c =
     (let n = (of_char c :: nat) in
      if (65 \<le> n \<and> n \<le> 90) \<or> (192 \<le> n \<and> n \<le> 222 \<and> n \<noteq> 215)
      then char_of (n + 32) else c)"

text \<open>\<open>String.prototype.toLowerCase\<close> on code units below 256: A-Z and the capital
  letters U+00C0..U+00DE (without the multiplication sign U+00D7) move up by 32.\<close>

definition toLowerCase :: "string \<Rightarrow> string" where
  "toLowerCase s = map lower_char s"

text \<open>\<open>String.prototype.includes\<close>: the argument occurs as a contiguous run.\<close>

fun str_includes :: "string \<Rightarrow> string \<Rightarrow> bool" where
  "str_includes [] t = (t = [])"
| "str_includes (c # cs) t = (prefix t (c # cs) \<or> str_includes cs t)"

definition startsWith :: "string \<Rightarrow> string \<Rightarrow> bool" where
  "startsWith s t = (take (length t) s = t)"

text \<open>A number inside a template literal: a non-negative integer prints in decimal.\<close>

definition digit_char :: "nat \<Rightarrow> char" where
  "digit_char d = char_of (48 + d)"

fun string_of_nat :: "nat \<Rightarrow> string" where
  "string_of_nat n =
     (if n < 10 then [digit_char n]
      else string_of_nat (n div 10) @ [digit_char (n mod 10)])"

declare string_of_nat.simps [simp del]

section \<open>Branch names (utils/branch.ts)\<close>

text \<open>The character class \<open>[a-z0-9-]\<close> of the sanitising regular expression.\<close>

definition branch_char :: "char \<Rightarrow> bool" where
  "branch_char c =
     (let n = (of_char c :: nat) in
      (97 \<le> n \<and> n \<le> 122) \<or> (48 \<le> n \<and> n \<le> 57) \<or> c = CHR ''-'')"

text \<open>\<open>.replace(/[^a-z0-9-]/g, '-')\<close>: every code unit outside the class becomes a hyphen.\<close>

definition sanitize :: "string \<Rightarrow> string" where
  "sanitize s = map (\<lambda>c. if branch_char c then c else CHR ''-'') s"

definition generateBranchName :: "string \<Rightarrow> string" where
  "generateBranchName identifier = ''agent/'' @ sanitize (toLowerCase identifier)"

text \<open>The candidate \<open>`${baseName}-${suffix}`\<close>.\<close>

definition suffixed :: "string \<Rightarrow> nat \<Rightarrow> string" where
  "suffixed baseName n = baseName @ ''-'' @ string_of_nat n"

subsection \<open>Decimal printing is injective\<close>

lemma digit_char_inj: "a < 10 \<Longrightarrow> b < 10 \<Longrightarrow> digit_char a = digit_char b \<Longrightarrow> a = b"
proof -
  assume a: "a < 10" and b: "b < 10" and e: "digit_char a = digit_char b"
  have "(of_char (digit_char a) :: nat) = of_char (digit_char b)" using e by simp
  then have "(48 + a) mod 256 = (48 + b) mod 256" by (simp add: digit_char_def)
  with a b show "a = b" by simp
qed

lemma string_of_nat_nonempty: "string_of_nat n \<noteq> []"
  by (subst string_of_nat.simps) simp

lemma string_of_nat_small: "n < 10 \<Longrightarrow> string_of_nat n = [digit_char n]"
  by (subst string_of_nat.simps) simp

lemma string_of_nat_big:
  "\<not> n < 10 \<Longrightarrow> string_of_nat n = string_of_nat (n div 10) @ [digit_char (n mod 10)]"
  by (subst string_of_nat.simps) simp

lemma string_of_nat_inj: "string_of_nat m = string_of_nat n \<Longrightarrow> m = n"
proof (induction m arbitrary: n rule: string_of_nat.induct)
  case (1 m)
  show ?case
  proof (cases "m < 10")
    case True
    note msmall = this
    show ?thesis
    proof (cases "n < 10")
      case True
      with msmall "1.prems" show ?thesis
        by (simp add: string_of_nat_small digit_char_inj)
    next
      case False
      with msmall "1.prems" string_of_nat_nonempty [of "n div 10"] show ?thesis
        by (simp add: string_of_nat_small string_of_nat_big)
    qed
  next
    case False
    note mbig = this
    show ?thesis
    proof (cases "n < 10")
      case True
      with mbig "1.prems" string_of_nat_nonempty [of "m div 10"] show ?thesis
        by (simp add: string_of_nat_small string_of_nat_big)
    next
      case False
      with mbig "1.prems" have
        e1: "string_of_nat (m div 10) = string_of_nat (n div 10)" and
        e2: "digit_char (m mod 10) = digit_char (n mod 10)"
        by (simp_all add: string_of_nat_big)
      from "1.IH" [OF mbig e1] have d: "m div 10 = n div 10" .
      from e2 have r: "m mod 10 = n mod 10"
        by (rule digit_char_inj [rotated 2]) simp_all
      from d r show ?thesis
        by (metis div_mult_mod_eq)
    qed
  qed
qed

lemma suffixed_inj: "suffixed b j = suffixed b k \<Longrightarrow> j = k"
  by (simp add: suffixed_def string_of_nat_inj)

lemma suffixed_inj_on: "inj (suffixed b)"
  by (rule injI) (rule suffixed_inj)

subsection \<open>The probing loop\<close>

text \<open>
  \<open>while (existingBranches.includes(`${baseName}-${suffix}`)) suffix++\<close>. The list
  is finite and the candidates are pairwise different, so the loop ends.
\<close>

function probe :: "string \<Rightarrow> string list \<Rightarrow> nat \<Rightarrow> nat" where
  "probe baseName existingBranches n =
     (if suffixed baseName n \<in> set existingBranches
      then probe baseName existingBranches (n + 1)
      else n)"
  by pat_completeness auto
termination
proof (relation "measure (\<lambda>(b, ex, k). card {j. k \<le> j \<and> suffixed b j \<in> set ex})")
  show "wf (measure (\<lambda>(b, ex, k). card {j. k \<le> j \<and> suffixed b j \<in> set ex}))"
    by simp
next
  fix baseName :: string and existingBranches :: "string list" and n :: nat
  assume hit: "suffixed baseName n \<in> set existingBranches"
  let ?A = "\<lambda>k. {j. k \<le> j \<and> suffixed baseName j \<in> set existingBranches}"
  have fin: "finite (suffixed baseName -` set existingBranches)"
    by (rule finite_vimageI [OF _ suffixed_inj_on]) simp
  have "?A n \<subseteq> suffixed baseName -` set existingBranches" by auto
  then have finA: "finite (?A n)" using fin by (rule finite_subset)
  have "n \<in> ?A n" and "n \<notin> ?A (n + 1)" and "?A (n + 1) \<subseteq> ?A n"
    using hit by auto
  then have "?A (n + 1) \<subset> ?A n" by blast
  then have "card (?A (n + 1)) < card (?A n)"
    using finA by (simp add: psubset_card_mono)
  then show "((baseName, existingBranches, n + 1), (baseName, existingBranches, n))
      \<in> measure (\<lambda>(b, ex, k). card {j. k \<le> j \<and> suffixed b j \<in> set ex})"
    by simp
qed

declare probe.simps [simp del]

definition findAvailableBranchName :: "string \<Rightarrow> string list \<Rightarrow> string" where
  "findAvailableBranchName identifier existingBranches =
     (let baseName = generateBranchName identifier in
      if baseName \<notin> set existingBranches then baseName
      else suffixed baseName (probe baseName existingBranches 2))"

text \<open>The regular expression \<open>^agent/[a-z0-9-]+$\<close>, as a test on the whole string.\<close>

definition matches_agent_branch :: "string \<Rightarrow> bool" where
  "matches_agent_branch s =
     (take 6 s = ''agent/'' \<and> drop 6 s \<noteq> [] \<and> list_all branch_char (drop 6 s))"

subsection \<open>Properties of the branch namer\<close>

lemma sanitize_chars: "list_all branch_char (sanitize s)"
  by (induction s) (simp_all add: sanitize_def branch_char_def)

lemma lower_char_branch_char: "branch_char c \<Longrightarrow> lower_char c = c"
  by (auto simp: branch_char_def lower_char_def Let_def)

lemma toLowerCase_sanitize: "toLowerCase (sanitize s) = sanitize s"
proof -
  have "\<forall>c \<in> set (sanitize s). lower_char c = c"
    using sanitize_chars [of s] by (auto simp: list_all_iff lower_char_branch_char)
  then show ?thesis
    unfolding toLowerCase_def by (simp add: map_idI)
qed

lemma toLowerCase_append: "toLowerCase (a @ b) = toLowerCase a @ toLowerCase b"
  by (simp add: toLowerCase_def)

lemma toLowerCase_agent: "toLowerCase ''agent/'' = ''agent/''"
  by (simp add: toLowerCase_def lower_char_def)

lemma generateBranchName_lowercase:
  "toLowerCase (generateBranchName identifier) = generateBranchName identifier"
  unfolding generateBranchName_def toLowerCase_append toLowerCase_agent toLowerCase_sanitize
  by (rule refl)

lemma agent_prefix_matches:
  "s \<noteq> [] \<Longrightarrow> matches_agent_branch (''agent/'' @ sanitize s)"
  using sanitize_chars [of s] by (simp add: matches_agent_branch_def sanitize_def)

lemma generateBranchName_matches:
  "identifier \<noteq> [] \<Longrightarrow> matches_agent_branch (generateBranchName identifier)"
  unfolding generateBranchName_def
  by (rule agent_prefix_matches) (simp add: toLowerCase_def)

lemma probe_miss: "suffixed b (probe b ex n) \<notin> set ex"
  by (induction b ex n rule: probe.induct) (subst probe.simps, simp)

lemma probe_ge: "n \<le> probe b ex n"
proof (induction b ex n rule: probe.induct)
  case (1 b ex n)
  show ?case
  proof (cases "suffixed b n \<in> set ex")
    case True
    with "1.IH" have "n + 1 \<le> probe b ex (n + 1)" by simp
    with True show ?thesis by (subst probe.simps) simp
  next
    case False
    then show ?thesis by (subst probe.simps) simp
  qed
qed

lemma probe_hits_below: "n \<le> j \<Longrightarrow> j < probe b ex n \<Longrightarrow> suffixed b j \<in> set ex"
proof (induction b ex n rule: probe.induct)
  case (1 b ex n)
  show ?case
  proof (cases "suffixed b n \<in> set ex")
    case True
    note hit = this
    show ?thesis
    proof (cases "j = n")
      case True
      with hit show ?thesis by simp
    next
      case False
      with "1.prems" have a: "n + 1 \<le> j" by simp
      from "1.prems" hit have b: "j < probe b ex (n + 1)"
        by (subst (asm) probe.simps) simp
      from "1.IH" [OF hit a b] show ?thesis .
    qed
  next
    case False
    with "1.prems" show ?thesis by (subst (asm) probe.simps) simp
  qed
qed

text \<open>
  Claim C7, as stated, for every identifier: the base name matches
  \<open>^agent/[a-z0-9-]+$\<close>. The empty identifier is a string, and its base name is
  \<open>agent/\<close>, which the \<open>+\<close> of the expression rejects.
\<close>

theorem generateBranchName_empty_counterexample:
  "\<not> (\<forall>identifier. matches_agent_branch (generateBranchName identifier))"
proof
  assume "\<forall>identifier. matches_agent_branch (generateBranchName identifier)"
  then have "matches_agent_branch (generateBranchName [])" by blast
  then show False
    by (simp add: matches_agent_branch_def generateBranchName_def sanitize_def toLowerCase_def)
qed

text \<open>
  Claim C7, amended. For every identifier the base name is lowercase (lowercasing it
  again changes nothing) and is \<open>agent/\<close> followed by characters of \<open>[a-z0-9-]\<close> only;
  for every non-empty identifier it matches \<open>^agent/[a-z0-9-]+$\<close>, and for the empty
  identifier it is \<open>agent/\<close>. For every identifier and every list of existing names,
  \<open>findAvailableBranchName\<close> returns a name that is not in the list; it returns the base
  name itself when that is absent; otherwise it returns the base name with the suffix
  \<open>-k\<close>, where \<open>k \<ge> 2\<close> is the first number, counting up from 2, whose suffixed name
  is not in the list.
\<close>

theorem branch_namer_amended:
  "toLowerCase (generateBranchName identifier) = generateBranchName identifier
   \<and> take 6 (generateBranchName identifier) = ''agent/''
   \<and> list_all branch_char (drop 6 (generateBranchName identifier))
   \<and> (identifier \<noteq> [] \<longrightarrow> matches_agent_branch (generateBranchName identifier))
   \<and> generateBranchName [] = ''agent/''
   \<and> findAvailableBranchName identifier existingBranches \<notin> set existingBranches
   \<and> (generateBranchName identifier \<notin> set existingBranches \<longrightarrow>
        findAvailableBranchName identifier existingBranches = generateBranchName identifier)
   \<and> (generateBranchName identifier \<in> set existingBranches \<longrightarrow>
        (\<exists>k. 2 \<le> k
           \<and> findAvailableBranchName identifier existingBranches
               = suffixed (generateBranchName identifier) k
           \<and> suffixed (generateBranchName identifier) k \<notin> set existingBranches
           \<and> (\<forall>j. 2 \<le> j \<and> j < k \<longrightarrow>
                 suffixed (generateBranchName identifier) j \<in> set existingBranches)))"
proof -
  let ?b = "generateBranchName identifier"
  let ?k = "probe ?b existingBranches 2"
  have lower: "toLowerCase ?b = ?b" by (rule generateBranchName_lowercase)
  have pre: "take 6 ?b = ''agent/''" by (simp add: generateBranchName_def)
  have cls: "list_all branch_char (drop 6 ?b)"
    using sanitize_chars [of "toLowerCase identifier"] by (simp add: generateBranchName_def)
  have re: "identifier \<noteq> [] \<longrightarrow> matches_agent_branch ?b"
    by (simp add: generateBranchName_matches)
  have empty: "generateBranchName [] = ''agent/''"
    by (simp add: generateBranchName_def sanitize_def toLowerCase_def)
  have fresh: "findAvailableBranchName identifier existingBranches \<notin> set existingBranches"
    using probe_miss [of ?b existingBranches 2]
    by (simp add: findAvailableBranchName_def Let_def)
  have base: "?b \<notin> set existingBranches \<longrightarrow>
      findAvailableBranchName identifier existingBranches = ?b"
    by (simp add: findAvailableBranchName_def Let_def)
  have scan: "?b \<in> set existingBranches \<longrightarrow>
      (\<exists>k. 2 \<le> k
         \<and> findAvailableBranchName identifier existingBranches = suffixed ?b k
         \<and> suffixed ?b k \<notin> set existingBranches
         \<and> (\<forall>j. 2 \<le> j \<and> j < k \<longrightarrow> suffixed ?b j \<in> set existingBranches))"
  proof
    assume used: "?b \<in> set existingBranches"
    have "2 \<le> ?k" by (rule probe_ge)
    moreover have "findAvailableBranchName identifier existingBranches = suffixed ?b ?k"
      using used by (simp add: findAvailableBranchName_def Let_def)
    moreover have "suffixed ?b ?k \<notin> set existingBranches" by (rule probe_miss)
    moreover have "\<forall>j. 2 \<le> j \<and> j < ?k \<longrightarrow> suffixed ?b j \<in> set existingBranches"
      using probe_hits_below [of 2 _ ?b existingBranches] by blast
    ultimately show "\<exists>k. 2 \<le> k
         \<and> findAvailableBranchName identifier existingBranches = suffixed ?b k
         \<and> suffixed ?b k \<notin> set existingBranches
         \<and> (\<forall>j. 2 \<le> j \<and> j < k \<longrightarrow> suffixed ?b j \<in> set existingBranches)"
      by blast
  qed
  from lower pre cls re empty fresh base scan show ?thesis by blast
qed

text \<open>The amended claim at the identifier \<open>ABC-123\<close> with the branches \<open>main\<close>,
  \<open>agent/abc-123\<close> and \<open>agent/abc-123-2\<close>: both hypotheses hold, and the name is
  \<open>agent/abc-123-3\<close>.\<close>

theorem branch_namer_amended_witness:
  "''ABC-123'' \<noteq> []
   \<and> generateBranchName ''ABC-123'' \<in> set [''main'', ''agent/abc-123'', ''agent/abc-123-2'']
   \<and> matches_agent_branch (generateBranchName ''ABC-123'')
   \<and> findAvailableBranchName ''ABC-123'' [''main'', ''agent/abc-123'', ''agent/abc-123-2'']
       \<notin> set [''main'', ''agent/abc-123'', ''agent/abc-123-2'']
   \<and> findAvailableBranchName ''ABC-123'' [''main'', ''agent/abc-123'', ''agent/abc-123-2'']
       = ''agent/abc-123-3''"
proof -
  have name: "generateBranchName ''ABC-123'' = ''agent/abc-123''" by code_simp
  have res: "findAvailableBranchName ''ABC-123'' [''main'', ''agent/abc-123'', ''agent/abc-123-2'']
      = ''agent/abc-123-3''" by code_simp
  show ?thesis
    using branch_namer_amended
      [of "''ABC-123''" "[''main'', ''agent/abc-123'', ''agent/abc-123-2'']"]
    by (simp add: name res)
qed


section \<open>Webhook signatures (utils/crypto.ts)\<close>

type_synonym byte = "8 word"

text \<open>\<open>TextEncoder.encode\<close>: UTF-8. A code unit below 128 is one byte; a code unit
  from 128 to 255 is the two bytes \<open>110000xx 10xxxxxx\<close>.\<close>

definition utf8_char :: "char \<Rightarrow> byte list" where
  "utf8_char c =
     (let n = (of_char c :: nat) in
      if n < 128 then [of_nat n] else [of_nat (192 + n div 64), of_nat (128 + n mod 64)])"

definition encode :: "string \<Rightarrow> byte list" where
  "encode s = concat (map utf8_char s)"

text \<open>\<open>Number.prototype.toString(16)\<close>: digits \<open>0-9a-f\<close>, no leading zero.\<close>

definition hex_digit :: "nat \<Rightarrow> char" where
  "hex_digit d = (if d < 10 then char_of (48 + d) else char_of (87 + d))"

fun toString16 :: "nat \<Rightarrow> string" where
  "toString16 n =
     (if n < 16 then [hex_digit n] else toString16 (n div 16) @ [hex_digit (n mod 16)])"

declare toString16.simps [simp del]

text \<open>\<open>padStart(2, '0')\<close>.\<close>

definition padStart2 :: "string \<Rightarrow> string" where
  "padStart2 s = replicate (2 - length s) (CHR ''0'') @ s"

definition arrayBufferToHex :: "byte list \<Rightarrow> string" where
  "arrayBufferToHex buffer = concat (map (\<lambda>b. padStart2 (toString16 (unat b))) buffer)"

text \<open>\<open>charCodeAt\<close>, as the 32-bit integer the bitwise operators work on.\<close>

definition charCodeAt :: "string \<Rightarrow> nat \<Rightarrow> 32 word" where
  "charCodeAt s i = word_of_nat (of_char (s ! i))"

text \<open>The loop of \<open>timingSafeEqual\<close>; it runs only on strings of equal length, so both
  reads are in range.\<close>

function xor_loop :: "string \<Rightarrow> string \<Rightarrow> nat \<Rightarrow> 32 word \<Rightarrow> 32 word" where
  "xor_loop a b i result =
     (if i < length a
      then xor_loop a b (i + 1) (result OR (charCodeAt a i XOR charCodeAt b i))
      else result)"
  by pat_completeness auto
termination
  by (relation "measure (\<lambda>(a, b, i, result). length a - i)") auto

declare xor_loop.simps [simp del]

definition timingSafeEqual :: "string \<Rightarrow> string \<Rightarrow> bool" where
  "timingSafeEqual a b =
     (if length a \<noteq> length b then False else xor_loop a b 0 0 = 0)"

text \<open>
  The exceptions of the program. \<open>Error msg\<close> is \<open>new Error(msg)\<close>, thrown by the
  program or by D1; \<open>TypeError p\<close> is the error of reading the property \<open>p\<close> of
  \<open>undefined\<close>; \<open>SyntaxError\<close> is the error of \<open>JSON.parse\<close>; \<open>DataError\<close> is the
  error of \<open>crypto.subtle.importKey\<close>.
\<close>

datatype error = Error string | TypeError string | SyntaxError | DataError

text \<open>
  \<open>crypto.subtle.importKey('raw', keyData, {name: 'HMAC', hash: 'SHA-256'}, false,
  ['sign'])\<close>: a key of length zero is rejected with a \<open>DataError\<close>; any other key
  data is the key. \<open>crypto.subtle.sign('HMAC', key, data)\<close> is the runtime's
  HMAC-SHA-256: it is a parameter \<open>hmac key message\<close> of the two verifiers, any function
  from two byte strings to a byte string.
\<close>

definition importKey :: "byte list \<Rightarrow> error + byte list" where
  "importKey keyData = (if keyData = [] then Inl DataError else Inr keyData)"

definition verifyLinearSignature ::
  "(byte list \<Rightarrow> byte list \<Rightarrow> byte list) \<Rightarrow> string \<Rightarrow> string \<Rightarrow> string \<Rightarrow> error + bool" where
  "verifyLinearSignature hmac body signature secret =
     (case importKey (encode secret) of
        Inl e \<Rightarrow> Inl e
      | Inr key \<Rightarrow>
          (let signatureBuffer = hmac key (encode body);
               expected = arrayBufferToHex signatureBuffer
           in Inr (timingSafeEqual signature expected)))"

definition verifyGitHubSignature ::
  "(byte list \<Rightarrow> byte list \<Rightarrow> byte list) \<Rightarrow> string \<Rightarrow> string \<Rightarrow> string \<Rightarrow> error + bool" where
  "verifyGitHubSignature hmac body signature secret =
     (if \<not> startsWith signature ''sha256='' then Inr False
      else
        (let providedSignature = drop 7 signature in
         case importKey (encode secret) of
           Inl e \<Rightarrow> Inl e
         | Inr key \<Rightarrow>
             (let signatureBuffer = hmac key (encode body);
                  expected = arrayBufferToHex signatureBuffer
              in Inr (timingSafeEqual providedSignature expected))))"

text \<open>The lowercase hexadecimal digest, as the specification words it: two digits of
  \<open>0123456789abcdef\<close> for each byte, the high one first.\<close>

definition hex_lower :: "byte list \<Rightarrow> string" where
  "hex_lower bs =
     concat (map (\<lambda>b. [''0123456789abcdef'' ! (unat b div 16),
                         ''0123456789abcdef'' ! (unat b mod 16)]) bs)"

subsection \<open>The comparison is equality\<close>

lemma word_xor_eq_0: "(x XOR y = 0) = (x = y)" for x y :: "32 word"
proof
  assume "x XOR y = 0"
  then have "(x XOR y) XOR y = 0 XOR y" by simp
  then show "x = y" by (simp add: xor.assoc)
next
  assume "x = y"
  then show "x XOR y = 0" by simp
qed

lemma charCodeAt_eq: "(charCodeAt a i = charCodeAt b i) = (a ! i = b ! i)"
proof -
  have lt: "(of_char c :: nat) < 2 ^ 32" for c :: char
  proof -
    have "(of_char c :: nat) < 256" by simp
    also have "(256 :: nat) < 2 ^ 32" by simp
    finally show ?thesis .
  qed
  show ?thesis
    unfolding charCodeAt_def word_of_nat_eq_iff
    using lt [of "a ! i"] lt [of "b ! i"] by (simp add: take_bit_nat_eq_self)
qed

lemma xor_loop_zero:
  "(xor_loop a b i r = 0) = (r = 0 \<and> (\<forall>j. i \<le> j \<and> j < length a \<longrightarrow> a ! j = b ! j))"
proof (induction a b i r rule: xor_loop.induct)
  case (1 a b i r)
  show ?case
  proof (cases "i < length a")
    case True
    have split: "(\<forall>j. i \<le> j \<and> j < length a \<longrightarrow> a ! j = b ! j)
        = (a ! i = b ! i \<and> (\<forall>j. i + 1 \<le> j \<and> j < length a \<longrightarrow> a ! j = b ! j))"
    proof (intro iffI conjI allI impI)
      assume h: "\<forall>j. i \<le> j \<and> j < length a \<longrightarrow> a ! j = b ! j"
      from h True show "a ! i = b ! i" by simp
      fix j assume "i + 1 \<le> j \<and> j < length a"
      with h show "a ! j = b ! j" by simp
    next
      fix j
      assume h: "a ! i = b ! i \<and> (\<forall>j. i + 1 \<le> j \<and> j < length a \<longrightarrow> a ! j = b ! j)"
        and j: "i \<le> j \<and> j < length a"
      show "a ! j = b ! j"
      proof (cases "j = i")
        case True
        with h show ?thesis by simp
      next
        case False
        with j have "i + 1 \<le> j \<and> j < length a" by simp
        with h show ?thesis by blast
      qed
    qed
    have step: "xor_loop a b i r = xor_loop a b (i + 1) (r OR (charCodeAt a i XOR charCodeAt b i))"
      using True by (subst xor_loop.simps) simp
    have "(xor_loop a b i r = 0)
        = (r OR (charCodeAt a i XOR charCodeAt b i) = 0
           \<and> (\<forall>j. i + 1 \<le> j \<and> j < length a \<longrightarrow> a ! j = b ! j))"
      unfolding step using "1.IH" [OF True] .
    also have "\<dots> = (r = 0 \<and> a ! i = b ! i
           \<and> (\<forall>j. i + 1 \<le> j \<and> j < length a \<longrightarrow> a ! j = b ! j))"
      by (simp only: or_eq_0_iff word_xor_eq_0 charCodeAt_eq conj_assoc)
    finally show ?thesis unfolding split .
  next
    case False
    then show ?thesis by (subst xor_loop.simps) auto
  qed
qed

lemma timingSafeEqual_iff: "timingSafeEqual a b = (a = b)"
  by (auto simp: timingSafeEqual_def xor_loop_zero list_eq_iff_nth_eq)


subsection \<open>The hexadecimal rendering\<close>

lemma hex_digit_table: "\<forall>d \<in> set [0..<16]. hex_digit d = ''0123456789abcdef'' ! d"
  by code_simp

lemma hex_digit_nth: "d < 16 \<Longrightarrow> hex_digit d = ''0123456789abcdef'' ! d"
proof -
  assume "d < 16"
  then have "d \<in> set [0..<16]" by (simp only: set_upt atLeastLessThan_iff) simp
  with hex_digit_table show ?thesis by (rule bspec)
qed

lemma hex_digit_inj: "d < 16 \<Longrightarrow> e < 16 \<Longrightarrow> hex_digit d = hex_digit e \<Longrightarrow> d = e"
proof -
  assume d: "d < 16" and e: "e < 16" and eq: "hex_digit d = hex_digit e"
  have dist: "distinct ''0123456789abcdef''" by simp
  have len: "length ''0123456789abcdef'' = 16" by simp
  from eq d e have "''0123456789abcdef'' ! d = ''0123456789abcdef'' ! e"
    by (simp only: hex_digit_nth)
  with dist d e len show "d = e" by (simp only: nth_eq_iff_index_eq)
qed

lemma byte_hex: "padStart2 (toString16 (unat b)) = [hex_digit (unat b div 16), hex_digit (unat b mod 16)]"
  for b :: byte
proof -
  have lt: "unat b < 256" using unsigned_less [of b] by simp
  show ?thesis
  proof (cases "unat b < 16")
    case True
    then have "toString16 (unat b) = [hex_digit (unat b)]"
      by (subst toString16.simps) simp
    moreover have "hex_digit 0 = CHR ''0''" by code_simp
    ultimately show ?thesis using True by (simp add: padStart2_def)
  next
    case False
    from lt have "unat b div 16 < 16" by simp
    then have "toString16 (unat b div 16) = [hex_digit (unat b div 16)]"
      by (subst toString16.simps) simp
    with False have "toString16 (unat b) = [hex_digit (unat b div 16), hex_digit (unat b mod 16)]"
      by (subst toString16.simps) simp
    then show ?thesis by (simp add: padStart2_def)
  qed
qed

lemma arrayBufferToHex_Nil: "arrayBufferToHex [] = []"
  by (simp add: arrayBufferToHex_def)

lemma arrayBufferToHex_Cons:
  "arrayBufferToHex (b # bs)
     = hex_digit (unat b div 16) # hex_digit (unat b mod 16) # arrayBufferToHex bs"
  by (simp add: arrayBufferToHex_def byte_hex)

lemma arrayBufferToHex_hex_lower: "arrayBufferToHex buffer = hex_lower buffer"
proof (induction buffer)
  case Nil
  show ?case by (simp add: arrayBufferToHex_Nil hex_lower_def)
next
  case (Cons b bs)
  have lt: "unat b < 256" using unsigned_less [of b] by simp
  then have "unat b div 16 < 16" and "unat b mod 16 < 16" by simp_all
  then have "hex_digit (unat b div 16) = ''0123456789abcdef'' ! (unat b div 16)"
    and "hex_digit (unat b mod 16) = ''0123456789abcdef'' ! (unat b mod 16)"
    by (simp_all only: hex_digit_nth)
  moreover have "hex_lower (b # bs)
      = (''0123456789abcdef'' ! (unat b div 16)) # (''0123456789abcdef'' ! (unat b mod 16))
          # hex_lower bs"
    by (simp add: hex_lower_def)
  ultimately show ?case using Cons.IH by (simp only: arrayBufferToHex_Cons)
qed

lemma arrayBufferToHex_length: "length (arrayBufferToHex buffer) = 2 * length buffer"
  by (induction buffer) (simp_all add: arrayBufferToHex_Nil arrayBufferToHex_Cons)

lemma byte_of_digits:
  "unat a div 16 = unat b div 16 \<Longrightarrow> unat a mod 16 = unat b mod 16 \<Longrightarrow> a = b"
  for a b :: byte
proof -
  assume d: "unat a div 16 = unat b div 16" and m: "unat a mod 16 = unat b mod 16"
  have "unat a = 16 * (unat a div 16) + unat a mod 16" by simp
  also have "\<dots> = 16 * (unat b div 16) + unat b mod 16" using d m by simp
  also have "\<dots> = unat b" by simp
  finally show "a = b" by (simp add: word_unat_eq_iff)
qed

lemma arrayBufferToHex_inj: "arrayBufferToHex xs = arrayBufferToHex ys \<Longrightarrow> xs = ys"
proof (induction xs arbitrary: ys)
  case Nil
  then show ?case by (cases ys) (simp_all add: arrayBufferToHex_Nil arrayBufferToHex_Cons)
next
  case (Cons a xs)
  show ?case
  proof (cases ys)
    case Nil
    with Cons.prems show ?thesis by (simp add: arrayBufferToHex_Nil arrayBufferToHex_Cons)
  next
    case (Cons b zs)
    with Cons.prems have
      h1: "hex_digit (unat a div 16) = hex_digit (unat b div 16)" and
      h2: "hex_digit (unat a mod 16) = hex_digit (unat b mod 16)" and
      h3: "arrayBufferToHex xs = arrayBufferToHex zs"
      by (simp_all add: arrayBufferToHex_Cons)
    have "unat a < 256" and "unat b < 256"
      using unsigned_less [of a] unsigned_less [of b] by simp_all
    then have r: "unat a div 16 < 16" "unat b div 16 < 16" "unat a mod 16 < 16" "unat b mod 16 < 16"
      by simp_all
    from r h1 have "unat a div 16 = unat b div 16" by (simp only: hex_digit_inj)
    moreover from r h2 have "unat a mod 16 = unat b mod 16" by (simp only: hex_digit_inj)
    ultimately have "a = b" by (rule byte_of_digits)
    with Cons.IH [OF h3] Cons show ?thesis by simp
  qed
qed


lemma utf8_char_nonempty: "utf8_char c \<noteq> []"
  by (simp add: utf8_char_def Let_def)

lemma encode_empty: "(encode s = []) = (s = [])"
  by (cases s) (simp_all add: encode_def utf8_char_nonempty)

lemma verifyLinearSignature_iff:
  "secret \<noteq> []
   \<Longrightarrow> verifyLinearSignature hmac body signature secret
         = Inr (signature = hex_lower (hmac (encode secret) (encode body)))"
  by (simp add: verifyLinearSignature_def importKey_def encode_empty Let_def timingSafeEqual_iff
      arrayBufferToHex_hex_lower)

lemma verifyLinearSignature_empty:
  "verifyLinearSignature hmac body signature [] = Inl DataError"
  by (simp add: verifyLinearSignature_def importKey_def encode_def)

lemma startsWith_drop: "startsWith s p \<Longrightarrow> s = p @ drop (length p) s"
  unfolding startsWith_def by (metis append_take_drop_id)

lemma verifyGitHubSignature_iff:
  assumes "secret \<noteq> []"
  shows "verifyGitHubSignature hmac body signature secret
     = Inr (signature = ''sha256='' @ hex_lower (hmac (encode secret) (encode body)))"
proof (cases "startsWith signature ''sha256=''")
  case True
  define rest where "rest = drop 7 signature"
  have "length ''sha256='' = 7" by simp
  with startsWith_drop [OF True] have s: "signature = ''sha256='' @ rest"
    unfolding rest_def by (simp only:)
  have v: "verifyGitHubSignature hmac body signature secret
      = Inr (rest = hex_lower (hmac (encode secret) (encode body)))"
    using True assms unfolding rest_def
    by (simp add: verifyGitHubSignature_def importKey_def encode_empty Let_def timingSafeEqual_iff
        arrayBufferToHex_hex_lower)
  show ?thesis
    unfolding v by (subst s) (simp only: same_append_eq)
next
  case False
  then have "signature \<noteq> ''sha256='' @ hex_lower (hmac (encode secret) (encode body))"
    by (auto simp: startsWith_def)
  with False show ?thesis by (simp add: verifyGitHubSignature_def)
qed

lemma verifyGitHubSignature_empty:
  "verifyGitHubSignature hmac body signature []
     = (if startsWith signature ''sha256='' then Inl DataError else Inr False)"
  by (simp add: verifyGitHubSignature_def importKey_def encode_def)

text \<open>
  Claim C6, as stated: for every body, signature and secret, each verifier returns a
  boolean, true exactly when the signature is the lowercase hexadecimal digest (after
  \<open>sha256=\<close> for the CI variant). For the empty secret the key import throws, so the
  Linear verifier returns no boolean at all.
\<close>

theorem signature_verification_empty_secret_counterexample:
  "\<not> (\<forall>hmac body signature secret.
        verifyLinearSignature hmac body signature secret
          = Inr (signature = hex_lower (hmac (encode secret) (encode body)))
        \<and> verifyGitHubSignature hmac body signature secret
          = Inr (signature = ''sha256='' @ hex_lower (hmac (encode secret) (encode body))))"
proof
  assume "\<forall>hmac body signature secret.
        verifyLinearSignature hmac body signature secret
          = Inr (signature = hex_lower (hmac (encode secret) (encode body)))
        \<and> verifyGitHubSignature hmac body signature secret
          = Inr (signature = ''sha256='' @ hex_lower (hmac (encode secret) (encode body)))"
  then have "verifyLinearSignature (\<lambda>k m. k @ m) ''a'' ''61'' []
      = Inr (''61'' = hex_lower ((\<lambda>k m. k @ m) (encode []) (encode ''a'')))"
    by blast
  then show False by (simp add: verifyLinearSignature_empty)
qed

text \<open>
  Claim C6, amended. For every body, every signature and every secret that is not
  empty, each verifier returns a boolean and throws nothing, and the boolean is true
  exactly when the signature is the lowercase hexadecimal digest of the HMAC of the
  body under the secret (for the CI variant, that digest after the literal
  \<open>sha256=\<close>). A signature made for another body whose digest differs, and a
  signature of another length, verify false. For the empty secret the key import throws
  a \<open>DataError\<close>: the Linear verifier throws it for every body and signature, the CI
  verifier throws it when the signature starts with \<open>sha256=\<close> and returns false
  otherwise.
\<close>

theorem signature_verification_amended:
  "(secret \<noteq> [] \<longrightarrow>
      verifyLinearSignature hmac body signature secret
        = Inr (signature = hex_lower (hmac (encode secret) (encode body)))
      \<and> verifyGitHubSignature hmac body signature secret
        = Inr (signature = ''sha256='' @ hex_lower (hmac (encode secret) (encode body)))
      \<and> (hmac (encode secret) (encode tampered) \<noteq> hmac (encode secret) (encode body) \<longrightarrow>
           verifyLinearSignature hmac tampered
               (hex_lower (hmac (encode secret) (encode body))) secret = Inr False
           \<and> verifyGitHubSignature hmac tampered
               (''sha256='' @ hex_lower (hmac (encode secret) (encode body))) secret = Inr False)
      \<and> (length signature \<noteq> 2 * length (hmac (encode secret) (encode body)) \<longrightarrow>
           verifyLinearSignature hmac body signature secret = Inr False)
      \<and> (length signature \<noteq> 7 + 2 * length (hmac (encode secret) (encode body)) \<longrightarrow>
           verifyGitHubSignature hmac body signature secret = Inr False))
   \<and> verifyLinearSignature hmac body signature [] = Inl DataError
   \<and> verifyGitHubSignature hmac body signature []
       = (if startsWith signature ''sha256='' then Inl DataError else Inr False)"
proof -
  let ?d = "hmac (encode secret) (encode body)"
  let ?t = "hmac (encode secret) (encode tampered)"
  have len: "length (hex_lower bs) = 2 * length bs" for bs
    using arrayBufferToHex_length [of bs] by (simp add: arrayBufferToHex_hex_lower)
  have inj: "hex_lower xs = hex_lower ys \<Longrightarrow> xs = ys" for xs ys
    using arrayBufferToHex_inj [of xs ys] by (simp add: arrayBufferToHex_hex_lower)
  have main: "verifyLinearSignature hmac body signature secret = Inr (signature = hex_lower ?d)
      \<and> verifyGitHubSignature hmac body signature secret
        = Inr (signature = ''sha256='' @ hex_lower ?d)
      \<and> (?t \<noteq> ?d \<longrightarrow>
           verifyLinearSignature hmac tampered (hex_lower ?d) secret = Inr False
           \<and> verifyGitHubSignature hmac tampered (''sha256='' @ hex_lower ?d) secret = Inr False)
      \<and> (length signature \<noteq> 2 * length ?d \<longrightarrow>
           verifyLinearSignature hmac body signature secret = Inr False)
      \<and> (length signature \<noteq> 7 + 2 * length ?d \<longrightarrow>
           verifyGitHubSignature hmac body signature secret = Inr False)"
    if ne: "secret \<noteq> []"
  proof -
    have tamper: "?t \<noteq> ?d \<longrightarrow>
        verifyLinearSignature hmac tampered (hex_lower ?d) secret = Inr False
        \<and> verifyGitHubSignature hmac tampered (''sha256='' @ hex_lower ?d) secret = Inr False"
      unfolding verifyLinearSignature_iff [OF ne] verifyGitHubSignature_iff [OF ne] same_append_eq
      by (auto dest: inj)
    have l1: "length signature \<noteq> 2 * length ?d \<longrightarrow>
        verifyLinearSignature hmac body signature secret = Inr False"
      unfolding verifyLinearSignature_iff [OF ne] using len [of ?d] by auto
    have l2: "length signature \<noteq> 7 + 2 * length ?d \<longrightarrow>
        verifyGitHubSignature hmac body signature secret = Inr False"
      unfolding verifyGitHubSignature_iff [OF ne] using len [of ?d] by auto
    from tamper l1 l2 show ?thesis
      by (simp only: verifyLinearSignature_iff [OF ne] verifyGitHubSignature_iff [OF ne] simp_thms)
  qed
  from main verifyLinearSignature_empty [of hmac body signature]
    verifyGitHubSignature_empty [of hmac body signature]
  show ?thesis by blast
qed

text \<open>The amended claim at a toy keyed digest (key and message concatenated), secret
  \<open>k\<close>, body \<open>a\<close>: the digest is the bytes 6b 61.\<close>

theorem signature_verification_amended_witness:
  "''k'' \<noteq> []
   \<and> (\<lambda>k m. k @ m) (encode ''k'') (encode ''b'') \<noteq> (\<lambda>k m. k @ m) (encode ''k'') (encode ''a'')
   \<and> length ''6b6'' \<noteq> 2 * length ((\<lambda>k m. k @ m) (encode ''k'') (encode ''a''))
   \<and> length ''sha256=6b'' \<noteq> 7 + 2 * length ((\<lambda>k m. k @ m) (encode ''k'') (encode ''a''))
   \<and> verifyLinearSignature (\<lambda>k m. k @ m) ''a'' ''6b61'' ''k'' = Inr True
   \<and> verifyLinearSignature (\<lambda>k m. k @ m) ''b'' ''6b61'' ''k'' = Inr False
   \<and> verifyLinearSignature (\<lambda>k m. k @ m) ''a'' ''6b6'' ''k'' = Inr False
   \<and> verifyGitHubSignature (\<lambda>k m. k @ m) ''a'' ''sha256=6b61'' ''k'' = Inr True
   \<and> verifyGitHubSignature (\<lambda>k m. k @ m) ''b'' ''sha256=6b61'' ''k'' = Inr False
   \<and> verifyGitHubSignature (\<lambda>k m. k @ m) ''a'' ''sha256=6b'' ''k'' = Inr False
   \<and> verifyLinearSignature (\<lambda>k m. k @ m) ''a'' ''6b61'' [] = Inl DataError
   \<and> verifyGitHubSignature (\<lambda>k m. k @ m) ''a'' ''sha256=6b61'' [] = Inl DataError"
proof -
  have ek: "encode ''k'' = [107]" and ea: "encode ''a'' = [97]" and eb: "encode ''b'' = [98]"
    by code_simp+
  have hx: "hex_lower [107, 97] = ''6b61''" by code_simp
  have sw: "startsWith ''sha256=6b61'' ''sha256=''" by (simp add: startsWith_def)
  have d: "(\<lambda>k m. k @ m) (encode ''k'') (encode ''b'') \<noteq> (\<lambda>k m. k @ m) (encode ''k'') (encode ''a'')"
    by (simp add: ek ea eb)
  show ?thesis
    using signature_verification_amended [of "''k''" "\<lambda>k m. k @ m" "''a''" "''6b61''" "''b''"]
      signature_verification_amended [of "''k''" "\<lambda>k m. k @ m" "''a''" "''6b6''" "''b''"]
      signature_verification_amended [of "''k''" "\<lambda>k m. k @ m" "''a''" "''sha256=6b61''" "''b''"]
      signature_verification_amended [of "''k''" "\<lambda>k m. k @ m" "''a''" "''sha256=6b''" "''b''"]
    by (simp add: ek ea eb hx sw)
qed

section \<open>The store (db/queries.ts and the migrations)\<close>

text \<open>
  Each table is the list of its rows in insertion order. A column that no query reads
  or compares is left out (the row ids and timestamps of the tables other than
  \<open>workflow_runs\<close> and \<open>pending_workflow_triggers\<close>). A timestamp is a number of
  seconds: \<open>datetime('now')\<close> texts compare as their instants do. The parameter \<open>now\<close>
  of a query is the value of \<open>datetime('now')\<close> when it runs. D1 enforces the
  constraints of the schema, the foreign keys included: a statement that breaks one
  changes nothing and is rejected with an error.
\<close>

datatype constraint_failure =
    UniqueConstraint string
  | ForeignKeyConstraint
  | CheckConstraint string

text \<open>The error of a rejected statement: an \<open>Error\<close> whose message is SQLite's text
  for the constraint after the prefix \<open>D1_ERROR\<close> (the result code that D1 appends
  to the text is left out).\<close>

definition d1_error :: "constraint_failure \<Rightarrow> error" where
  "d1_error f =
     Error (''D1_ERROR: ''
            @ (case f of
                 UniqueConstraint columns \<Rightarrow> ''UNIQUE constraint failed: '' @ columns
               | ForeignKeyConstraint \<Rightarrow> ''FOREIGN KEY constraint failed''
               | CheckConstraint name \<Rightarrow> ''CHECK constraint failed: '' @ name))"

datatype run_status = Queued | InProgress | Completed

datatype webhook_type = Linear | GitHub

record TeamConfig =
  tc_linear_workspace_id :: string
  tc_linear_team_id :: string
  tc_linear_team_name :: "string option"
  tc_github_installation_id :: "nat option"
  tc_github_owner :: "string option"
  tc_github_repo :: "string option"
  tc_github_branch :: string

record GitHubInstallation =
  gi_installation_id :: nat
  gi_account_login :: string
  gi_account_type :: string

record WorkflowRun =
  wr_id :: nat
  wr_github_run_id :: nat
  wr_github_owner :: string
  wr_github_repo :: string
  wr_agent_session_id :: string
  wr_linear_issue_id :: string
  wr_linear_issue_identifier :: string
  wr_linear_workspace_id :: "string option"
  wr_workflow_type :: string
  wr_branch_name :: string
  wr_status :: run_status
  wr_conclusion :: "string option"
  wr_pr_number :: "nat option"
  wr_pr_url :: "string option"
  wr_created_at :: nat
  wr_updated_at :: nat

record RunLog =
  rl_workflow_run_id :: "nat option"
  rl_agent_session_id :: "string option"
  rl_event_type :: string
  rl_message :: "string option"
  rl_metadata :: "(string \<times> string) list option"

record PendingWorkflowTrigger =
  pt_id :: nat
  pt_agent_session_id :: string
  pt_linear_workspace_id :: "string option"
  pt_linear_issue_id :: string
  pt_linear_issue_identifier :: "string option"
  pt_workflow_type :: string
  pt_github_owner :: string
  pt_github_repo :: string
  pt_branch_name :: string
  pt_created_at :: nat
  pt_matched_at :: "nat option"

record PendingConfig =
  pc_agent_session_id :: string
  pc_linear_workspace_id :: string
  pc_linear_team_id :: string
  pc_pending_issue_id :: string
  pc_pending_issue_identifier :: string

text \<open>A row of \<open>oauth_tokens\<close>, with the columns \<open>getOAuthToken\<close> reads. The column
  \<open>expires_at\<close> holds the ISO text of an instant, as \<open>refreshOAuthToken\<close> writes it
  with \<open>toISOString\<close>; the model keeps the instant, in milliseconds, which is what
  \<open>new Date(text).getTime()\<close> reads back.\<close>

record OAuthToken =
  ot_workspace_id :: string
  ot_access_token :: string
  ot_refresh_token :: "string option"
  ot_expires_at :: "nat option"

text \<open>The two \<open>_seq\<close> fields are the AUTOINCREMENT counters: the last id handed out.\<close>

record database =
  team_configs :: "TeamConfig list"
  github_installations :: "GitHubInstallation list"
  workflow_runs :: "WorkflowRun list"
  workflow_runs_seq :: nat
  processed_webhooks :: "(string \<times> webhook_type) list"
  run_log :: "RunLog list"
  pending_workflow_triggers :: "PendingWorkflowTrigger list"
  pending_workflow_triggers_seq :: nat
  pending_configs :: "PendingConfig list"
  oauth_tokens :: "OAuthToken list"

text \<open>JavaScript truthiness of a nullable string or number, and \<open>x || null\<close>.\<close>

definition truthy_str :: "string option \<Rightarrow> bool" where
  "truthy_str s = (s \<noteq> None \<and> s \<noteq> Some [])"

definition truthy_num :: "nat option \<Rightarrow> bool" where
  "truthy_num n = (n \<noteq> None \<and> n \<noteq> Some 0)"

definition or_null :: "string option \<Rightarrow> string option" where
  "or_null s = (if truthy_str s then s else None)"

definition num_or_null :: "nat option \<Rightarrow> nat option" where
  "num_or_null n = (if truthy_num n then n else None)"

text \<open>
  \<open>ORDER BY created_at DESC LIMIT 1\<close>: a row with the greatest timestamp. SQLite leaves
  the choice among rows of equal timestamp open; the model takes the one stored first.
\<close>

fun latest :: "('a \<Rightarrow> nat) \<Rightarrow> 'a list \<Rightarrow> 'a option" where
  "latest t [] = None"
| "latest t (x # xs) =
     (case latest t xs of
        None \<Rightarrow> Some x
      | Some y \<Rightarrow> if t x < t y then Some y else Some x)"

subsection \<open>Team configs\<close>

definition getTeamConfigByWorkspace :: "string \<Rightarrow> string \<Rightarrow> database \<Rightarrow> TeamConfig option" where
  "getTeamConfigByWorkspace linearWorkspaceId linearTeamId d =
     find (\<lambda>c. tc_linear_workspace_id c = linearWorkspaceId \<and> tc_linear_team_id c = linearTeamId)
       (team_configs d)"

text \<open>The arguments of \<open>createTeamConfig\<close>; an absent property is \<open>None\<close>.\<close>

record NewTeamConfig =
  ntc_linearWorkspaceId :: string
  ntc_linearTeamId :: string
  ntc_linearTeamName :: "string option"
  ntc_githubInstallationId :: "nat option"
  ntc_githubOwner :: "string option"
  ntc_githubRepo :: "string option"
  ntc_githubBranch :: "string option"

text \<open>\<open>INSERT ... RETURNING *\<close>. The insert is rejected on \<open>UNIQUE(linear_workspace_id,
  linear_team_id)\<close>, and on the foreign key of \<open>github_installation_id\<close> when the
  value is not null and no installation has it as its \<open>installation_id\<close>. An insert
  that succeeds returns its row, so the test \<open>if (!result)\<close> never fires.\<close>

definition createTeamConfig ::
  "NewTeamConfig \<Rightarrow> database \<Rightarrow> constraint_failure + (TeamConfig \<times> database)" where
  "createTeamConfig config d =
     (let row = \<lparr> tc_linear_workspace_id = ntc_linearWorkspaceId config,
                  tc_linear_team_id = ntc_linearTeamId config,
                  tc_linear_team_name = or_null (ntc_linearTeamName config),
                  tc_github_installation_id = num_or_null (ntc_githubInstallationId config),
                  tc_github_owner = or_null (ntc_githubOwner config),
                  tc_github_repo = or_null (ntc_githubRepo config),
                  tc_github_branch =
                    (case or_null (ntc_githubBranch config) of
                       None \<Rightarrow> ''main''
                     | Some b \<Rightarrow> b) \<rparr>
      in
      if getTeamConfigByWorkspace (ntc_linearWorkspaceId config) (ntc_linearTeamId config) d \<noteq> None
      then Inl (UniqueConstraint ''team_configs.linear_workspace_id, team_configs.linear_team_id'')
      else if (case tc_github_installation_id row of
                 None \<Rightarrow> False
               | Some i \<Rightarrow> i \<notin> gi_installation_id ` set (github_installations d))
      then Inl ForeignKeyConstraint
      else Inr (row, d\<lparr>team_configs := team_configs d @ [row]\<rparr>))"

subsection \<open>GitHub installations\<close>

definition getGitHubInstallationByAccount :: "string \<Rightarrow> database \<Rightarrow> GitHubInstallation option" where
  "getGitHubInstallationByAccount accountLogin d =
     find (\<lambda>i. gi_account_login i = accountLogin) (github_installations d)"

definition getGitHubInstallation :: "nat \<Rightarrow> database \<Rightarrow> GitHubInstallation option" where
  "getGitHubInstallation installationId d =
     find (\<lambda>i. gi_installation_id i = installationId) (github_installations d)"

text \<open>\<open>INSERT ... RETURNING *\<close> with \<open>installation_id\<close> UNIQUE.\<close>

definition createGitHubInstallation ::
  "GitHubInstallation \<Rightarrow> database \<Rightarrow> constraint_failure + (GitHubInstallation \<times> database)" where
  "createGitHubInstallation installation d =
     (if getGitHubInstallation (gi_installation_id installation) d \<noteq> None
      then Inl (UniqueConstraint ''github_installations.installation_id'')
      else Inr (installation,
                d\<lparr>github_installations := github_installations d @ [installation]\<rparr>))"

text \<open>\<open>INSERT ... ON CONFLICT(installation_id) DO UPDATE\<close>.\<close>

definition upsertGitHubInstallation :: "GitHubInstallation \<Rightarrow> database \<Rightarrow> database" where
  "upsertGitHubInstallation installation d =
     (if getGitHubInstallation (gi_installation_id installation) d \<noteq> None
      then d\<lparr>github_installations :=
             map (\<lambda>i. if gi_installation_id i = gi_installation_id installation
                       then i\<lparr>gi_account_login := gi_account_login installation,
                              gi_account_type := gi_account_type installation\<rparr>
                       else i)
               (github_installations d)\<rparr>
      else d\<lparr>github_installations := github_installations d @ [installation]\<rparr>)"

text \<open>\<open>DELETE\<close>: rejected on the foreign key of \<open>team_configs\<close> when a row is deleted
  whose \<open>installation_id\<close> a team config refers to.\<close>

definition deleteGitHubInstallation :: "nat \<Rightarrow> database \<Rightarrow> constraint_failure + database" where
  "deleteGitHubInstallation installationId d =
     (if getGitHubInstallation installationId d \<noteq> None
         \<and> (\<exists>c \<in> set (team_configs d). tc_github_installation_id c = Some installationId)
      then Inl ForeignKeyConstraint
      else Inr (d\<lparr>github_installations :=
                   filter (\<lambda>i. gi_installation_id i \<noteq> installationId)
                     (github_installations d)\<rparr>))"

subsection \<open>Workflow runs\<close>

definition getWorkflowRun :: "nat \<Rightarrow> database \<Rightarrow> WorkflowRun option" where
  "getWorkflowRun githubRunId d =
     find (\<lambda>r. wr_github_run_id r = githubRunId) (workflow_runs d)"

definition getActiveWorkflowRunByIssue :: "string \<Rightarrow> database \<Rightarrow> WorkflowRun option" where
  "getActiveWorkflowRunByIssue linearIssueId d =
     latest wr_created_at
       (filter (\<lambda>r. wr_linear_issue_id r = linearIssueId \<and> wr_status r \<noteq> Completed)
          (workflow_runs d))"

text \<open>The arguments of \<open>createWorkflowRun\<close>.\<close>

record NewWorkflowRun =
  nwr_githubRunId :: nat
  nwr_githubOwner :: string
  nwr_githubRepo :: string
  nwr_agentSessionId :: string
  nwr_linearIssueId :: string
  nwr_linearIssueIdentifier :: string
  nwr_linearWorkspaceId :: "string option"
  nwr_workflowType :: string
  nwr_branchName :: string

text \<open>\<open>INSERT ... RETURNING *\<close> with \<open>github_run_id\<close> UNIQUE; the other columns take
  their defaults: status \<open>queued\<close>, no conclusion, no pull request.\<close>

definition createWorkflowRun ::
  "nat \<Rightarrow> NewWorkflowRun \<Rightarrow> database \<Rightarrow> constraint_failure + (WorkflowRun \<times> database)" where
  "createWorkflowRun now run d =
     (if getWorkflowRun (nwr_githubRunId run) d \<noteq> None
      then Inl (UniqueConstraint ''workflow_runs.github_run_id'')
      else
        (let row = \<lparr> wr_id = workflow_runs_seq d + 1,
                     wr_github_run_id = nwr_githubRunId run,
                     wr_github_owner = nwr_githubOwner run,
                     wr_github_repo = nwr_githubRepo run,
                     wr_agent_session_id = nwr_agentSessionId run,
                     wr_linear_issue_id = nwr_linearIssueId run,
                     wr_linear_issue_identifier = nwr_linearIssueIdentifier run,
                     wr_linear_workspace_id = or_null (nwr_linearWorkspaceId run),
                     wr_workflow_type = nwr_workflowType run,
                     wr_branch_name = nwr_branchName run,
                     wr_status = Queued,
                     wr_conclusion = None,
                     wr_pr_number = None,
                     wr_pr_url = None,
                     wr_created_at = now,
                     wr_updated_at = now \<rparr>
         in Inr (row, d\<lparr>workflow_runs := workflow_runs d @ [row],
                        workflow_runs_seq := workflow_runs_seq d + 1\<rparr>)))"

text \<open>The \<open>updates\<close> argument of \<open>updateWorkflowRun\<close>: the outer \<open>None\<close> is an absent
  property (\<open>undefined\<close>), \<open>Some None\<close> is \<open>null\<close>.\<close>

record WorkflowRunUpdates =
  upd_status :: "run_status option"
  upd_conclusion :: "string option option"
  upd_prNumber :: "nat option option"
  upd_prUrl :: "string option option"

definition no_updates :: WorkflowRunUpdates where
  "no_updates = \<lparr> upd_status = None, upd_conclusion = None, upd_prNumber = None, upd_prUrl = None \<rparr>"

text \<open>The SET clauses the function collects, applied to one row.\<close>

definition set_clauses :: "nat \<Rightarrow> WorkflowRunUpdates \<Rightarrow> WorkflowRun \<Rightarrow> WorkflowRun" where
  "set_clauses now updates r =
     (let r1 = (case upd_status updates of None \<Rightarrow> r | Some s \<Rightarrow> r\<lparr>wr_status := s\<rparr>);
          r2 = (case upd_conclusion updates of None \<Rightarrow> r1 | Some c \<Rightarrow> r1\<lparr>wr_conclusion := c\<rparr>);
          r3 = (case upd_prNumber updates of None \<Rightarrow> r2 | Some n \<Rightarrow> r2\<lparr>wr_pr_number := n\<rparr>);
          r4 = (case upd_prUrl updates of None \<Rightarrow> r3 | Some u \<Rightarrow> r3\<lparr>wr_pr_url := u\<rparr>)
      in r4\<lparr>wr_updated_at := now\<rparr>)"

definition updateWorkflowRun :: "nat \<Rightarrow> nat \<Rightarrow> WorkflowRunUpdates \<Rightarrow> database \<Rightarrow> database" where
  "updateWorkflowRun now githubRunId updates d =
     (if upd_status updates = None \<and> upd_conclusion updates = None
         \<and> upd_prNumber updates = None \<and> upd_prUrl updates = None
      then d
      else d\<lparr>workflow_runs :=
             map (\<lambda>r. if wr_github_run_id r = githubRunId then set_clauses now updates r else r)
               (workflow_runs d)\<rparr>)"

subsection \<open>Processed webhooks\<close>

definition isWebhookProcessed :: "string \<Rightarrow> webhook_type \<Rightarrow> database \<Rightarrow> bool" where
  "isWebhookProcessed webhookId webhookType d = ((webhookId, webhookType) \<in> set (processed_webhooks d))"

text \<open>\<open>INSERT OR IGNORE\<close>, with \<open>webhook_id\<close> UNIQUE: nothing happens when the id is
  already stored, under either type.\<close>

definition markWebhookProcessed :: "string \<Rightarrow> webhook_type \<Rightarrow> database \<Rightarrow> database" where
  "markWebhookProcessed webhookId webhookType d =
     (if webhookId \<in> fst ` set (processed_webhooks d) then d
      else d\<lparr>processed_webhooks := processed_webhooks d @ [(webhookId, webhookType)]\<rparr>)"

subsection \<open>Pending workflow triggers\<close>

record NewPendingWorkflowTrigger =
  npt_agentSessionId :: string
  npt_linearWorkspaceId :: "string option"
  npt_linearIssueId :: string
  npt_linearIssueIdentifier :: "string option"
  npt_workflowType :: string
  npt_githubOwner :: string
  npt_githubRepo :: string
  npt_branchName :: string

text \<open>\<open>INSERT OR REPLACE\<close> under \<open>UNIQUE(agent_session_id, workflow_type)\<close>: the row in
  conflict is deleted and the new row gets a fresh id. The table has the constraint
  \<open>CHECK (workflow_type IN ('onboard', 'implement'))\<close>.\<close>

definition createPendingWorkflowTrigger ::
  "nat \<Rightarrow> NewPendingWorkflowTrigger \<Rightarrow> database \<Rightarrow> constraint_failure + database" where
  "createPendingWorkflowTrigger now trigger d =
     (let row = \<lparr> pt_id = pending_workflow_triggers_seq d + 1,
                  pt_agent_session_id = npt_agentSessionId trigger,
                  pt_linear_workspace_id = or_null (npt_linearWorkspaceId trigger),
                  pt_linear_issue_id = npt_linearIssueId trigger,
                  pt_linear_issue_identifier = or_null (npt_linearIssueIdentifier trigger),
                  pt_workflow_type = npt_workflowType trigger,
                  pt_github_owner = npt_githubOwner trigger,
                  pt_github_repo = npt_githubRepo trigger,
                  pt_branch_name = npt_branchName trigger,
                  pt_created_at = now,
                  pt_matched_at = None \<rparr>
      in
      if npt_workflowType trigger \<noteq> ''onboard'' \<and> npt_workflowType trigger \<noteq> ''implement''
      then Inl (CheckConstraint ''workflow_type IN ('onboard', 'implement')'')
      else Inr (d\<lparr>pending_workflow_triggers :=
                   filter (\<lambda>t. \<not> (pt_agent_session_id t = npt_agentSessionId trigger
                                 \<and> pt_workflow_type t = npt_workflowType trigger))
                     (pending_workflow_triggers d) @ [row],
                 pending_workflow_triggers_seq := pending_workflow_triggers_seq d + 1\<rparr>))"

text \<open>The WHERE clause of \<open>matchPendingWorkflowTrigger\<close>.\<close>

definition trigger_candidate :: "string \<Rightarrow> string \<Rightarrow> string \<Rightarrow> PendingWorkflowTrigger \<Rightarrow> bool" where
  "trigger_candidate githubOwner githubRepo branchName t =
     (pt_github_owner t = githubOwner \<and> pt_github_repo t = githubRepo
      \<and> pt_branch_name t = branchName \<and> pt_matched_at t = None)"

definition matchPendingWorkflowTrigger ::
  "string \<Rightarrow> string \<Rightarrow> string \<Rightarrow> database \<Rightarrow> PendingWorkflowTrigger option" where
  "matchPendingWorkflowTrigger githubOwner githubRepo branchName d =
     latest pt_created_at
       (filter (trigger_candidate githubOwner githubRepo branchName) (pending_workflow_triggers d))"

definition markPendingWorkflowMatched :: "nat \<Rightarrow> nat \<Rightarrow> database \<Rightarrow> database" where
  "markPendingWorkflowMatched now i d =
     d\<lparr>pending_workflow_triggers :=
         map (\<lambda>t. if pt_id t = i then t\<lparr>pt_matched_at := Some now\<rparr> else t)
           (pending_workflow_triggers d)\<rparr>"

subsection \<open>Pending configs\<close>

text \<open>\<open>INSERT OR REPLACE\<close> under \<open>agent_session_id\<close> UNIQUE.\<close>

definition createPendingConfig :: "PendingConfig \<Rightarrow> database \<Rightarrow> database" where
  "createPendingConfig config d =
     d\<lparr>pending_configs :=
         filter (\<lambda>p. pc_agent_session_id p \<noteq> pc_agent_session_id config) (pending_configs d)
           @ [config]\<rparr>"

definition getPendingConfig :: "string \<Rightarrow> database \<Rightarrow> PendingConfig option" where
  "getPendingConfig agentSessionId d =
     find (\<lambda>p. pc_agent_session_id p = agentSessionId) (pending_configs d)"

definition deletePendingConfig :: "string \<Rightarrow> database \<Rightarrow> database" where
  "deletePendingConfig agentSessionId d =
     d\<lparr>pending_configs :=
         filter (\<lambda>p. pc_agent_session_id p \<noteq> agentSessionId) (pending_configs d)\<rparr>"

subsection \<open>Run log and tokens\<close>

text \<open>The argument of \<open>logEvent\<close>; the metadata object is kept as its list of keys and
  values instead of its JSON text.\<close>

record LogEvent =
  ev_workflowRunId :: "nat option"
  ev_agentSessionId :: "string option"
  ev_eventType :: string
  ev_message :: "string option"
  ev_metadata :: "(string \<times> string) list option"

text \<open>\<open>INSERT INTO run_log\<close>: rejected on the foreign key of \<open>workflow_run_id\<close> when
  the value is not null and no run has it as its \<open>id\<close>.\<close>

definition logEvent :: "LogEvent \<Rightarrow> database \<Rightarrow> constraint_failure + database" where
  "logEvent event d =
     (if (case num_or_null (ev_workflowRunId event) of
            None \<Rightarrow> False
          | Some i \<Rightarrow> i \<notin> wr_id ` set (workflow_runs d))
      then Inl ForeignKeyConstraint
      else Inr (d\<lparr>run_log := run_log d @
                  [\<lparr> rl_workflow_run_id = num_or_null (ev_workflowRunId event),
                     rl_agent_session_id = or_null (ev_agentSessionId event),
                     rl_event_type = ev_eventType event,
                     rl_message = or_null (ev_message event),
                     rl_metadata = ev_metadata event \<rparr>]\<rparr>))"

text \<open>The two statements on \<open>oauth_tokens\<close> (services/linear.ts): the \<open>SELECT\<close> of
  \<open>getOAuthToken\<close> and the \<open>UPDATE\<close> of \<open>refreshOAuthToken\<close>.\<close>

definition selectOAuthToken :: "string \<Rightarrow> database \<Rightarrow> OAuthToken option" where
  "selectOAuthToken workspaceId d =
     find (\<lambda>t. ot_workspace_id t = workspaceId) (oauth_tokens d)"

definition updateOAuthToken ::
  "string \<Rightarrow> string \<Rightarrow> string option \<Rightarrow> nat option \<Rightarrow> database \<Rightarrow> database" where
  "updateOAuthToken workspaceId accessToken refreshToken expiresAt d =
     d\<lparr>oauth_tokens :=
         map (\<lambda>t. if ot_workspace_id t = workspaceId
                   then t\<lparr>ot_access_token := accessToken, ot_refresh_token := refreshToken,
                          ot_expires_at := expiresAt\<rparr>
                   else t)
           (oauth_tokens d)\<rparr>"

text \<open>The statements that write to the store, one for each function above that runs
  one, with the values it binds.\<close>

datatype statement =
    InsertTeamConfig NewTeamConfig
  | InsertGitHubInstallation GitHubInstallation
  | UpsertGitHubInstallation GitHubInstallation
  | DeleteGitHubInstallation nat
  | InsertWorkflowRun NewWorkflowRun
  | UpdateWorkflowRun nat WorkflowRunUpdates
  | InsertProcessedWebhook string webhook_type
  | InsertPendingWorkflowTrigger NewPendingWorkflowTrigger
  | UpdatePendingWorkflowMatched nat
  | InsertPendingConfig PendingConfig
  | DeletePendingConfig string
  | InsertRunLog LogEvent
  | UpdateOAuthToken string string "string option" "nat option"

section \<open>Requests to the two remote systems\<close>

text \<open>The content of an agent activity (types.ts, \<open>LinearAgentActivity\<close>).\<close>

datatype activity =
    Thought string
  | Action string string "string option"
  | Elicitation string
  | Response string
  | ErrorActivity string

record IssueComment =
  cm_id :: string
  cm_body :: string
  cm_author :: string
  cm_createdAt :: string

record LinkedIssue =
  li_identifier :: string
  li_title :: string
  li_relation :: string

record IssueContext =
  ic_identifier :: string
  ic_title :: string
  ic_description :: "string option"
  ic_comments :: "IssueComment list"
  ic_linkedIssues :: "LinkedIssue list"
  ic_parentIssue :: "(string \<times> string) option"
  ic_attachments :: "(string \<times> string) list"

text \<open>The value \<open>formatIssueContext\<close> builds, before \<open>JSON.stringify\<close>: comments as
  (author, body, createdAt), linked issues as (identifier, title, relation), the parent
  issue, the attachments as (title, url).\<close>

record FormattedContext =
  fc_comments :: "(string \<times> string \<times> string) list"
  fc_linkedIssues :: "(string \<times> string \<times> string) list"
  fc_parentIssue :: "(string \<times> string) option"
  fc_attachments :: "(string \<times> string) list"

definition formatIssueContext :: "IssueContext \<Rightarrow> FormattedContext" where
  "formatIssueContext context =
     \<lparr> fc_comments = map (\<lambda>c. (cm_author c, cm_body c, cm_createdAt c)) (ic_comments context),
       fc_linkedIssues =
         map (\<lambda>i. (li_identifier i, li_title i, li_relation i)) (ic_linkedIssues context),
       fc_parentIssue = ic_parentIssue context,
       fc_attachments = ic_attachments context \<rparr>"

text \<open>The inputs of the workflow dispatch.\<close>

record DispatchInputs =
  in_agent_session_id :: string
  in_ticket_id :: string
  in_ticket_title :: string
  in_ticket_description :: string
  in_ticket_context :: FormattedContext
  in_branch_name :: string

record PullRequest =
  pr_number :: nat
  pr_html_url :: string

record TitledPullRequest =
  tpr_number :: nat
  tpr_html_url :: string
  tpr_title :: string

text \<open>
  One constructor for each HTTP request the two services send. The first argument of a
  Linear request is the OAuth token of the service object, the first argument of a
  GitHub request that has one is the installation token. The arguments of
  \<open>LinearTokenRefresh\<close> are the refresh token, the client id and the client secret.
\<close>

datatype request =
    LinearActivityCreate string string activity
  | LinearAttachmentCreate string string string string
  | LinearIssueQuery string string
  | LinearTokenRefresh string string string
  | GitHubAccessToken nat
  | GitHubRepoInstallation string string
  | GitHubBranches string string string
  | GitHubRepo string string string
  | GitHubDispatch string string string string string DispatchInputs
  | GitHubCancel string string string nat
  | GitHubPullsForBranch string string string string
  | GitHubOpenPulls string string string

text \<open>
  What the remote systems answer is not in the program: it is the record \<open>externals\<close>, a
  parameter of every operation. Each answer may depend on the requests sent before
  (the first argument). \<open>Inl msg\<close> is the case in which the service method throws
  \<open>Error(msg)\<close> (a response that is not ok, GraphQL errors, or a failure to sign the
  app's token). The answer to a token refresh is the grant, or \<open>None\<close> in every case in
  which \<open>refreshOAuthToken\<close> returns \<open>null\<close> before it writes (the response is not ok;
  \<open>fetch\<close> or the reading of the body throws and the function catches it). The record
  also holds the runtime's HMAC and \<open>JSON.parse\<close> (its result cast to the payload
  type; \<open>None\<close> when it throws).
\<close>

record TokenGrant =
  tg_access_token :: string
  tg_refresh_token :: "string option"
  tg_expires_in :: "nat option"

record LinearIssue =
  lis_id :: string
  lis_identifier :: string
  lis_title :: string
  lis_team_id :: string

record AgentActivity =
  aa_id :: string
  aa_body :: "string option"
  aa_content_body :: "string option"

datatype LinearWebhook =
    AgentSessionEvent string string string LinearIssue "AgentActivity option"
  | AppUserNotificationUnassigned string string string
  | OtherLinearWebhook string "string option"

text \<open>
  \<open>AgentSessionEvent action organizationId sessionId issue agentActivity\<close> is a payload of
  type \<open>AgentSessionEvent\<close>; \<open>AppUserNotificationUnassigned organizationId issueId
  issueIdentifier\<close> is the payload of type \<open>AppUserNotification\<close> and action
  \<open>issueUnassignedFromYou\<close>; \<open>OtherLinearWebhook type action\<close> is any other payload.
\<close>

text \<open>
  A GitHub payload is the object \<open>JSON.parse\<close> returns, cast to the payload type of the
  event without a test. The model keeps the properties the handlers read; each may be
  absent (\<open>None\<close>, the value \<open>undefined\<close>). An object that is present has the
  properties of its type in types.ts; the \<open>account\<close> of an installation is optional,
  since only the installation payload has it.
\<close>

record WorkflowRunEvent =
  wre_id :: nat
  wre_name :: string
  wre_status :: string
  wre_conclusion :: "string option"
  wre_head_branch :: string
  wre_owner :: string
  wre_repo :: string

record InstallationObject =
  ins_id :: nat
  ins_account :: "(string \<times> string) option"

record PullRequestObject =
  pro_number :: nat
  pro_head_ref :: string

text \<open>\<open>gw_workflow_run\<close> is the property \<open>workflow_run\<close> (with the owner login and the
  name of its \<open>repository\<close>), \<open>ins_account\<close> is the login and the type of the account,
  \<open>gw_repository\<close> is the owner login and the name of the property \<open>repository\<close>.\<close>

record GitHubWebhook =
  gw_action :: "string option"
  gw_workflow_run :: "WorkflowRunEvent option"
  gw_installation :: "InstallationObject option"
  gw_pull_request :: "PullRequestObject option"
  gw_repository :: "(string \<times> string) option"

record externals =
  hmac_sha256 :: "byte list \<Rightarrow> byte list \<Rightarrow> byte list"
  parse_linear :: "string \<Rightarrow> LinearWebhook option"
  parse_github :: "string \<Rightarrow> GitHubWebhook option"
  linear_mutation :: "request list \<Rightarrow> request \<Rightarrow> string option"
  linear_issue :: "request list \<Rightarrow> string \<Rightarrow> string + IssueContext"
  linear_token_refresh :: "request list \<Rightarrow> request \<Rightarrow> TokenGrant option"
  github_access_token :: "request list \<Rightarrow> nat \<Rightarrow> string + string"
  github_repo_installation :: "request list \<Rightarrow> string \<Rightarrow> string \<Rightarrow> string + nat option"
  github_branches :: "request list \<Rightarrow> string \<Rightarrow> string \<Rightarrow> string \<Rightarrow> string + string list"
  github_default_branch :: "request list \<Rightarrow> string \<Rightarrow> string \<Rightarrow> string \<Rightarrow> string + string"
  github_dispatch :: "request list \<Rightarrow> request \<Rightarrow> string option"
  github_cancel :: "request list \<Rightarrow> request \<Rightarrow> nat"
  github_pulls_for_branch ::
    "request list \<Rightarrow> string \<Rightarrow> string \<Rightarrow> string \<Rightarrow> string \<Rightarrow> string + PullRequest list"
  github_open_pulls ::
    "request list \<Rightarrow> string \<Rightarrow> string \<Rightarrow> string \<Rightarrow> string + TitledPullRequest list"

section \<open>State, exceptions and sequencing\<close>

text \<open>
  The state of one request handling: the store, the requests sent so far (oldest
  first), the clock, \<open>Date.now()\<close> in milliseconds, and the journal. \<open>datetime('now')\<close>
  is the clock in seconds. The clock stands still while one webhook is handled. The
  journal lists, in the order in which they ran, the statements that wrote to the store
  and the requests that were sent. Console output is not part of the state.
\<close>

datatype effect = Wrote statement | Sent request

record world =
  db :: database
  sent :: "request list"
  clock :: nat
  journal :: "effect list"

type_synonym 'a io = "world \<Rightarrow> (error + 'a) \<times> world"

definition ret :: "'a \<Rightarrow> 'a io" where
  "ret x w = (Inr x, w)"

text \<open>\<open>throw e\<close>, and \<open>throw new Error(msg)\<close>.\<close>

definition raise :: "error \<Rightarrow> 'a io" where
  "raise e w = (Inl e, w)"

definition throw :: "string \<Rightarrow> 'a io" where
  "throw msg w = (Inl (Error msg), w)"

text \<open>\<open>await m; f\<close>: an exception of \<open>m\<close> ends the sequence.\<close>

definition bind :: "'a io \<Rightarrow> ('a \<Rightarrow> 'b io) \<Rightarrow> 'b io" where
  "bind m f w = (case m w of (Inl e, w') \<Rightarrow> (Inl e, w') | (Inr x, w') \<Rightarrow> f x w')"

definition seq :: "unit io \<Rightarrow> 'b io \<Rightarrow> 'b io" where
  "seq m k = bind m (\<lambda>_. k)"

text \<open>\<open>try { body } catch (error) { handler }\<close>.\<close>

definition try_catch :: "'a io \<Rightarrow> (error \<Rightarrow> 'a io) \<Rightarrow> 'a io" where
  "try_catch body handler w =
     (case body w of (Inl e, w') \<Rightarrow> handler e w' | (Inr x, w') \<Rightarrow> (Inr x, w'))"

definition db_now :: "world \<Rightarrow> nat" where
  "db_now w = clock w div 1000"

text \<open>A query reads the store. A statement writes to it and joins the journal:
  \<open>exec\<close> runs a statement that no constraint can reject, \<open>exec_checked\<close> one that a
  constraint can reject, \<open>exec_returning\<close> an \<open>INSERT ... RETURNING *\<close>. A rejected
  statement throws the error of D1 and leaves the state as it was.\<close>

definition query :: "(database \<Rightarrow> 'a) \<Rightarrow> 'a io" where
  "query q w = (Inr (q (db w)), w)"

definition exec :: "statement \<Rightarrow> (nat \<Rightarrow> database \<Rightarrow> database) \<Rightarrow> unit io" where
  "exec s f w = (Inr (), w\<lparr>db := f (db_now w) (db w), journal := journal w @ [Wrote s]\<rparr>)"

definition exec_checked ::
  "statement \<Rightarrow> (nat \<Rightarrow> database \<Rightarrow> constraint_failure + database) \<Rightarrow> unit io" where
  "exec_checked s f w =
     (case f (db_now w) (db w) of
        Inl c \<Rightarrow> (Inl (d1_error c), w)
      | Inr d \<Rightarrow> (Inr (), w\<lparr>db := d, journal := journal w @ [Wrote s]\<rparr>))"

definition exec_returning ::
  "statement \<Rightarrow> (nat \<Rightarrow> database \<Rightarrow> constraint_failure + ('a \<times> database)) \<Rightarrow> 'a io" where
  "exec_returning s f w =
     (case f (db_now w) (db w) of
        Inl c \<Rightarrow> (Inl (d1_error c), w)
      | Inr (x, d) \<Rightarrow> (Inr x, w\<lparr>db := d, journal := journal w @ [Wrote s]\<rparr>))"

text \<open>\<open>Date.now()\<close>.\<close>

definition Date_now :: "nat io" where
  "Date_now w = (Inr (clock w), w)"

text \<open>Sending a request: it joins the requests sent and the journal.\<close>

definition send :: "request \<Rightarrow> unit io" where
  "send r w = (Inr (), w\<lparr>sent := sent w @ [r], journal := journal w @ [Sent r]\<rparr>)"

definition history :: "request list io" where
  "history w = (Inr (sent w), w)"

definition of_answer :: "string + 'a \<Rightarrow> 'a io" where
  "of_answer a = (case a of Inl msg \<Rightarrow> throw msg | Inr x \<Rightarrow> ret x)"

definition of_failure :: "string option \<Rightarrow> unit io" where
  "of_failure a = (case a of Some msg \<Rightarrow> throw msg | None \<Rightarrow> ret ())"

text \<open>The bindings of the worker that the program reads (types.ts); the app id and the
  private key of the GitHub App only enter the signing of its token, which is part of
  what GitHub answers.\<close>

record Bindings =
  LINEAR_WEBHOOK_SECRET :: string
  LINEAR_CLIENT_ID :: string
  LINEAR_CLIENT_SECRET :: string
  GITHUB_WEBHOOK_SECRET :: string

section \<open>The Linear service (services/linear.ts)\<close>

text \<open>\<open>refreshOAuthToken\<close>: the whole body is in a \<open>try\<close> whose \<open>catch\<close> returns
  \<open>null\<close>. \<open>data.refresh_token || null\<close> and \<open>data.expires_in ? ... : null\<close> are the
  values stored.\<close>

definition refreshOAuthToken ::
  "externals \<Rightarrow> string \<Rightarrow> string \<Rightarrow> string \<Rightarrow> string \<Rightarrow> string option io" where
  "refreshOAuthToken X workspaceId refreshToken clientId clientSecret =
     try_catch
       (bind history (\<lambda>h.
        seq (send (LinearTokenRefresh refreshToken clientId clientSecret))
            (case linear_token_refresh X h (LinearTokenRefresh refreshToken clientId clientSecret) of
               None \<Rightarrow> ret None
             | Some data \<Rightarrow>
                 bind Date_now (\<lambda>now.
                 let expiresAt = (case num_or_null (tg_expires_in data) of
                                    None \<Rightarrow> None
                                  | Some seconds \<Rightarrow> Some (now + seconds * 1000))
                 in
                 seq (exec (UpdateOAuthToken workspaceId (tg_access_token data)
                              (or_null (tg_refresh_token data)) expiresAt)
                        (\<lambda>_. updateOAuthToken workspaceId (tg_access_token data)
                                (or_null (tg_refresh_token data)) expiresAt))
                     (ret (Some (tg_access_token data)))))))
       (\<lambda>error. ret None)"

text \<open>\<open>getOAuthToken(db, workspaceId, env?)\<close>: the stored access token, refreshed first
  when the row has a refresh token and an expiry, \<open>env\<close> is given, and the expiry is no
  more than five minutes away. The result is \<open>None\<close> for \<open>null\<close>.\<close>

definition getOAuthToken :: "externals \<Rightarrow> string \<Rightarrow> Bindings option \<Rightarrow> string option io" where
  "getOAuthToken X workspaceId env =
     bind (query (selectOAuthToken workspaceId)) (\<lambda>result.
     case result of
       None \<Rightarrow> ret None
     | Some row \<Rightarrow>
         (case (or_null (ot_refresh_token row), ot_expires_at row, env) of
            (Some refresh_token, Some expiresAt, Some e) \<Rightarrow>
              bind Date_now (\<lambda>now.
              if int expiresAt - 300000 \<le> int now
              then bind (refreshOAuthToken X workspaceId refresh_token (LINEAR_CLIENT_ID e)
                           (LINEAR_CLIENT_SECRET e))
                     (\<lambda>refreshed.
                        case or_null refreshed of
                          Some token \<Rightarrow> ret (Some token)
                        | None \<Rightarrow> ret (Some (ot_access_token row)))
              else ret (Some (ot_access_token row)))
          | _ \<Rightarrow> ret (Some (ot_access_token row))))"

definition createAgentActivity :: "externals \<Rightarrow> string \<Rightarrow> string \<Rightarrow> activity \<Rightarrow> unit io" where
  "createAgentActivity X token agentSessionId content =
     bind history (\<lambda>h.
     seq (send (LinearActivityCreate token agentSessionId content))
         (of_failure (linear_mutation X h (LinearActivityCreate token agentSessionId content))))"

definition sendThought :: "externals \<Rightarrow> string \<Rightarrow> string \<Rightarrow> string \<Rightarrow> unit io" where
  "sendThought X token agentSessionId body =
     createAgentActivity X token agentSessionId (Thought body)"

definition sendAction :: "externals \<Rightarrow> string \<Rightarrow> string \<Rightarrow> string \<Rightarrow> string \<Rightarrow> unit io" where
  "sendAction X token agentSessionId action parameter =
     createAgentActivity X token agentSessionId (Action action parameter None)"

definition sendElicitation :: "externals \<Rightarrow> string \<Rightarrow> string \<Rightarrow> string \<Rightarrow> unit io" where
  "sendElicitation X token agentSessionId body =
     createAgentActivity X token agentSessionId (Elicitation body)"

definition sendResponse :: "externals \<Rightarrow> string \<Rightarrow> string \<Rightarrow> string \<Rightarrow> unit io" where
  "sendResponse X token agentSessionId body =
     createAgentActivity X token agentSessionId (Response body)"

definition sendError :: "externals \<Rightarrow> string \<Rightarrow> string \<Rightarrow> string \<Rightarrow> unit io" where
  "sendError X token agentSessionId body =
     createAgentActivity X token agentSessionId (ErrorActivity body)"

definition getIssueContext :: "externals \<Rightarrow> string \<Rightarrow> string \<Rightarrow> IssueContext io" where
  "getIssueContext X token issueId =
     bind history (\<lambda>h.
     seq (send (LinearIssueQuery token issueId))
         (of_answer (linear_issue X h issueId)))"

definition createAttachment :: "externals \<Rightarrow> string \<Rightarrow> string \<Rightarrow> string \<Rightarrow> string \<Rightarrow> unit io" where
  "createAttachment X token issueId title url =
     bind history (\<lambda>h.
     seq (send (LinearAttachmentCreate token issueId title url))
         (of_failure (linear_mutation X h (LinearAttachmentCreate token issueId title url))))"

section \<open>The GitHub App service (services/github-app.ts)\<close>

definition getInstallationToken :: "externals \<Rightarrow> nat \<Rightarrow> string io" where
  "getInstallationToken X installationId =
     bind history (\<lambda>h.
     seq (send (GitHubAccessToken installationId))
         (of_answer (github_access_token X h installationId)))"

definition getRepoInstallation :: "externals \<Rightarrow> string \<Rightarrow> string \<Rightarrow> nat option io" where
  "getRepoInstallation X owner repo =
     bind history (\<lambda>h.
     seq (send (GitHubRepoInstallation owner repo))
         (of_answer (github_repo_installation X h owner repo)))"

definition listBranches :: "externals \<Rightarrow> nat \<Rightarrow> string \<Rightarrow> string \<Rightarrow> string list io" where
  "listBranches X installationId owner repo =
     bind (getInstallationToken X installationId) (\<lambda>token.
     bind history (\<lambda>h.
     seq (send (GitHubBranches token owner repo))
         (of_answer (github_branches X h token owner repo))))"

definition getDefaultBranch :: "externals \<Rightarrow> nat \<Rightarrow> string \<Rightarrow> string \<Rightarrow> string io" where
  "getDefaultBranch X installationId owner repo =
     bind (getInstallationToken X installationId) (\<lambda>token.
     bind history (\<lambda>h.
     seq (send (GitHubRepo token owner repo))
         (of_answer (github_default_branch X h token owner repo))))"

definition triggerWorkflow ::
  "externals \<Rightarrow> nat \<Rightarrow> string \<Rightarrow> string \<Rightarrow> string \<Rightarrow> string \<Rightarrow> DispatchInputs \<Rightarrow> unit io" where
  "triggerWorkflow X installationId owner repo workflowId ref inputs =
     bind (getInstallationToken X installationId) (\<lambda>token.
     bind history (\<lambda>h.
     seq (send (GitHubDispatch token owner repo workflowId ref inputs))
         (of_failure (github_dispatch X h (GitHubDispatch token owner repo workflowId ref inputs)))))"

text \<open>\<open>cancelWorkflowRun\<close> throws unless the response is ok (a status from 200 to 299)
  or has the status 409.\<close>

definition cancelWorkflowRun :: "externals \<Rightarrow> nat \<Rightarrow> string \<Rightarrow> string \<Rightarrow> nat \<Rightarrow> unit io" where
  "cancelWorkflowRun X installationId owner repo runId =
     bind (getInstallationToken X installationId) (\<lambda>token.
     bind history (\<lambda>h.
     seq (send (GitHubCancel token owner repo runId))
         (let status = github_cancel X h (GitHubCancel token owner repo runId) in
          if \<not> (200 \<le> status \<and> status \<le> 299) \<and> status \<noteq> 409
          then throw (''Failed to cancel workflow: '' @ string_of_nat status)
          else ret ())))"

definition listPullRequestsForBranch ::
  "externals \<Rightarrow> nat \<Rightarrow> string \<Rightarrow> string \<Rightarrow> string \<Rightarrow> PullRequest list io" where
  "listPullRequestsForBranch X installationId owner repo branch =
     bind (getInstallationToken X installationId) (\<lambda>token.
     bind history (\<lambda>h.
     seq (send (GitHubPullsForBranch token owner repo branch))
         (of_answer (github_pulls_for_branch X h token owner repo branch))))"

text \<open>\<open>searchPullRequestsByTitle\<close> asks for the first ten open pull requests and keeps
  those whose lowercased title includes the lowercased search term.\<close>

definition searchPullRequestsByTitle ::
  "externals \<Rightarrow> nat \<Rightarrow> string \<Rightarrow> string \<Rightarrow> string \<Rightarrow> TitledPullRequest list io" where
  "searchPullRequestsByTitle X installationId owner repo searchTerm =
     bind (getInstallationToken X installationId) (\<lambda>token.
     bind history (\<lambda>h.
     seq (send (GitHubOpenPulls token owner repo))
         (bind (of_answer (github_open_pulls X h token owner repo)) (\<lambda>prs.
          ret (filter (\<lambda>pr. str_includes (toLowerCase (tpr_title pr)) (toLowerCase searchTerm))
                 prs)))))"

section \<open>The statements of db/queries.ts as operations\<close>

text \<open>Each function of db/queries.ts that writes, as the operation that runs its
  statement on the store of the state. \<open>updateWorkflowRun\<close> runs no statement when
  it has no clause to set.\<close>

definition run_createTeamConfig :: "NewTeamConfig \<Rightarrow> TeamConfig io" where
  "run_createTeamConfig config =
     exec_returning (InsertTeamConfig config) (\<lambda>now. createTeamConfig config)"

definition run_createGitHubInstallation :: "GitHubInstallation \<Rightarrow> GitHubInstallation io" where
  "run_createGitHubInstallation installation =
     exec_returning (InsertGitHubInstallation installation)
       (\<lambda>now. createGitHubInstallation installation)"

definition run_upsertGitHubInstallation :: "GitHubInstallation \<Rightarrow> unit io" where
  "run_upsertGitHubInstallation installation =
     exec (UpsertGitHubInstallation installation) (\<lambda>now. upsertGitHubInstallation installation)"

definition run_deleteGitHubInstallation :: "nat \<Rightarrow> unit io" where
  "run_deleteGitHubInstallation installationId =
     exec_checked (DeleteGitHubInstallation installationId)
       (\<lambda>now. deleteGitHubInstallation installationId)"

definition run_createWorkflowRun :: "NewWorkflowRun \<Rightarrow> WorkflowRun io" where
  "run_createWorkflowRun run =
     exec_returning (InsertWorkflowRun run) (\<lambda>now. createWorkflowRun now run)"

definition run_updateWorkflowRun :: "nat \<Rightarrow> WorkflowRunUpdates \<Rightarrow> unit io" where
  "run_updateWorkflowRun githubRunId updates =
     (if upd_status updates = None \<and> upd_conclusion updates = None
         \<and> upd_prNumber updates = None \<and> upd_prUrl updates = None
      then ret ()
      else exec (UpdateWorkflowRun githubRunId updates)
             (\<lambda>now. updateWorkflowRun now githubRunId updates))"

definition run_markWebhookProcessed :: "string \<Rightarrow> webhook_type \<Rightarrow> unit io" where
  "run_markWebhookProcessed webhookId webhookType =
     exec (InsertProcessedWebhook webhookId webhookType)
       (\<lambda>now. markWebhookProcessed webhookId webhookType)"

definition run_createPendingWorkflowTrigger :: "NewPendingWorkflowTrigger \<Rightarrow> unit io" where
  "run_createPendingWorkflowTrigger trigger =
     exec_checked (InsertPendingWorkflowTrigger trigger)
       (\<lambda>now. createPendingWorkflowTrigger now trigger)"

definition run_markPendingWorkflowMatched :: "nat \<Rightarrow> unit io" where
  "run_markPendingWorkflowMatched i =
     exec (UpdatePendingWorkflowMatched i) (\<lambda>now. markPendingWorkflowMatched now i)"

definition run_createPendingConfig :: "PendingConfig \<Rightarrow> unit io" where
  "run_createPendingConfig config =
     exec (InsertPendingConfig config) (\<lambda>now. createPendingConfig config)"

definition run_deletePendingConfig :: "string \<Rightarrow> unit io" where
  "run_deletePendingConfig agentSessionId =
     exec (DeletePendingConfig agentSessionId) (\<lambda>now. deletePendingConfig agentSessionId)"

definition run_logEvent :: "LogEvent \<Rightarrow> unit io" where
  "run_logEvent event = exec_checked (InsertRunLog event) (\<lambda>now. logEvent event)"

section \<open>The workflow service (services/workflow.ts)\<close>

text \<open>
  Two messages of the program open with a pictograph (U+2705 and U+274C), which is no
  code unit of the model; it is written as its code point in brackets.
\<close>

definition check_mark :: string where
  "check_mark = ''[U+2705]''"

definition cross_mark :: string where
  "cross_mark = ''[U+274C]''"

text \<open>The test that opens \<open>triggerImplementation\<close>: owner, repository and installation
  id of the team config are all truthy. The result is the three values.\<close>

definition github_target :: "TeamConfig \<Rightarrow> (nat \<times> string \<times> string) option" where
  "github_target config =
     (case (tc_github_owner config, tc_github_repo config, tc_github_installation_id config) of
        (Some owner, Some repo, Some installationId) \<Rightarrow>
          if owner = [] \<or> repo = [] \<or> installationId = 0 then None
          else Some (installationId, owner, repo)
      | _ \<Rightarrow> None)"

definition triggerImplementation ::
  "externals \<Rightarrow> string \<Rightarrow> string \<Rightarrow> string \<Rightarrow> string \<Rightarrow> TeamConfig \<Rightarrow> unit io" where
  "triggerImplementation X token agentSessionId issueId issueIdentifier config =
     (case github_target config of
        None \<Rightarrow> throw ''Team config missing GitHub configuration''
      | Some (installationId, owner, repo) \<Rightarrow>
          bind (getIssueContext X token issueId) (\<lambda>issueContext.
          bind (listBranches X installationId owner repo) (\<lambda>existingBranches.
          let branchName = findAvailableBranchName issueIdentifier existingBranches in
          seq (run_logEvent
                 \<lparr> ev_workflowRunId = None,
                   ev_agentSessionId = Some agentSessionId,
                   ev_eventType = ''workflow_trigger'',
                   ev_message = Some (''Triggering implementation workflow for '' @ issueIdentifier),
                   ev_metadata = Some [(''branchName'', branchName), (''owner'', owner),
                                       (''repo'', repo)] \<rparr>)
         (seq (sendAction X token agentSessionId ''Starting'' ''Implementation workflow'')
         (seq (run_createPendingWorkflowTrigger
                 \<lparr> npt_agentSessionId = agentSessionId,
                   npt_linearWorkspaceId = Some (tc_linear_workspace_id config),
                   npt_linearIssueId = issueId,
                   npt_linearIssueIdentifier = Some issueIdentifier,
                   npt_workflowType = ''implement'',
                   npt_githubOwner = owner,
                   npt_githubRepo = repo,
                   npt_branchName = tc_github_branch config \<rparr>)
              (triggerWorkflow X installationId owner repo ''linear-agent.yml''
                 (tc_github_branch config)
                 \<lparr> in_agent_session_id = agentSessionId,
                   in_ticket_id = issueIdentifier,
                   in_ticket_title = ic_title issueContext,
                   in_ticket_description =
                     (case or_null (ic_description issueContext) of None \<Rightarrow> [] | Some t \<Rightarrow> t),
                   in_ticket_context = formatIssueContext issueContext,
                   in_branch_name = branchName \<rparr>))))))"

definition cancelWorkflow :: "externals \<Rightarrow> string \<Rightarrow> WorkflowRun \<Rightarrow> nat \<Rightarrow> unit io" where
  "cancelWorkflow X token workflowRun installationId =
     seq (cancelWorkflowRun X installationId (wr_github_owner workflowRun)
            (wr_github_repo workflowRun) (wr_github_run_id workflowRun))
    (seq (run_updateWorkflowRun (wr_github_run_id workflowRun)
            (no_updates\<lparr>upd_status := Some Completed, upd_conclusion := Some (Some ''cancelled'')\<rparr>))
    (seq (sendThought X token (wr_agent_session_id workflowRun) ''Workflow cancelled'')
         (run_logEvent
            \<lparr> ev_workflowRunId = None,
              ev_agentSessionId = Some (wr_agent_session_id workflowRun),
              ev_eventType = ''workflow_cancelled'',
              ev_message = Some ''Workflow cancelled by user unassign'',
              ev_metadata = None \<rparr>)))"

text \<open>The link of the failure message.\<close>

definition workflowUrl :: "WorkflowRun \<Rightarrow> string" where
  "workflowUrl workflowRun =
     ''https://github.com/'' @ wr_github_owner workflowRun @ ''/'' @ wr_github_repo workflowRun
       @ ''/actions/runs/'' @ string_of_nat (wr_github_run_id workflowRun)"

text \<open>The search of \<open>handleWorkflowComplete\<close> for the pull request: by branch, then by
  the ticket identifier in the title when the first list is empty and the identifier
  is truthy.\<close>

definition findPullRequests :: "externals \<Rightarrow> WorkflowRun \<Rightarrow> nat \<Rightarrow> PullRequest list io" where
  "findPullRequests X workflowRun installationId =
     bind (listPullRequestsForBranch X installationId (wr_github_owner workflowRun)
             (wr_github_repo workflowRun) (wr_branch_name workflowRun)) (\<lambda>prs.
     if prs = [] \<and> wr_linear_issue_identifier workflowRun \<noteq> []
     then bind (searchPullRequestsByTitle X installationId (wr_github_owner workflowRun)
                  (wr_github_repo workflowRun) (wr_linear_issue_identifier workflowRun))
            (\<lambda>prsByTitle.
               ret (map (\<lambda>pr. \<lparr> pr_number = tpr_number pr, pr_html_url = tpr_html_url pr \<rparr>)
                      prsByTitle))
     else ret prs)"

definition handleWorkflowComplete ::
  "externals \<Rightarrow> string \<Rightarrow> WorkflowRun \<Rightarrow> nat \<Rightarrow> string \<Rightarrow> unit io" where
  "handleWorkflowComplete X token workflowRun installationId conclusion =
     seq
       (if conclusion = ''success''
        then
          bind (findPullRequests X workflowRun installationId) (\<lambda>prs.
          case prs of
            pr # _ \<Rightarrow>
              seq (run_updateWorkflowRun (wr_github_run_id workflowRun)
                     \<lparr> upd_status = Some Completed,
                       upd_conclusion = Some (Some conclusion),
                       upd_prNumber = Some (Some (pr_number pr)),
                       upd_prUrl = Some (Some (pr_html_url pr)) \<rparr>)
             (seq (createAttachment X token (wr_linear_issue_id workflowRun)
                     (''PR #'' @ string_of_nat (pr_number pr)) (pr_html_url pr))
                  (sendResponse X token (wr_agent_session_id workflowRun)
                     (check_mark @ '' Implementation complete!\<newline>\<newline>[PR #''
                        @ string_of_nat (pr_number pr) @ '': ''
                        @ wr_linear_issue_identifier workflowRun @ '']('' @ pr_html_url pr
                        @ '')'')))
          | [] \<Rightarrow>
              seq (run_updateWorkflowRun (wr_github_run_id workflowRun)
                     (no_updates\<lparr>upd_status := Some Completed,
                                 upd_conclusion := Some (Some conclusion)\<rparr>))
                  (sendResponse X token (wr_agent_session_id workflowRun)
                     (check_mark @ '' Analysis complete! No code changes were necessary.'')))
        else
          seq (run_updateWorkflowRun (wr_github_run_id workflowRun)
                 (no_updates\<lparr>upd_status := Some Completed,
                             upd_conclusion := Some (Some conclusion)\<rparr>))
              (sendError X token (wr_agent_session_id workflowRun)
                 (cross_mark @ '' Workflow '' @ conclusion @ ''.\<newline>\<newline>[View logs](''
                    @ workflowUrl workflowRun @ '')'')))
       (run_logEvent
          \<lparr> ev_workflowRunId = Some (wr_id workflowRun),
            ev_agentSessionId = Some (wr_agent_session_id workflowRun),
            ev_eventType = ''workflow_completed'',
            ev_message = Some (''Workflow completed with conclusion: '' @ conclusion),
            ev_metadata = Some [(''conclusion'', conclusion)] \<rparr>)"

section \<open>The GitHub webhook (handlers/github-webhook.ts)\<close>

text \<open>An inbound request: the raw body and the headers the handlers read (\<open>None\<close>: the
  header is absent). A response: the status and the properties of the JSON body.\<close>

record http_request =
  rq_body :: string
  rq_linear_signature :: "string option"
  rq_hub_signature_256 :: "string option"
  rq_github_event :: "string option"
  rq_github_delivery :: "string option"

record http_response =
  rs_status :: nat
  rs_json :: "(string \<times> string) list"

text \<open>\<open>c.req.header(name) || ''\<close>.\<close>

definition header_or_empty :: "string option \<Rightarrow> string" where
  "header_or_empty h = (case or_null h of None \<Rightarrow> [] | Some v \<Rightarrow> v)"

text \<open>\<open>String(error)\<close>: the name of the error, then a colon and the message unless the
  message is empty. The message of a \<open>TypeError\<close> is the text of V8, the engine of
  the worker. The messages of \<open>SyntaxError\<close> and \<open>DataError\<close> are left out: both
  are thrown outside every \<open>try\<close>, and the program never prints them.\<close>

definition String_of_error :: "error \<Rightarrow> string" where
  "String_of_error e =
     (case e of
        Error msg \<Rightarrow> (if msg = [] then ''Error'' else ''Error: '' @ msg)
      | TypeError property \<Rightarrow>
          ''TypeError: Cannot read properties of undefined (reading '' @ [CHR 0x27] @ property
            @ [CHR 0x27] @ '')''
      | SyntaxError \<Rightarrow> ''SyntaxError''
      | DataError \<Rightarrow> ''DataError'')"

text \<open>
  The first part of \<open>handleWorkflowRun\<close>: the run record of the event, or else the
  match of a pending trigger, the creation of the run record from it and the mark on
  the trigger. \<open>None\<close> is the early return when no trigger matches. The argument is the
  property \<open>workflow_run\<close> of the payload.
\<close>

definition correlate :: "WorkflowRunEvent \<Rightarrow> WorkflowRun option io" where
  "correlate ev =
     bind (query (getWorkflowRun (wre_id ev))) (\<lambda>found.
     case found of
       Some workflowRun \<Rightarrow> ret (Some workflowRun)
     | None \<Rightarrow>
         bind (query (matchPendingWorkflowTrigger (wre_owner ev) (wre_repo ev) (wre_head_branch ev)))
           (\<lambda>pending.
            case pending of
              None \<Rightarrow> ret None
            | Some pendingTrigger \<Rightarrow>
                bind (run_createWorkflowRun
                        \<lparr> nwr_githubRunId = wre_id ev,
                          nwr_githubOwner = wre_owner ev,
                          nwr_githubRepo = wre_repo ev,
                          nwr_agentSessionId = pt_agent_session_id pendingTrigger,
                          nwr_linearIssueId = pt_linear_issue_id pendingTrigger,
                          nwr_linearIssueIdentifier =
                            (case or_null (pt_linear_issue_identifier pendingTrigger) of
                               None \<Rightarrow> [] | Some i \<Rightarrow> i),
                          nwr_linearWorkspaceId = or_null (pt_linear_workspace_id pendingTrigger),
                          nwr_workflowType = ''implement'',
                          nwr_branchName = wre_head_branch ev \<rparr>)
                  (\<lambda>workflowRun.
                     seq (run_markPendingWorkflowMatched (pt_id pendingTrigger))
                         (ret (Some workflowRun)))))"

text \<open>The second part of \<open>handleWorkflowRun\<close>: the OAuth token of the run's workspace,
  then the status update for the action of the payload. The completion reads
  \<open>installation.id\<close>, which throws when the payload has no \<open>installation\<close>.\<close>

definition update_status ::
  "externals \<Rightarrow> GitHubWebhook \<Rightarrow> WorkflowRunEvent \<Rightarrow> WorkflowRun \<Rightarrow> unit io" where
  "update_status X payload ev workflowRun =
     bind (case or_null (wr_linear_workspace_id workflowRun) of
             None \<Rightarrow> ret None
           | Some workspaceId \<Rightarrow> getOAuthToken X workspaceId None)
       (\<lambda>oauthToken.
        case or_null oauthToken of
          None \<Rightarrow> ret ()
        | Some token \<Rightarrow>
            if gw_action payload = Some ''in_progress''
            then seq (run_updateWorkflowRun (wre_id ev) (no_updates\<lparr>upd_status := Some InProgress\<rparr>))
                     (sendAction X token (wr_agent_session_id workflowRun)
                        ''Running'' ''Claude Code'')
            else if gw_action payload = Some ''completed''
            then (case gw_installation payload of
                    None \<Rightarrow> raise (TypeError ''id'')
                  | Some installation \<Rightarrow>
                      handleWorkflowComplete X token workflowRun (ins_id installation)
                        (case or_null (wre_conclusion ev) of None \<Rightarrow> ''unknown'' | Some c \<Rightarrow> c))
            else ret ())"

text \<open>\<open>handleWorkflowRun\<close> starts by reading \<open>workflow_run.repository\<close>, which throws
  when the payload has no \<open>workflow_run\<close>.\<close>

definition handleWorkflowRun :: "externals \<Rightarrow> GitHubWebhook \<Rightarrow> unit io" where
  "handleWorkflowRun X payload =
     (case gw_workflow_run payload of
        None \<Rightarrow> raise (TypeError ''repository'')
      | Some ev \<Rightarrow>
          bind (correlate ev) (\<lambda>correlated.
          case correlated of
            None \<Rightarrow> ret ()
          | Some workflowRun \<Rightarrow> update_status X payload ev workflowRun))"

text \<open>\<open>handleInstallation\<close> reads the installation only under the actions \<open>created\<close>
  and \<open>deleted\<close>. Under \<open>created\<close> the arguments of the insert are read first; under
  \<open>deleted\<close> the account is read after the delete, for the console.\<close>

definition handleInstallation :: "GitHubWebhook \<Rightarrow> unit io" where
  "handleInstallation payload =
     (if gw_action payload = Some ''created''
      then
        (case gw_installation payload of
           None \<Rightarrow> raise (TypeError ''id'')
         | Some installation \<Rightarrow>
             (case ins_account installation of
                None \<Rightarrow> raise (TypeError ''login'')
              | Some (login, type) \<Rightarrow>
                  bind (run_createGitHubInstallation
                          \<lparr> gi_installation_id = ins_id installation,
                            gi_account_login = login,
                            gi_account_type = type \<rparr>)
                    (\<lambda>_. run_logEvent
                       \<lparr> ev_workflowRunId = None,
                         ev_agentSessionId = None,
                         ev_eventType = ''github_app_installed'',
                         ev_message = Some (''GitHub App installed for '' @ login),
                         ev_metadata = Some [(''installationId'', string_of_nat (ins_id installation)),
                                             (''accountLogin'', login),
                                             (''accountType'', type)] \<rparr>)))
      else if gw_action payload = Some ''deleted''
      then
        (case gw_installation payload of
           None \<Rightarrow> raise (TypeError ''id'')
         | Some installation \<Rightarrow>
             seq (run_deleteGitHubInstallation (ins_id installation))
                 (case ins_account installation of
                    None \<Rightarrow> raise (TypeError ''login'')
                  | Some (login, type) \<Rightarrow>
                      run_logEvent
                        \<lparr> ev_workflowRunId = None,
                          ev_agentSessionId = None,
                          ev_eventType = ''github_app_uninstalled'',
                          ev_message = Some (''GitHub App uninstalled from '' @ login),
                          ev_metadata = Some [(''installationId'', string_of_nat (ins_id installation)),
                                              (''accountLogin'', login)] \<rparr>))
      else ret ())"

text \<open>\<open>handlePullRequest\<close> returns unless the action is \<open>opened\<close>; then it reads the
  pull request and the repository and writes to the console.\<close>

definition handlePullRequest :: "GitHubWebhook \<Rightarrow> unit io" where
  "handlePullRequest payload =
     (if gw_action payload \<noteq> Some ''opened'' then ret ()
      else
        (case gw_pull_request payload of
           None \<Rightarrow> raise (TypeError ''head'')
         | Some pull_request \<Rightarrow>
             (case gw_repository payload of
                None \<Rightarrow> raise (TypeError ''owner'')
              | Some repository \<Rightarrow> ret ())))"

text \<open>The \<open>switch\<close> on the event type.\<close>

definition route_github :: "externals \<Rightarrow> string \<Rightarrow> GitHubWebhook \<Rightarrow> unit io" where
  "route_github X eventType payload =
     (if eventType = ''workflow_run'' then handleWorkflowRun X payload
      else if eventType = ''installation'' then handleInstallation payload
      else if eventType = ''pull_request'' then handlePullRequest payload
      else ret ())"

text \<open>The \<open>try\<close> statement of the endpoint: the handlers, and the answer.\<close>

definition try_route_github :: "externals \<Rightarrow> string \<Rightarrow> GitHubWebhook \<Rightarrow> http_response io" where
  "try_route_github X eventType payload =
     try_catch
       (seq (route_github X eventType payload)
            (ret \<lparr> rs_status = 200, rs_json = [(''status'', ''ok'')] \<rparr>))
       (\<lambda>error.
          ret \<lparr> rs_status = 200,
                rs_json = [(''status'', ''error''), (''message'', String_of_error error)] \<rparr>)"

definition github_webhook_id :: "http_request \<Rightarrow> nat \<Rightarrow> string" where
  "github_webhook_id req now_ms =
     ''github-'' @ header_or_empty (rq_github_event req) @ ''-''
       @ (case or_null (rq_github_delivery req) of
            None \<Rightarrow> string_of_nat now_ms
          | Some deliveryId \<Rightarrow> deliveryId)"

text \<open>The endpoint. An exception of the verification or of \<open>JSON.parse\<close> is outside the
  \<open>try\<close> statement and leaves the function.\<close>

definition handleGitHubWebhook :: "externals \<Rightarrow> Bindings \<Rightarrow> http_request \<Rightarrow> http_response io" where
  "handleGitHubWebhook X env req =
     (let body = rq_body req;
          signature = header_or_empty (rq_hub_signature_256 req);
          eventType = header_or_empty (rq_github_event req)
      in
      case verifyGitHubSignature (hmac_sha256 X) body signature (GITHUB_WEBHOOK_SECRET env) of
        Inl e \<Rightarrow> raise e
      | Inr isValid \<Rightarrow>
          if \<not> isValid
          then ret \<lparr> rs_status = 401, rs_json = [(''error'', ''Invalid signature'')] \<rparr>
          else
            (case parse_github X body of
               None \<Rightarrow> raise SyntaxError
             | Some payload \<Rightarrow>
                 bind Date_now (\<lambda>now_ms.
                 let webhookId = github_webhook_id req now_ms in
                 bind (query (isWebhookProcessed webhookId GitHub)) (\<lambda>isProcessed.
                 if isProcessed
                 then ret \<lparr> rs_status = 200, rs_json = [(''status'', ''already_processed'')] \<rparr>
                 else
                   seq (run_markWebhookProcessed webhookId GitHub)
                       (try_route_github X eventType payload)))))"

section \<open>The Linear handlers (handlers/session-created.ts, session-prompted.ts,
  inbox-notification.ts)\<close>

definition wave :: string where
  "wave = ''[U+1F44B]''"

text \<open>\<open>handleSessionCreated\<close> passes the bindings to \<open>getOAuthToken\<close>, logs the
  event before it sends anything, and logs a failure of the first activity before it
  throws it again.\<close>

definition handleSessionCreated ::
  "externals \<Rightarrow> Bindings \<Rightarrow> string \<Rightarrow> string \<Rightarrow> LinearIssue \<Rightarrow> unit io" where
  "handleSessionCreated X env organizationId sessionId issue =
     bind (getOAuthToken X organizationId (Some env)) (\<lambda>oauthToken.
     case or_null oauthToken of
       None \<Rightarrow> ret ()
     | Some token \<Rightarrow>
         seq (run_logEvent
                \<lparr> ev_workflowRunId = None,
                  ev_agentSessionId = Some sessionId,
                  ev_eventType = ''session_created'',
                  ev_message = Some (''Agent assigned to '' @ lis_identifier issue),
                  ev_metadata = Some [(''issueId'', lis_id issue),
                                      (''issueIdentifier'', lis_identifier issue),
                                      (''issueTitle'', lis_title issue),
                                      (''teamId'', lis_team_id issue),
                                      (''workspaceId'', organizationId)] \<rparr>)
        (seq (try_catch (sendThought X token sessionId ''Looking at this issue...'')
                (\<lambda>error.
                   seq (run_logEvent
                          \<lparr> ev_workflowRunId = None,
                            ev_agentSessionId = Some sessionId,
                            ev_eventType = ''error'',
                            ev_message = Some (''Failed to send thought: '' @ String_of_error error),
                            ev_metadata = None \<rparr>)
                       (raise error)))
        (bind (query (getTeamConfigByWorkspace organizationId (lis_team_id issue))) (\<lambda>config.
         case (case config of
                 None \<Rightarrow> None
               | Some c \<Rightarrow> if truthy_str (tc_github_owner c) \<and> truthy_str (tc_github_repo c)
                           then Some c else None) of
           None \<Rightarrow>
             seq (run_createPendingConfig
                    \<lparr> pc_agent_session_id = sessionId,
                      pc_linear_workspace_id = organizationId,
                      pc_linear_team_id = lis_team_id issue,
                      pc_pending_issue_id = lis_id issue,
                      pc_pending_issue_identifier = lis_identifier issue \<rparr>)
                 (sendElicitation X token sessionId
                    (wave @ '' I need to configure this team before I can implement tickets.\<newline>\<newline>Which GitHub repository should I use?\<newline>\<newline>Reply with `owner/repo` (e.g., `acme/backend`)''))
         | Some c \<Rightarrow>
             triggerImplementation X token sessionId (lis_id issue) (lis_identifier issue) c))))"

text \<open>
  The pattern \<open>/([a-zA-Z0-9_.-]+)\/([a-zA-Z0-9_.-]+)/\<close> of \<open>handleConfigResponse\<close>. A
  slash is not in the class, so from a given start the first group can only be the
  longest run of class characters; \<open>match\<close> returns the match with the leftmost start.
\<close>

definition repo_char :: "char \<Rightarrow> bool" where
  "repo_char c =
     (let n = (of_char c :: nat) in
      (97 \<le> n \<and> n \<le> 122) \<or> (65 \<le> n \<and> n \<le> 90) \<or> (48 \<le> n \<and> n \<le> 57)
      \<or> c = CHR ''_'' \<or> c = CHR ''.'' \<or> c = CHR ''-'')"

definition match_repo_here :: "string \<Rightarrow> (string \<times> string) option" where
  "match_repo_here s =
     (let owner = takeWhile repo_char s in
      if owner = [] then None
      else
        (case dropWhile repo_char s of
           [] \<Rightarrow> None
         | c # rest \<Rightarrow>
             if c = CHR ''/'' \<and> takeWhile repo_char rest \<noteq> []
             then Some (owner, takeWhile repo_char rest)
             else None))"

fun match_repo :: "string \<Rightarrow> (string \<times> string) option" where
  "match_repo [] = None"
| "match_repo (c # cs) =
     (case match_repo_here (c # cs) of
        Some m \<Rightarrow> Some m
      | None \<Rightarrow> match_repo cs)"

definition handleConfigResponse ::
  "externals \<Rightarrow> string \<Rightarrow> PendingConfig \<Rightarrow> string \<Rightarrow> unit io" where
  "handleConfigResponse X token pendingConfig userMessage =
     (let sessionId = pc_agent_session_id pendingConfig in
      case match_repo userMessage of
        None \<Rightarrow>
          sendElicitation X token sessionId
            ''I couldn't parse that. Please reply with the repository in `owner/repo` format.\<newline>\<newline>For example: `acme/backend`''
      | Some (owner, repo) \<Rightarrow>
          bind (getRepoInstallation X owner repo) (\<lambda>installation.
          case num_or_null installation of
            None \<Rightarrow>
              sendElicitation X token sessionId
                (''I don't have access to `'' @ owner @ ''/'' @ repo
                   @ ''` yet.\<newline>\<newline>Please install the GitHub App:\<newline>''
                   @ ''https://github.com/apps/linear-code-agent/installations/new''
                   @ ''\<newline>\<newline>Once installed, reply with `'' @ owner @ ''/'' @ repo @ ''` again.'')
          | Some installationId \<Rightarrow>
              bind (getDefaultBranch X installationId owner repo) (\<lambda>defaultBranch.
              seq (run_upsertGitHubInstallation
                     \<lparr> gi_installation_id = installationId,
                       gi_account_login = owner,
                       gi_account_type = ''User'' \<rparr>)
                  (bind (run_createTeamConfig
                           \<lparr> ntc_linearWorkspaceId = pc_linear_workspace_id pendingConfig,
                             ntc_linearTeamId = pc_linear_team_id pendingConfig,
                             ntc_linearTeamName = None,
                             ntc_githubInstallationId = Some installationId,
                             ntc_githubOwner = Some owner,
                             ntc_githubRepo = Some repo,
                             ntc_githubBranch = Some defaultBranch \<rparr>)
                     (\<lambda>config.
                        seq (run_deletePendingConfig sessionId)
                       (seq (sendThought X token sessionId
                               (check_mark @ '' Configured! Using `'' @ owner @ ''/'' @ repo
                                  @ ''` (branch: `'' @ defaultBranch
                                  @ ''`). Starting implementation...''))
                       (seq (run_logEvent
                               \<lparr> ev_workflowRunId = None,
                                 ev_agentSessionId = Some sessionId,
                                 ev_eventType = ''team_configured'',
                                 ev_message = Some (''Team configured with '' @ owner @ ''/'' @ repo),
                                 ev_metadata = Some [(''owner'', owner), (''repo'', repo),
                                                     (''branch'', defaultBranch)] \<rparr>)
                            (triggerImplementation X token sessionId
                               (pc_pending_issue_id pendingConfig)
                               (pc_pending_issue_identifier pendingConfig) config))))))))"

text \<open>\<open>content?.body || agentActivity?.body || ''\<close>.\<close>

definition user_message :: "AgentActivity option \<Rightarrow> string" where
  "user_message agentActivity =
     (case agentActivity of
        None \<Rightarrow> []
      | Some a \<Rightarrow>
          (case or_null (aa_content_body a) of
             Some t \<Rightarrow> t
           | None \<Rightarrow> (case or_null (aa_body a) of Some t \<Rightarrow> t | None \<Rightarrow> [])))"

definition handleSessionPrompted ::
  "externals \<Rightarrow> string \<Rightarrow> string \<Rightarrow> LinearIssue \<Rightarrow> AgentActivity option \<Rightarrow> unit io" where
  "handleSessionPrompted X organizationId sessionId issue agentActivity =
     (let userMessage = user_message agentActivity in
      bind (getOAuthToken X organizationId None) (\<lambda>oauthToken.
      case or_null oauthToken of
        None \<Rightarrow> ret ()
      | Some token \<Rightarrow>
          seq (run_logEvent
                 \<lparr> ev_workflowRunId = None,
                   ev_agentSessionId = Some sessionId,
                   ev_eventType = ''session_prompted'',
                   ev_message = Some (''User replied: '' @ take 200 userMessage),
                   ev_metadata = Some [(''issueId'', lis_id issue),
                                       (''issueIdentifier'', lis_identifier issue)] \<rparr>)
         (bind (query (getPendingConfig sessionId)) (\<lambda>pendingConfig.
          case pendingConfig of
            Some pending \<Rightarrow> handleConfigResponse X token pending userMessage
          | None \<Rightarrow>
              bind (query (getActiveWorkflowRunByIssue (lis_id issue))) (\<lambda>activeWorkflow.
              case activeWorkflow of
                Some active \<Rightarrow>
                  sendThought X token sessionId
                    (''The implementation workflow ''
                       @ (case wr_status active of
                            Queued \<Rightarrow> ''is queued and will start shortly''
                          | InProgress \<Rightarrow> ''is currently running''
                          | Completed \<Rightarrow> ''has completed'')
                       @ ''. I'll update you when it's done.'')
              | None \<Rightarrow>
                  bind (query (getTeamConfigByWorkspace organizationId (lis_team_id issue)))
                    (\<lambda>config.
                     case (case config of
                             None \<Rightarrow> None
                           | Some c \<Rightarrow> if truthy_str (tc_github_owner c) then Some c else None) of
                       None \<Rightarrow>
                         sendElicitation X token sessionId
                           ''It looks like this team isn't configured yet. Please assign me to a ticket to start the setup process.''
                     | Some c \<Rightarrow>
                         (let lowerMessage = toLowerCase userMessage in
                          if str_includes lowerMessage ''implement''
                             \<or> str_includes lowerMessage ''work on''
                             \<or> str_includes lowerMessage ''fix''
                             \<or> str_includes lowerMessage ''add''
                             \<or> str_includes lowerMessage ''update''
                             \<or> str_includes lowerMessage ''change''
                          then
                            seq (sendThought X token sessionId ''Starting a new implementation...'')
                                (triggerImplementation X token sessionId (lis_id issue)
                                   (lis_identifier issue) c)
                          else if str_includes lowerMessage ''status''
                             \<or> str_includes lowerMessage ''progress''
                             \<or> str_includes lowerMessage ''how's it going''
                          then
                            sendResponse X token sessionId
                              ''I don't have any active work on this ticket. Let me know if you'd like me to implement something!''
                          else
                            sendElicitation X token sessionId
                              ''I'm not sure what you'd like me to do. Would you like me to:\<newline>\<newline>1. **Implement** a feature or fix based on this ticket\<newline>2. **Check status** of any previous work\<newline>\<newline>Just let me know!'')))))))"

definition handleInboxNotification :: "externals \<Rightarrow> string \<Rightarrow> string \<Rightarrow> unit io" where
  "handleInboxNotification X issueId issueIdentifier =
     seq (run_logEvent
            \<lparr> ev_workflowRunId = None,
              ev_agentSessionId = None,
              ev_eventType = ''agent_unassigned'',
              ev_message = Some (''Agent unassigned from '' @ issueIdentifier),
              ev_metadata = Some [(''issueId'', issueId), (''issueIdentifier'', issueIdentifier)] \<rparr>)
    (bind (query (getActiveWorkflowRunByIssue issueId)) (\<lambda>found.
     case found of
       None \<Rightarrow> ret ()
     | Some activeWorkflow \<Rightarrow>
         bind (query (getGitHubInstallationByAccount (wr_github_owner activeWorkflow)))
           (\<lambda>installation.
            case installation of
              None \<Rightarrow> ret ()
            | Some inst \<Rightarrow>
                (case or_null (wr_linear_workspace_id activeWorkflow) of
                   None \<Rightarrow> ret ()
                 | Some workspaceId \<Rightarrow>
                     bind (getOAuthToken X workspaceId None) (\<lambda>oauthToken.
                     case or_null oauthToken of
                       None \<Rightarrow> ret ()
                     | Some token \<Rightarrow>
                         seq (cancelWorkflow X token activeWorkflow (gi_installation_id inst))
                             (run_deletePendingConfig (wr_agent_session_id activeWorkflow)))))))"

section \<open>The Linear webhook (handlers/linear-webhook.ts)\<close>

definition generateWebhookId :: "nat \<Rightarrow> LinearWebhook \<Rightarrow> string" where
  "generateWebhookId now_ms payload =
     (case payload of
        AgentSessionEvent action organizationId sessionId issue agentActivity \<Rightarrow>
          (case agentActivity of
             Some a \<Rightarrow>
               if action = ''prompted'' \<and> aa_id a \<noteq> []
               then ''linear-session-'' @ sessionId @ ''-prompted-'' @ aa_id a
               else ''linear-session-'' @ sessionId @ ''-'' @ action
           | None \<Rightarrow> ''linear-session-'' @ sessionId @ ''-'' @ action)
      | AppUserNotificationUnassigned organizationId issueId issueIdentifier \<Rightarrow>
          ''linear-unassign-'' @ issueId @ ''-'' @ string_of_nat now_ms
      | OtherLinearWebhook type action \<Rightarrow>
          ''linear-unknown-'' @ string_of_nat now_ms)"

definition route_linear :: "externals \<Rightarrow> Bindings \<Rightarrow> LinearWebhook \<Rightarrow> unit io" where
  "route_linear X env payload =
     (case payload of
        AgentSessionEvent action organizationId sessionId issue agentActivity \<Rightarrow>
          if action = ''created'' then handleSessionCreated X env organizationId sessionId issue
          else if action = ''prompted''
          then handleSessionPrompted X organizationId sessionId issue agentActivity
          else ret ()
      | AppUserNotificationUnassigned organizationId issueId issueIdentifier \<Rightarrow>
          handleInboxNotification X issueId issueIdentifier
      | OtherLinearWebhook type action \<Rightarrow> ret ())"

text \<open>The \<open>catch\<close> block: the error is logged in a \<open>try\<close> of its own, then answered
  with the status 200.\<close>

definition payload_type :: "LinearWebhook \<Rightarrow> string" where
  "payload_type payload =
     (case payload of
        AgentSessionEvent action organizationId sessionId issue agentActivity \<Rightarrow> ''AgentSessionEvent''
      | AppUserNotificationUnassigned organizationId issueId issueIdentifier \<Rightarrow> ''AppUserNotification''
      | OtherLinearWebhook type action \<Rightarrow> type)"

definition payload_action :: "LinearWebhook \<Rightarrow> string" where
  "payload_action payload =
     (case payload of
        AgentSessionEvent action organizationId sessionId issue agentActivity \<Rightarrow> action
      | AppUserNotificationUnassigned organizationId issueId issueIdentifier \<Rightarrow>
          ''issueUnassignedFromYou''
      | OtherLinearWebhook type action \<Rightarrow>
          (case action of None \<Rightarrow> ''undefined'' | Some a \<Rightarrow> a))"

definition payload_session :: "LinearWebhook \<Rightarrow> string option" where
  "payload_session payload =
     (case payload of
        AgentSessionEvent action organizationId sessionId issue agentActivity \<Rightarrow> Some sessionId
      | _ \<Rightarrow> None)"

definition log_webhook_error :: "LinearWebhook \<Rightarrow> error \<Rightarrow> unit io" where
  "log_webhook_error payload err =
     try_catch
       (run_logEvent
          \<lparr> ev_workflowRunId = None,
            ev_agentSessionId = payload_session payload,
            ev_eventType = ''webhook_error'',
            ev_message = Some (''Error handling '' @ payload_type payload @ ''/''
                                 @ payload_action payload @ '': '' @ String_of_error err),
            ev_metadata = None \<rparr>)
       (\<lambda>_. ret ())"

text \<open>The \<open>try\<close> statement of the endpoint: the handlers, and the answer.\<close>

definition try_route_linear :: "externals \<Rightarrow> Bindings \<Rightarrow> LinearWebhook \<Rightarrow> http_response io" where
  "try_route_linear X env payload =
     try_catch
       (seq (route_linear X env payload)
            (ret \<lparr> rs_status = 200, rs_json = [(''status'', ''ok'')] \<rparr>))
       (\<lambda>error.
          seq (log_webhook_error payload error)
              (ret \<lparr> rs_status = 200,
                     rs_json = [(''status'', ''error''),
                                (''message'', String_of_error error)] \<rparr>))"

text \<open>The endpoint. An exception of the verification or of \<open>JSON.parse\<close> is outside the
  \<open>try\<close> statement and leaves the function.\<close>

definition handleLinearWebhook :: "externals \<Rightarrow> Bindings \<Rightarrow> http_request \<Rightarrow> http_response io" where
  "handleLinearWebhook X env req =
     (let body = rq_body req;
          signature = header_or_empty (rq_linear_signature req)
      in
      case verifyLinearSignature (hmac_sha256 X) body signature (LINEAR_WEBHOOK_SECRET env) of
        Inl e \<Rightarrow> raise e
      | Inr isValid \<Rightarrow>
          if \<not> isValid
          then ret \<lparr> rs_status = 401, rs_json = [(''error'', ''Invalid signature'')] \<rparr>
          else
            (case parse_linear X body of
               None \<Rightarrow> raise SyntaxError
             | Some payload \<Rightarrow>
                 bind Date_now (\<lambda>now_ms.
                 let webhookId = generateWebhookId now_ms payload in
                 bind (query (isWebhookProcessed webhookId Linear)) (\<lambda>isProcessed.
                 if isProcessed
                 then ret \<lparr> rs_status = 200, rs_json = [(''status'', ''already_processed'')] \<rparr>
                 else
                   seq (run_markWebhookProcessed webhookId Linear)
                       (try_route_linear X env payload)))))"

section \<open>Example data\<close>

text \<open>Example data: an empty store and a completed run.\<close>

definition completed_run :: WorkflowRun where
  "completed_run =
     \<lparr> wr_id = 1, wr_github_run_id = 111, wr_github_owner = ''acme'', wr_github_repo = ''backend'',
       wr_agent_session_id = ''session-1'', wr_linear_issue_id = ''issue-1'',
       wr_linear_issue_identifier = ''ABC-123'', wr_linear_workspace_id = Some ''ws-1'',
       wr_workflow_type = ''implement'', wr_branch_name = ''main'', wr_status = Completed,
       wr_conclusion = Some ''success'', wr_pr_number = None, wr_pr_url = None,
       wr_created_at = 100, wr_updated_at = 200 \<rparr>"

definition empty_db :: database where
  "empty_db =
     \<lparr> team_configs = [], github_installations = [], workflow_runs = [], workflow_runs_seq = 0,
       processed_webhooks = [], run_log = [], pending_workflow_triggers = [],
       pending_workflow_triggers_seq = 0, pending_configs = [], oauth_tokens = [] \<rparr>"

text \<open>Example data: a keyed digest that concatenates key and message, remote systems
  that accept every request, the secrets \<open>k\<close>, and a world with an empty store.\<close>

definition toy_hmac :: "byte list \<Rightarrow> byte list \<Rightarrow> byte list" where
  "toy_hmac key message = key @ message"

definition example_externals :: externals where
  "example_externals =
     \<lparr> hmac_sha256 = toy_hmac,
       parse_linear = (\<lambda>body. None),
       parse_github = (\<lambda>body. None),
       linear_mutation = (\<lambda>h r. None),
       linear_issue = (\<lambda>h i. Inl ''Linear API error: 404''),
       linear_token_refresh = (\<lambda>h r. None),
       github_access_token = (\<lambda>h n. Inr ''ghs_token''),
       github_repo_installation = (\<lambda>h owner repo. Inr None),
       github_branches = (\<lambda>h token owner repo. Inr [''main'']),
       github_default_branch = (\<lambda>h token owner repo. Inr ''main''),
       github_dispatch = (\<lambda>h r. None),
       github_cancel = (\<lambda>h r. 202),
       github_pulls_for_branch = (\<lambda>h token owner repo branch. Inr []),
       github_open_pulls = (\<lambda>h token owner repo. Inr []) \<rparr>"

definition example_env :: Bindings where
  "example_env =
     \<lparr> LINEAR_WEBHOOK_SECRET = ''k'', LINEAR_CLIENT_ID = ''client'',
       LINEAR_CLIENT_SECRET = ''secret'', GITHUB_WEBHOOK_SECRET = ''k'' \<rparr>"

definition empty_world :: world where
  "empty_world = \<lparr> db = empty_db, sent = [], clock = 1700000000000, journal = [] \<rparr>"


lemma toy_digest: "hex_lower (toy_hmac (encode ''k'') (encode ''a'')) = ''6b61''"
  by code_simp

text \<open>Example data: the run 111 of session-1, queued; the token of its workspace; a
  signed \<open>workflow_run\<close> request; the payload of the event that the run is in progress;
  a Linear API that answers every mutation with the status 500.\<close>

definition lin_token :: OAuthToken where
  "lin_token =
     \<lparr> ot_workspace_id = ''ws-1'', ot_access_token = ''lin_token'', ot_refresh_token = None,
       ot_expires_at = None \<rparr>"

definition queued_run :: WorkflowRun where
  "queued_run = completed_run\<lparr>wr_status := Queued, wr_conclusion := None\<rparr>"

definition run_world :: world where
  "run_world =
     empty_world\<lparr>db := empty_db\<lparr>workflow_runs := [queued_run], workflow_runs_seq := 1,
                                 oauth_tokens := [lin_token]\<rparr>\<rparr>"

definition signed_github_request :: http_request where
  "signed_github_request =
     \<lparr> rq_body = ''a'', rq_linear_signature = None, rq_hub_signature_256 = Some ''sha256=6b61'',
       rq_github_event = Some ''workflow_run'', rq_github_delivery = Some ''d-1'' \<rparr>"

definition in_progress_event :: WorkflowRunEvent where
  "in_progress_event =
     \<lparr> wre_id = 111, wre_name = ''Linear Agent'', wre_status = ''in_progress'',
       wre_conclusion = None, wre_head_branch = ''main'', wre_owner = ''acme'',
       wre_repo = ''backend'' \<rparr>"

definition in_progress_payload :: GitHubWebhook where
  "in_progress_payload =
     \<lparr> gw_action = Some ''in_progress'', gw_workflow_run = Some in_progress_event,
       gw_installation = Some \<lparr> ins_id = 42, ins_account = None \<rparr>,
       gw_pull_request = None, gw_repository = None \<rparr>"

definition linear_down :: externals where
  "linear_down =
     example_externals\<lparr>parse_github := (\<lambda>body. Some in_progress_payload),
                       linear_mutation := (\<lambda>h r. Some ''Linear API error: 500'')\<rparr>"

section \<open>Status updates of a workflow run\<close>

text \<open>
  Claim C1, as stated: for a run whose status is \<open>completed\<close>, a call of
  \<open>updateWorkflowRun\<close> for its run id with the status \<open>in_progress\<close> leaves the
  stored status \<open>completed\<close>. The function has no test of the stored status: on the
  store that holds the one completed run 111, the call stores \<open>in_progress\<close>.
\<close>

theorem updateWorkflowRun_reopens_counterexample:
  "\<not> (\<forall>now d r. r \<in> set (workflow_runs d) \<and> wr_status r = Completed \<longrightarrow>
        (\<forall>r' \<in> set (workflow_runs
                (updateWorkflowRun now (wr_github_run_id r)
                   (no_updates\<lparr>upd_status := Some InProgress\<rparr>) d)).
           wr_github_run_id r' = wr_github_run_id r \<longrightarrow> wr_status r' = Completed))"
proof
  assume a: "\<forall>now d r. r \<in> set (workflow_runs d) \<and> wr_status r = Completed \<longrightarrow>
        (\<forall>r' \<in> set (workflow_runs
                (updateWorkflowRun now (wr_github_run_id r)
                   (no_updates\<lparr>upd_status := Some InProgress\<rparr>) d)).
           wr_github_run_id r' = wr_github_run_id r \<longrightarrow> wr_status r' = Completed)"
  let ?d = "empty_db\<lparr>workflow_runs := [completed_run], workflow_runs_seq := 1\<rparr>"
  have "completed_run \<in> set (workflow_runs ?d) \<and> wr_status completed_run = Completed"
    by (simp add: completed_run_def)
  with a have "\<forall>r' \<in> set (workflow_runs
                (updateWorkflowRun 300 (wr_github_run_id completed_run)
                   (no_updates\<lparr>upd_status := Some InProgress\<rparr>) ?d)).
           wr_github_run_id r' = wr_github_run_id completed_run \<longrightarrow> wr_status r' = Completed"
    by blast
  then show False
    by (simp add: updateWorkflowRun_def set_clauses_def no_updates_def completed_run_def)
qed



lemma set_clauses_status:
  "wr_status (set_clauses now updates r)
     = (case upd_status updates of None \<Rightarrow> wr_status r | Some s \<Rightarrow> s)"
  by (cases "upd_status updates"; cases "upd_conclusion updates"; cases "upd_prNumber updates";
      cases "upd_prUrl updates") (simp_all add: set_clauses_def)

lemma set_clauses_run_id: "wr_github_run_id (set_clauses now updates r) = wr_github_run_id r"
  by (cases "upd_status updates"; cases "upd_conclusion updates"; cases "upd_prNumber updates";
      cases "upd_prUrl updates") (simp_all add: set_clauses_def)

lemma updateWorkflowRun_rows:
  "workflow_runs (updateWorkflowRun now githubRunId updates d)
     = (if upd_status updates = None \<and> upd_conclusion updates = None
           \<and> upd_prNumber updates = None \<and> upd_prUrl updates = None
        then workflow_runs d
        else map (\<lambda>r. if wr_github_run_id r = githubRunId then set_clauses now updates r else r)
               (workflow_runs d))"
  by (simp add: updateWorkflowRun_def)

text \<open>
  Claim C1, amended. \<open>updateWorkflowRun\<close> does not look at the stored status: a call
  that carries a status stores it on every run of the given run id, whatever the status
  was (so \<open>completed\<close> becomes \<open>in_progress\<close>), and leaves the status of the runs of
  other ids; a call that carries no status leaves every stored status; no call changes
  a run id.
\<close>

theorem updateWorkflowRun_status_amended:
  "map wr_status (workflow_runs (updateWorkflowRun now githubRunId (updates\<lparr>upd_status := Some s\<rparr>) d))
     = map (\<lambda>r. if wr_github_run_id r = githubRunId then s else wr_status r) (workflow_runs d)
   \<and> map wr_status (workflow_runs (updateWorkflowRun now githubRunId (updates\<lparr>upd_status := None\<rparr>) d))
     = map wr_status (workflow_runs d)
   \<and> map wr_github_run_id (workflow_runs (updateWorkflowRun now githubRunId updates d))
     = map wr_github_run_id (workflow_runs d)"
proof (intro conjI)
  show "map wr_status (workflow_runs (updateWorkflowRun now githubRunId (updates\<lparr>upd_status := Some s\<rparr>) d))
     = map (\<lambda>r. if wr_github_run_id r = githubRunId then s else wr_status r) (workflow_runs d)"
    unfolding updateWorkflowRun_rows
    by (simp add: set_clauses_status cong: if_cong)
  show "map wr_status (workflow_runs (updateWorkflowRun now githubRunId (updates\<lparr>upd_status := None\<rparr>) d))
     = map wr_status (workflow_runs d)"
    unfolding updateWorkflowRun_rows
    by (simp add: set_clauses_status cong: if_cong)
  show "map wr_github_run_id (workflow_runs (updateWorkflowRun now githubRunId updates d))
     = map wr_github_run_id (workflow_runs d)"
    unfolding updateWorkflowRun_rows
    by (simp add: set_clauses_run_id cong: if_cong)
qed

section \<open>Dispatch without a target\<close>

lemma github_target_None:
  "(github_target config = None)
     = (\<not> truthy_str (tc_github_owner config) \<or> \<not> truthy_str (tc_github_repo config)
        \<or> \<not> truthy_num (tc_github_installation_id config))"
  by (auto simp: github_target_def truthy_str_def truthy_num_def split: option.splits)

text \<open>
  Claim C8. When the owner, the repository or the installation id of the team config
  is missing, \<open>triggerImplementation\<close> throws, and the state is the state of the call:
  no request was sent (no issue query, no branch listing, no activity, no dispatch) and
  the store is unchanged (no pending trigger, no log entry). The function has no loop
  and no second attempt.
\<close>

theorem triggerImplementation_fails_fast:
  "\<not> truthy_str (tc_github_owner config) \<or> \<not> truthy_str (tc_github_repo config)
     \<or> \<not> truthy_num (tc_github_installation_id config)
   \<Longrightarrow> triggerImplementation X token agentSessionId issueId issueIdentifier config w
         = (Inl (Error ''Team config missing GitHub configuration''), w)"
proof -
  assume "\<not> truthy_str (tc_github_owner config) \<or> \<not> truthy_str (tc_github_repo config)
     \<or> \<not> truthy_num (tc_github_installation_id config)"
  then have "github_target config = None" by (simp only: github_target_None)
  then show ?thesis by (simp add: triggerImplementation_def throw_def)
qed


text \<open>Example data: a team config with no repository.\<close>

definition unconfigured_team :: TeamConfig where
  "unconfigured_team =
     \<lparr> tc_linear_workspace_id = ''ws-1'', tc_linear_team_id = ''team-1'',
       tc_linear_team_name = None, tc_github_installation_id = Some 42,
       tc_github_owner = Some ''acme'', tc_github_repo = None, tc_github_branch = ''main'' \<rparr>"

theorem triggerImplementation_fails_fast_witness:
  "\<not> truthy_str (tc_github_repo unconfigured_team)
   \<and> triggerImplementation example_externals ''lin_token'' ''session-1'' ''issue-1'' ''ABC-123''
         unconfigured_team run_world
       = (Inl (Error ''Team config missing GitHub configuration''), run_world)"
proof -
  have h: "\<not> truthy_str (tc_github_owner unconfigured_team)
      \<or> \<not> truthy_str (tc_github_repo unconfigured_team)
      \<or> \<not> truthy_num (tc_github_installation_id unconfigured_team)"
    by (simp add: unconfigured_team_def truthy_str_def)
  have r: "\<not> truthy_str (tc_github_repo unconfigured_team)"
    by (simp add: unconfigured_team_def truthy_str_def)
  from r triggerImplementation_fails_fast [OF h] show ?thesis by blast
qed

section \<open>Unassignment\<close>

lemma latest_None: "(latest t xs = None) = (xs = [])"
  by (cases xs) (simp_all split: option.splits)

lemma getActiveWorkflowRunByIssue_None:
  "(getActiveWorkflowRunByIssue issueId d = None)
     = (\<forall>r \<in> set (workflow_runs d). wr_linear_issue_id r = issueId \<longrightarrow> wr_status r = Completed)"
  by (auto simp: getActiveWorkflowRunByIssue_def latest_None filter_empty_conv)

definition unassigned_entry :: "string \<Rightarrow> string \<Rightarrow> RunLog" where
  "unassigned_entry issueId issueIdentifier =
     \<lparr> rl_workflow_run_id = None,
       rl_agent_session_id = None,
       rl_event_type = ''agent_unassigned'',
       rl_message = Some (''Agent unassigned from '' @ issueIdentifier),
       rl_metadata = Some [(''issueId'', issueId), (''issueIdentifier'', issueIdentifier)] \<rparr>"

text \<open>The argument of \<open>logEvent\<close> for an unassignment.\<close>

definition unassigned_event :: "string \<Rightarrow> string \<Rightarrow> LogEvent" where
  "unassigned_event issueId issueIdentifier =
     \<lparr> ev_workflowRunId = None,
       ev_agentSessionId = None,
       ev_eventType = ''agent_unassigned'',
       ev_message = Some (''Agent unassigned from '' @ issueIdentifier),
       ev_metadata = Some [(''issueId'', issueId), (''issueIdentifier'', issueIdentifier)] \<rparr>"

lemma logEvent_unassigned:
  "logEvent (unassigned_event issueId issueIdentifier) d
     = Inr (d\<lparr>run_log := run_log d @ [unassigned_entry issueId issueIdentifier]\<rparr>)"
  by (simp add: logEvent_def unassigned_event_def unassigned_entry_def or_null_def truthy_str_def
      num_or_null_def truthy_num_def)

lemma handleInboxNotification_idle:
  assumes "getActiveWorkflowRunByIssue issueId (db w) = None"
  shows "handleInboxNotification X issueId issueIdentifier w
     = (Inr (), w\<lparr>db := (db w)\<lparr>run_log := run_log (db w)
                                        @ [unassigned_entry issueId issueIdentifier]\<rparr>,
                  journal := journal w
                             @ [Wrote (InsertRunLog (unassigned_event issueId issueIdentifier))]\<rparr>)"
proof -
  have e: "\<lparr> ev_workflowRunId = None, ev_agentSessionId = None,
              ev_eventType = ''agent_unassigned'',
              ev_message = Some (''Agent unassigned from '' @ issueIdentifier),
              ev_metadata = Some [(''issueId'', issueId), (''issueIdentifier'', issueIdentifier)] \<rparr>
      = unassigned_event issueId issueIdentifier"
    by (simp add: unassigned_event_def)
  from assms have "getActiveWorkflowRunByIssue issueId
      ((db w)\<lparr>run_log := run_log (db w) @ [unassigned_entry issueId issueIdentifier]\<rparr>) = None"
    by (simp add: getActiveWorkflowRunByIssue_def)
  then show ?thesis
    unfolding handleInboxNotification_def e
    by (simp add: seq_def bind_def run_logEvent_def exec_checked_def query_def ret_def
        logEvent_unassigned)
qed

text \<open>
  Claim C9. When every run of the issue of an unassignment event is completed, the
  handler returns without an exception; it has sent no request (no CI call and no
  activity), the runs, the pending configs and the pending triggers are as they were,
  and the run log has one more entry, the one of the unassignment event.
\<close>

theorem unassignment_without_active_run:
  assumes "\<forall>r \<in> set (workflow_runs (db w)).
             wr_linear_issue_id r = issueId \<longrightarrow> wr_status r = Completed"
  shows "\<exists>w'. handleInboxNotification X issueId issueIdentifier w = (Inr (), w')
           \<and> sent w' = sent w
           \<and> workflow_runs (db w') = workflow_runs (db w)
           \<and> pending_configs (db w') = pending_configs (db w)
           \<and> pending_workflow_triggers (db w') = pending_workflow_triggers (db w)
           \<and> run_log (db w') = run_log (db w) @ [unassigned_entry issueId issueIdentifier]"
proof -
  from assms have "getActiveWorkflowRunByIssue issueId (db w) = None"
    by (simp only: getActiveWorkflowRunByIssue_None)
  from handleInboxNotification_idle [OF this] show ?thesis by simp
qed

text \<open>Example: the issue of the completed run 111 is unassigned.\<close>

definition completed_world :: world where
  "completed_world =
     empty_world\<lparr>db := empty_db\<lparr>workflow_runs := [completed_run], workflow_runs_seq := 1,
                                 oauth_tokens := [lin_token]\<rparr>\<rparr>"

theorem unassignment_without_active_run_witness:
  "workflow_runs (db completed_world) = [completed_run]
   \<and> wr_linear_issue_id completed_run = ''issue-1''
   \<and> wr_status completed_run = Completed
   \<and> (\<exists>w'. handleInboxNotification example_externals ''issue-1'' ''ABC-123'' completed_world
              = (Inr (), w')
          \<and> sent w' = []
          \<and> workflow_runs (db w') = [completed_run]
          \<and> pending_configs (db w') = []
          \<and> run_log (db w') = [unassigned_entry ''issue-1'' ''ABC-123''])"
proof -
  have h: "\<forall>r \<in> set (workflow_runs (db completed_world)).
       wr_linear_issue_id r = ''issue-1'' \<longrightarrow> wr_status r = Completed"
    by (simp add: completed_world_def empty_world_def empty_db_def completed_run_def)
  have s: "sent completed_world = []" "workflow_runs (db completed_world) = [completed_run]"
    "pending_configs (db completed_world) = []" "run_log (db completed_world) = []"
    by (simp_all add: completed_world_def empty_world_def empty_db_def)
  from unassignment_without_active_run [OF h, of example_externals "''ABC-123''"]
  have "\<exists>w'. handleInboxNotification example_externals ''issue-1'' ''ABC-123'' completed_world
              = (Inr (), w')
          \<and> sent w' = []
          \<and> workflow_runs (db w') = [completed_run]
          \<and> pending_configs (db w') = []
          \<and> run_log (db w') = [unassigned_entry ''issue-1'' ''ABC-123'']"
    by (auto simp: s)
  moreover have "wr_linear_issue_id completed_run = ''issue-1''"
    and "wr_status completed_run = Completed"
    by (simp_all add: completed_run_def)
  ultimately show ?thesis using s(2) by blast
qed

section \<open>What the handlers leave alone\<close>

text \<open>\<open>keeps p m\<close>: the operation \<open>m\<close> ends, with a result or an exception, in a store
  whose part \<open>p\<close> is as it was.\<close>

definition keeps :: "(database \<Rightarrow> 'b) \<Rightarrow> 'a io \<Rightarrow> bool" where
  "keeps p m = (\<forall>w. p (db (snd (m w))) = p (db w))"

lemma keeps_snd: "keeps p m \<Longrightarrow> p (db (snd (m w))) = p (db w)"
  by (simp add: keeps_def)

lemma keeps_ret: "keeps p (ret x)"
  by (simp add: keeps_def ret_def)

lemma keeps_raise: "keeps p (raise e)"
  by (simp add: keeps_def raise_def)

lemma keeps_throw: "keeps p (throw msg)"
  by (simp add: keeps_def throw_def)

lemma keeps_bind: "keeps p m \<Longrightarrow> (\<And>x. keeps p (f x)) \<Longrightarrow> keeps p (bind m f)"
  unfolding keeps_def bind_def
proof
  fix w
  assume m: "\<forall>w. p (db (snd (m w))) = p (db w)" and f: "\<And>x. \<forall>w. p (db (snd (f x w))) = p (db w)"
  obtain r w' where mw: "m w = (r, w')" by (cases "m w")
  from m have "p (db (snd (m w))) = p (db w)" by blast
  with mw have a: "p (db w') = p (db w)" by simp
  show "p (db (snd (case m w of (Inl e, w') \<Rightarrow> (Inl e, w') | (Inr x, w') \<Rightarrow> f x w'))) = p (db w)"
  proof (cases r)
    case (Inl e)
    with mw a show ?thesis by simp
  next
    case (Inr x)
    from f have "p (db (snd (f x w'))) = p (db w')" by blast
    with mw a Inr show ?thesis by simp
  qed
qed

lemma keeps_seq: "keeps p m \<Longrightarrow> keeps p k \<Longrightarrow> keeps p (seq m k)"
  unfolding seq_def by (rule keeps_bind)

lemma keeps_try_catch: "keeps p m \<Longrightarrow> (\<And>e. keeps p (h e)) \<Longrightarrow> keeps p (try_catch m h)"
  unfolding keeps_def try_catch_def
proof
  fix w
  assume m: "\<forall>w. p (db (snd (m w))) = p (db w)" and h: "\<And>e. \<forall>w. p (db (snd (h e w))) = p (db w)"
  obtain r w' where mw: "m w = (r, w')" by (cases "m w")
  from m have "p (db (snd (m w))) = p (db w)" by blast
  with mw have a: "p (db w') = p (db w)" by simp
  show "p (db (snd (case m w of (Inl e, w') \<Rightarrow> h e w' | (Inr x, w') \<Rightarrow> (Inr x, w')))) = p (db w)"
  proof (cases r)
    case (Inl e)
    from h have "p (db (snd (h e w'))) = p (db w')" by blast
    with mw a Inl show ?thesis by simp
  next
    case (Inr x)
    with mw a show ?thesis by simp
  qed
qed

lemma keeps_query: "keeps p (query q)"
  by (simp add: keeps_def query_def)

lemma keeps_history: "keeps p history"
  by (simp add: keeps_def history_def)

lemma keeps_Date_now: "keeps p Date_now"
  by (simp add: keeps_def Date_now_def)

lemma keeps_send: "keeps p (send r)"
  by (simp add: keeps_def send_def)

lemma keeps_of_answer: "keeps p (of_answer a)"
  by (cases a) (simp_all add: of_answer_def keeps_ret keeps_throw)

lemma keeps_of_failure: "keeps p (of_failure a)"
  by (cases a) (simp_all add: of_failure_def keeps_ret keeps_throw)

lemma keeps_exec: "(\<And>now d. p (f now d) = p d) \<Longrightarrow> keeps p (exec s f)"
  by (simp add: keeps_def exec_def)

lemma keeps_exec_checked:
  "(\<And>now d d'. f now d = Inr d' \<Longrightarrow> p d' = p d) \<Longrightarrow> keeps p (exec_checked s f)"
  by (auto simp: keeps_def exec_checked_def split: sum.splits)

lemma keeps_exec_returning:
  "(\<And>now d x d'. f now d = Inr (x, d') \<Longrightarrow> p d' = p d) \<Longrightarrow> keeps p (exec_returning s f)"
  by (auto simp: keeps_def exec_returning_def split: sum.splits)

lemmas keeps_intros =
  keeps_ret keeps_raise keeps_throw keeps_bind keeps_seq keeps_try_catch keeps_query
  keeps_history keeps_Date_now keeps_send keeps_of_answer keeps_of_failure

subsection \<open>The services only send requests\<close>

lemma keeps_createAgentActivity: "keeps p (createAgentActivity X token s c)"
  unfolding createAgentActivity_def by (intro keeps_intros)

lemma keeps_linear:
  "keeps p (sendThought X token s b)"
  "keeps p (sendAction X token s a b)"
  "keeps p (sendElicitation X token s b)"
  "keeps p (sendResponse X token s b)"
  "keeps p (sendError X token s b)"
  "keeps p (getIssueContext X token i)"
  "keeps p (createAttachment X token i t u)"
  unfolding sendThought_def sendAction_def sendElicitation_def sendResponse_def sendError_def
    getIssueContext_def createAttachment_def
  by (intro keeps_intros keeps_createAgentActivity)+

lemma keeps_getInstallationToken: "keeps p (getInstallationToken X n)"
  unfolding getInstallationToken_def by (intro keeps_intros)

lemma keeps_github:
  "keeps p (getRepoInstallation X owner repo)"
  "keeps p (listBranches X n owner repo)"
  "keeps p (getDefaultBranch X n owner repo)"
  "keeps p (triggerWorkflow X n owner repo wid rf inputs)"
  "keeps p (listPullRequestsForBranch X n owner repo branch)"
  "keeps p (searchPullRequestsByTitle X n owner repo tm)"
  unfolding getRepoInstallation_def listBranches_def getDefaultBranch_def triggerWorkflow_def
    listPullRequestsForBranch_def searchPullRequestsByTitle_def
  by (intro keeps_intros keeps_getInstallationToken)+

lemma keeps_cancelWorkflowRun: "keeps p (cancelWorkflowRun X n owner repo runId)"
  unfolding cancelWorkflowRun_def Let_def
  by (intro keeps_intros keeps_getInstallationToken) (simp add: keeps_ret keeps_throw)

lemma keeps_findPullRequests: "keeps p (findPullRequests X run n)"
  unfolding findPullRequests_def
  by (auto intro!: keeps_intros keeps_github)

text \<open>The token of a workspace is read, and refreshed, without a write outside
  \<open>oauth_tokens\<close>.\<close>

lemma keeps_refreshOAuthToken:
  "(\<And>ws a r e d. p (updateOAuthToken ws a r e d) = p d)
   \<Longrightarrow> keeps p (refreshOAuthToken X ws rt cid cs)"
  unfolding refreshOAuthToken_def Let_def
  by (auto intro!: keeps_intros keeps_exec split: option.splits)

lemma keeps_getOAuthToken:
  "(\<And>ws a r e d. p (updateOAuthToken ws a r e d) = p d)
   \<Longrightarrow> keeps p (getOAuthToken X ws env)"
  unfolding getOAuthToken_def
  by (auto intro!: keeps_intros keeps_refreshOAuthToken split: option.splits)

subsection \<open>No handler writes the ledger of processed webhooks\<close>

lemma ledger_statements:
  "keeps processed_webhooks (run_createTeamConfig config)"
  "keeps processed_webhooks (run_createGitHubInstallation g)"
  "keeps processed_webhooks (run_upsertGitHubInstallation g)"
  "keeps processed_webhooks (run_deleteGitHubInstallation n)"
  "keeps processed_webhooks (run_createWorkflowRun r)"
  "keeps processed_webhooks (run_updateWorkflowRun i u)"
  "keeps processed_webhooks (run_createPendingWorkflowTrigger t)"
  "keeps processed_webhooks (run_markPendingWorkflowMatched i)"
  "keeps processed_webhooks (run_createPendingConfig c)"
  "keeps processed_webhooks (run_deletePendingConfig s)"
  "keeps processed_webhooks (run_logEvent e)"
  by (auto simp: keeps_def run_createTeamConfig_def run_createGitHubInstallation_def
      run_upsertGitHubInstallation_def run_deleteGitHubInstallation_def run_createWorkflowRun_def
      run_updateWorkflowRun_def run_createPendingWorkflowTrigger_def
      run_markPendingWorkflowMatched_def run_createPendingConfig_def run_deletePendingConfig_def
      run_logEvent_def exec_def exec_checked_def exec_returning_def ret_def
      createTeamConfig_def createGitHubInstallation_def upsertGitHubInstallation_def
      deleteGitHubInstallation_def createWorkflowRun_def updateWorkflowRun_def
      createPendingWorkflowTrigger_def markPendingWorkflowMatched_def createPendingConfig_def
      deletePendingConfig_def logEvent_def Let_def
      split: sum.splits if_splits)

lemma ledger_getOAuthToken: "keeps processed_webhooks (getOAuthToken X ws env)"
  by (rule keeps_getOAuthToken) (simp add: updateOAuthToken_def)

lemma ledger_triggerImplementation:
  "keeps processed_webhooks (triggerImplementation X token s i ident config)"
  unfolding triggerImplementation_def Let_def
  by (auto intro!: keeps_intros keeps_linear keeps_github ledger_statements
      split: option.splits)

lemma ledger_cancelWorkflow: "keeps processed_webhooks (cancelWorkflow X token run n)"
  unfolding cancelWorkflow_def
  by (intro keeps_intros keeps_linear keeps_cancelWorkflowRun ledger_statements)









lemma ledger_handleSessionCreated:
  "keeps processed_webhooks (handleSessionCreated X env org s issue)"
  unfolding handleSessionCreated_def
  by (auto intro!: keeps_intros keeps_linear ledger_triggerImplementation ledger_statements
      ledger_getOAuthToken split: option.splits)

lemma ledger_handleConfigResponse:
  "keeps processed_webhooks (handleConfigResponse X token pending msg)"
  unfolding handleConfigResponse_def Let_def
  by (auto intro!: keeps_intros keeps_linear keeps_github ledger_triggerImplementation
      ledger_statements split: option.splits)

lemma ledger_handleSessionPrompted:
  "keeps processed_webhooks (handleSessionPrompted X org s issue act)"
  unfolding handleSessionPrompted_def Let_def
  by (auto intro!: keeps_intros keeps_linear ledger_triggerImplementation
      ledger_handleConfigResponse ledger_statements ledger_getOAuthToken split: option.splits)

lemma ledger_handleInboxNotification:
  "keeps processed_webhooks (handleInboxNotification X issueId issueIdentifier)"
  unfolding handleInboxNotification_def
  by (auto intro!: keeps_intros ledger_cancelWorkflow ledger_statements ledger_getOAuthToken
      split: option.splits)

lemma ledger_route_linear: "keeps processed_webhooks (route_linear X env payload)"
  unfolding route_linear_def
  by (auto intro!: keeps_intros ledger_handleSessionCreated ledger_handleSessionPrompted
      ledger_handleInboxNotification split: LinearWebhook.splits)

lemma ledger_log_webhook_error: "keeps processed_webhooks (log_webhook_error payload e)"
  unfolding log_webhook_error_def
  by (intro keeps_intros ledger_statements)

lemma ledger_try_route_linear: "keeps processed_webhooks (try_route_linear X env payload)"
  unfolding try_route_linear_def
  by (intro keeps_intros ledger_route_linear ledger_log_webhook_error)

section \<open>The journal only grows\<close>

text \<open>\<open>orderly m\<close>: the operation \<open>m\<close> ends, with a result or an exception, at the clock
  value at which it started and with a journal that extends the one it started with.\<close>

definition orderly :: "'a io \<Rightarrow> bool" where
  "orderly m = (\<forall>w. clock (snd (m w)) = clock w \<and> prefix (journal w) (journal (snd (m w))))"

lemma orderly_clock: "orderly m \<Longrightarrow> clock (snd (m w)) = clock w"
  by (simp add: orderly_def)


lemma orderly_ret: "orderly (ret x)"
  by (simp add: orderly_def ret_def)

lemma orderly_raise: "orderly (raise e)"
  by (simp add: orderly_def raise_def)

lemma orderly_throw: "orderly (throw msg)"
  by (simp add: orderly_def throw_def)

lemma orderly_bind: "orderly m \<Longrightarrow> (\<And>x. orderly (f x)) \<Longrightarrow> orderly (bind m f)"
  unfolding orderly_def bind_def
proof
  fix w
  assume m: "\<forall>w. clock (snd (m w)) = clock w \<and> prefix (journal w) (journal (snd (m w)))"
    and f: "\<And>x. \<forall>w. clock (snd (f x w)) = clock w \<and> prefix (journal w) (journal (snd (f x w)))"
  obtain r w' where mw: "m w = (r, w')" by (cases "m w")
  from m have "clock (snd (m w)) = clock w \<and> prefix (journal w) (journal (snd (m w)))" by blast
  with mw have a: "clock w' = clock w" "prefix (journal w) (journal w')" by simp_all
  show "clock (snd (case m w of (Inl e, w') \<Rightarrow> (Inl e, w') | (Inr x, w') \<Rightarrow> f x w')) = clock w
      \<and> prefix (journal w)
          (journal (snd (case m w of (Inl e, w') \<Rightarrow> (Inl e, w') | (Inr x, w') \<Rightarrow> f x w')))"
  proof (cases r)
    case (Inl e)
    with mw a show ?thesis by simp
  next
    case (Inr x)
    from f have "clock (snd (f x w')) = clock w' \<and> prefix (journal w') (journal (snd (f x w')))"
      by blast
    with mw a Inr show ?thesis by (auto intro: prefix_order.trans)
  qed
qed

lemma orderly_seq: "orderly m \<Longrightarrow> orderly k \<Longrightarrow> orderly (seq m k)"
  unfolding seq_def by (rule orderly_bind)

lemma orderly_try_catch: "orderly m \<Longrightarrow> (\<And>e. orderly (h e)) \<Longrightarrow> orderly (try_catch m h)"
  unfolding orderly_def try_catch_def
proof
  fix w
  assume m: "\<forall>w. clock (snd (m w)) = clock w \<and> prefix (journal w) (journal (snd (m w)))"
    and h: "\<And>e. \<forall>w. clock (snd (h e w)) = clock w \<and> prefix (journal w) (journal (snd (h e w)))"
  obtain r w' where mw: "m w = (r, w')" by (cases "m w")
  from m have "clock (snd (m w)) = clock w \<and> prefix (journal w) (journal (snd (m w)))" by blast
  with mw have a: "clock w' = clock w" "prefix (journal w) (journal w')" by simp_all
  show "clock (snd (case m w of (Inl e, w') \<Rightarrow> h e w' | (Inr x, w') \<Rightarrow> (Inr x, w'))) = clock w
      \<and> prefix (journal w)
          (journal (snd (case m w of (Inl e, w') \<Rightarrow> h e w' | (Inr x, w') \<Rightarrow> (Inr x, w'))))"
  proof (cases r)
    case (Inl e)
    from h have "clock (snd (h e w')) = clock w' \<and> prefix (journal w') (journal (snd (h e w')))"
      by blast
    with mw a Inl show ?thesis by (auto intro: prefix_order.trans)
  next
    case (Inr x)
    with mw a show ?thesis by simp
  qed
qed

lemma orderly_query: "orderly (query q)"
  by (simp add: orderly_def query_def)

lemma orderly_history: "orderly history"
  by (simp add: orderly_def history_def)

lemma orderly_Date_now: "orderly Date_now"
  by (simp add: orderly_def Date_now_def)

lemma orderly_send: "orderly (send r)"
  by (simp add: orderly_def send_def)

lemma orderly_of_answer: "orderly (of_answer a)"
  by (cases a) (simp_all add: of_answer_def orderly_ret orderly_throw)

lemma orderly_of_failure: "orderly (of_failure a)"
  by (cases a) (simp_all add: of_failure_def orderly_ret orderly_throw)

lemma orderly_exec: "orderly (exec s f)"
  by (simp add: orderly_def exec_def)

lemma orderly_exec_checked: "orderly (exec_checked s f)"
  by (simp add: orderly_def exec_checked_def split: sum.splits)

lemma orderly_exec_returning: "orderly (exec_returning s f)"
  by (simp add: orderly_def exec_returning_def split: sum.splits prod.splits)

lemmas orderly_intros =
  orderly_ret orderly_raise orderly_throw orderly_bind orderly_seq orderly_try_catch
  orderly_query orderly_history orderly_Date_now orderly_send orderly_of_answer
  orderly_of_failure orderly_exec orderly_exec_checked orderly_exec_returning

lemma orderly_statements:
  "orderly (run_createTeamConfig config)"
  "orderly (run_createGitHubInstallation g)"
  "orderly (run_upsertGitHubInstallation g)"
  "orderly (run_deleteGitHubInstallation n)"
  "orderly (run_createWorkflowRun r)"
  "orderly (run_updateWorkflowRun i u)"
  "orderly (run_markWebhookProcessed wid ty)"
  "orderly (run_createPendingWorkflowTrigger t)"
  "orderly (run_markPendingWorkflowMatched i)"
  "orderly (run_createPendingConfig c)"
  "orderly (run_deletePendingConfig s)"
  "orderly (run_logEvent e)"
  unfolding run_createTeamConfig_def run_createGitHubInstallation_def
    run_upsertGitHubInstallation_def run_deleteGitHubInstallation_def run_createWorkflowRun_def
    run_updateWorkflowRun_def run_markWebhookProcessed_def run_createPendingWorkflowTrigger_def
    run_markPendingWorkflowMatched_def run_createPendingConfig_def run_deletePendingConfig_def
    run_logEvent_def
  by (simp_all add: orderly_intros)

lemma orderly_createAgentActivity: "orderly (createAgentActivity X token s c)"
  unfolding createAgentActivity_def by (intro orderly_intros)

lemma orderly_linear:
  "orderly (sendThought X token s b)"
  "orderly (sendAction X token s a b)"
  "orderly (sendElicitation X token s b)"
  "orderly (sendResponse X token s b)"
  "orderly (sendError X token s b)"
  "orderly (getIssueContext X token i)"
  "orderly (createAttachment X token i t u)"
  unfolding sendThought_def sendAction_def sendElicitation_def sendResponse_def sendError_def
    getIssueContext_def createAttachment_def
  by (intro orderly_intros orderly_createAgentActivity)+

lemma orderly_getInstallationToken: "orderly (getInstallationToken X n)"
  unfolding getInstallationToken_def by (intro orderly_intros)

lemma orderly_github:
  "orderly (getRepoInstallation X owner repo)"
  "orderly (listBranches X n owner repo)"
  "orderly (getDefaultBranch X n owner repo)"
  "orderly (triggerWorkflow X n owner repo wid rf inputs)"
  "orderly (listPullRequestsForBranch X n owner repo branch)"
  "orderly (searchPullRequestsByTitle X n owner repo tm)"
  unfolding getRepoInstallation_def listBranches_def getDefaultBranch_def triggerWorkflow_def
    listPullRequestsForBranch_def searchPullRequestsByTitle_def
  by (intro orderly_intros orderly_getInstallationToken)+

lemma orderly_cancelWorkflowRun: "orderly (cancelWorkflowRun X n owner repo runId)"
  unfolding cancelWorkflowRun_def Let_def
  by (intro orderly_intros orderly_getInstallationToken) (simp add: orderly_ret orderly_throw)


lemma orderly_refreshOAuthToken: "orderly (refreshOAuthToken X ws rt cid cs)"
  unfolding refreshOAuthToken_def Let_def
  by (auto intro!: orderly_intros split: option.splits)

lemma orderly_getOAuthToken: "orderly (getOAuthToken X ws env)"
  unfolding getOAuthToken_def
  by (auto intro!: orderly_intros orderly_refreshOAuthToken split: option.splits)

lemma orderly_triggerImplementation:
  "orderly (triggerImplementation X token s i ident config)"
  unfolding triggerImplementation_def Let_def
  by (auto intro!: orderly_intros orderly_linear orderly_github orderly_statements
      split: option.splits)

lemma orderly_cancelWorkflow: "orderly (cancelWorkflow X token run n)"
  unfolding cancelWorkflow_def
  by (intro orderly_intros orderly_linear orderly_cancelWorkflowRun orderly_statements)









lemma orderly_handleSessionCreated: "orderly (handleSessionCreated X env org s issue)"
  unfolding handleSessionCreated_def
  by (auto intro!: orderly_intros orderly_linear orderly_triggerImplementation
      orderly_statements orderly_getOAuthToken split: option.splits)

lemma orderly_handleConfigResponse: "orderly (handleConfigResponse X token pending msg)"
  unfolding handleConfigResponse_def Let_def
  by (auto intro!: orderly_intros orderly_linear orderly_github orderly_triggerImplementation
      orderly_statements split: option.splits)

lemma orderly_handleSessionPrompted: "orderly (handleSessionPrompted X org s issue act)"
  unfolding handleSessionPrompted_def Let_def
  by (auto intro!: orderly_intros orderly_linear orderly_triggerImplementation
      orderly_handleConfigResponse orderly_statements orderly_getOAuthToken
      split: option.splits)

lemma orderly_handleInboxNotification:
  "orderly (handleInboxNotification X issueId issueIdentifier)"
  unfolding handleInboxNotification_def
  by (auto intro!: orderly_intros orderly_cancelWorkflow orderly_statements
      orderly_getOAuthToken split: option.splits)

lemma orderly_route_linear: "orderly (route_linear X env payload)"
  unfolding route_linear_def
  by (auto intro!: orderly_intros orderly_handleSessionCreated orderly_handleSessionPrompted
      orderly_handleInboxNotification split: LinearWebhook.splits)

lemma orderly_log_webhook_error: "orderly (log_webhook_error payload e)"
  unfolding log_webhook_error_def
  by (intro orderly_intros orderly_statements)

lemma orderly_try_route_linear: "orderly (try_route_linear X env payload)"
  unfolding try_route_linear_def
  by (intro orderly_intros orderly_route_linear orderly_log_webhook_error)

section \<open>The two webhook endpoints\<close>

text \<open>The responses of the endpoints.\<close>

definition invalid_signature_response :: http_response where
  "invalid_signature_response = \<lparr> rs_status = 401, rs_json = [(''error'', ''Invalid signature'')] \<rparr>"

definition already_processed_response :: http_response where
  "already_processed_response = \<lparr> rs_status = 200, rs_json = [(''status'', ''already_processed'')] \<rparr>"

definition ok_response :: http_response where
  "ok_response = \<lparr> rs_status = 200, rs_json = [(''status'', ''ok'')] \<rparr>"

definition error_response :: "error \<Rightarrow> http_response" where
  "error_response e =
     \<lparr> rs_status = 200, rs_json = [(''status'', ''error''), (''message'', String_of_error e)] \<rparr>"

text \<open>The argument of \<open>logEvent\<close> in the \<open>catch\<close> block of the Linear endpoint, and the
  entry of the run log it makes.\<close>

definition webhook_error_event :: "LinearWebhook \<Rightarrow> error \<Rightarrow> LogEvent" where
  "webhook_error_event payload e =
     \<lparr> ev_workflowRunId = None,
       ev_agentSessionId = payload_session payload,
       ev_eventType = ''webhook_error'',
       ev_message = Some (''Error handling '' @ payload_type payload @ ''/''
                            @ payload_action payload @ '': '' @ String_of_error e),
       ev_metadata = None \<rparr>"

definition webhook_error_entry :: "LinearWebhook \<Rightarrow> error \<Rightarrow> RunLog" where
  "webhook_error_entry payload e =
     \<lparr> rl_workflow_run_id = None,
       rl_agent_session_id = or_null (payload_session payload),
       rl_event_type = ''webhook_error'',
       rl_message = Some (''Error handling '' @ payload_type payload @ ''/''
                            @ payload_action payload @ '': '' @ String_of_error e),
       rl_metadata = None \<rparr>"

text \<open>The state in which the handlers start: the event is marked in the store, and the
  journal ends with the statement that marked it.\<close>

definition marked :: "string \<Rightarrow> webhook_type \<Rightarrow> world \<Rightarrow> world" where
  "marked webhookId webhookType w =
     w\<lparr>db := markWebhookProcessed webhookId webhookType (db w),
       journal := journal w @ [Wrote (InsertProcessedWebhook webhookId webhookType)]\<rparr>"

text \<open>The outcome of the verification of a request: \<open>Inr True\<close>, \<open>Inr False\<close>, or the
  exception of the key import.\<close>

definition linear_check :: "externals \<Rightarrow> Bindings \<Rightarrow> http_request \<Rightarrow> error + bool" where
  "linear_check X env req =
     verifyLinearSignature (hmac_sha256 X) (rq_body req)
       (header_or_empty (rq_linear_signature req)) (LINEAR_WEBHOOK_SECRET env)"

definition github_check :: "externals \<Rightarrow> Bindings \<Rightarrow> http_request \<Rightarrow> error + bool" where
  "github_check X env req =
     verifyGitHubSignature (hmac_sha256 X) (rq_body req)
       (header_or_empty (rq_hub_signature_256 req)) (GITHUB_WEBHOOK_SECRET env)"

definition linear_valid :: "externals \<Rightarrow> Bindings \<Rightarrow> http_request \<Rightarrow> bool" where
  "linear_valid X env req = (linear_check X env req = Inr True)"

definition github_valid :: "externals \<Rightarrow> Bindings \<Rightarrow> http_request \<Rightarrow> bool" where
  "github_valid X env req = (github_check X env req = Inr True)"

lemma linear_rejected:
  "linear_check X env req = Inr False
   \<Longrightarrow> handleLinearWebhook X env req w = (Inr invalid_signature_response, w)"
  by (simp add: handleLinearWebhook_def linear_check_def Let_def ret_def invalid_signature_response_def)


lemma linear_check_throws:
  "linear_check X env req = Inl e \<Longrightarrow> handleLinearWebhook X env req w = (Inl e, w)"
  by (simp add: handleLinearWebhook_def linear_check_def Let_def raise_def)


lemma linear_unparsed:
  "linear_valid X env req \<Longrightarrow> parse_linear X (rq_body req) = None
   \<Longrightarrow> handleLinearWebhook X env req w = (Inl SyntaxError, w)"
  by (simp add: handleLinearWebhook_def linear_valid_def linear_check_def Let_def raise_def)

lemma github_unparsed:
  "github_valid X env req \<Longrightarrow> parse_github X (rq_body req) = None
   \<Longrightarrow> handleGitHubWebhook X env req w = (Inl SyntaxError, w)"
  by (simp add: handleGitHubWebhook_def github_valid_def github_check_def Let_def raise_def)

lemma linear_duplicate:
  "linear_valid X env req \<Longrightarrow> parse_linear X (rq_body req) = Some payload
   \<Longrightarrow> isWebhookProcessed (generateWebhookId (clock w) payload) Linear (db w)
   \<Longrightarrow> handleLinearWebhook X env req w = (Inr already_processed_response, w)"
  by (simp add: handleLinearWebhook_def linear_valid_def linear_check_def Let_def bind_def
      Date_now_def query_def ret_def already_processed_response_def)


lemma linear_fresh:
  "linear_valid X env req \<Longrightarrow> parse_linear X (rq_body req) = Some payload
   \<Longrightarrow> \<not> isWebhookProcessed (generateWebhookId (clock w) payload) Linear (db w)
   \<Longrightarrow> handleLinearWebhook X env req w
       = try_route_linear X env payload (marked (generateWebhookId (clock w) payload) Linear w)"
  by (simp add: handleLinearWebhook_def linear_valid_def linear_check_def Let_def bind_def seq_def
      Date_now_def query_def run_markWebhookProcessed_def exec_def marked_def)

lemma github_fresh:
  "github_valid X env req \<Longrightarrow> parse_github X (rq_body req) = Some payload
   \<Longrightarrow> \<not> isWebhookProcessed (github_webhook_id req (clock w)) GitHub (db w)
   \<Longrightarrow> handleGitHubWebhook X env req w
       = try_route_github X (header_or_empty (rq_github_event req)) payload
           (marked (github_webhook_id req (clock w)) GitHub w)"
  by (simp add: handleGitHubWebhook_def github_valid_def github_check_def Let_def bind_def seq_def
      Date_now_def query_def run_markWebhookProcessed_def exec_def marked_def)

text \<open>The final state after an exception at the Linear endpoint.\<close>

definition with_webhook_error :: "LinearWebhook \<Rightarrow> error \<Rightarrow> world \<Rightarrow> world" where
  "with_webhook_error payload e w =
     w\<lparr>db := (db w)\<lparr>run_log := run_log (db w) @ [webhook_error_entry payload e]\<rparr>,
       journal := journal w @ [Wrote (InsertRunLog (webhook_error_event payload e))]\<rparr>"

lemma log_webhook_error_run:
  "log_webhook_error payload e w = (Inr (), with_webhook_error payload e w)"
proof -
  have e: "\<lparr> ev_workflowRunId = None,
            ev_agentSessionId = payload_session payload,
            ev_eventType = ''webhook_error'',
            ev_message = Some (''Error handling '' @ payload_type payload @ ''/''
                                 @ payload_action payload @ '': '' @ String_of_error e),
            ev_metadata = None \<rparr> = webhook_error_event payload e"
    by (simp add: webhook_error_event_def)
  have l: "logEvent (webhook_error_event payload e) d
      = Inr (d\<lparr>run_log := run_log d @ [webhook_error_entry payload e]\<rparr>)" for d
    by (simp add: logEvent_def webhook_error_event_def webhook_error_entry_def num_or_null_def
        truthy_num_def or_null_def truthy_str_def)
  show ?thesis
    unfolding log_webhook_error_def e
    by (simp add: try_catch_def run_logEvent_def exec_checked_def l with_webhook_error_def)
qed

lemma try_route_linear_ok:
  "route_linear X env payload w = (Inr u, w')
   \<Longrightarrow> try_route_linear X env payload w = (Inr ok_response, w')"
  by (simp add: try_route_linear_def try_catch_def seq_def bind_def ret_def ok_response_def)

lemma try_route_linear_error:
  "route_linear X env payload w = (Inl e, w')
   \<Longrightarrow> try_route_linear X env payload w
       = (Inr (error_response e), with_webhook_error payload e w')"
  by (simp add: try_route_linear_def try_catch_def seq_def bind_def ret_def error_response_def
      log_webhook_error_run)

lemma try_route_github_ok:
  "route_github X eventType payload w = (Inr u, w')
   \<Longrightarrow> try_route_github X eventType payload w = (Inr ok_response, w')"
  by (simp add: try_route_github_def try_catch_def seq_def bind_def ret_def ok_response_def)

lemma try_route_github_error:
  "route_github X eventType payload w = (Inl e, w')
   \<Longrightarrow> try_route_github X eventType payload w = (Inr (error_response e), w')"
  by (simp add: try_route_github_def try_catch_def seq_def bind_def ret_def error_response_def)


text \<open>Example data: a signed unassignment request for the Linear endpoint, bindings
  whose webhook secrets are empty, and stores in which the deliveries of the two signed
  requests are marked already.\<close>

definition signed_linear_request :: http_request where
  "signed_linear_request =
     \<lparr> rq_body = ''a'', rq_linear_signature = Some ''6b61'', rq_hub_signature_256 = None,
       rq_github_event = None, rq_github_delivery = None \<rparr>"

definition unassign_externals :: externals where
  "unassign_externals =
     example_externals\<lparr>parse_linear :=
       (\<lambda>body. Some (AppUserNotificationUnassigned ''ws-1'' ''issue-1'' ''ABC-123''))\<rparr>"




lemma unassign_valid: "linear_valid unassign_externals example_env signed_linear_request"
  by (simp add: linear_valid_def linear_check_def verifyLinearSignature_iff unassign_externals_def
      example_externals_def example_env_def signed_linear_request_def header_or_empty_def
      or_null_def truthy_str_def toy_digest)

lemma linear_down_valid: "github_valid linear_down example_env signed_github_request"
  by (simp add: github_valid_def github_check_def verifyGitHubSignature_iff linear_down_def
      example_externals_def example_env_def signed_github_request_def header_or_empty_def
      or_null_def truthy_str_def toy_digest)

lemma unassign_delivery:
  assumes "workflow_runs (db w) = []"
    and "\<not> isWebhookProcessed
            (generateWebhookId (clock w) (AppUserNotificationUnassigned ''ws-1'' ''issue-1'' ''ABC-123''))
            Linear (db w)"
  shows "handleLinearWebhook unassign_externals example_env signed_linear_request w
     = (Inr ok_response,
        w\<lparr>db := (markWebhookProcessed
                    (generateWebhookId (clock w)
                       (AppUserNotificationUnassigned ''ws-1'' ''issue-1'' ''ABC-123''))
                    Linear (db w))
                 \<lparr>run_log := run_log (db w) @ [unassigned_entry ''issue-1'' ''ABC-123'']\<rparr>,
          journal := journal w
                     @ [Wrote (InsertProcessedWebhook
                                 (generateWebhookId (clock w)
                                    (AppUserNotificationUnassigned ''ws-1'' ''issue-1'' ''ABC-123''))
                                 Linear),
                        Wrote (InsertRunLog (unassigned_event ''issue-1'' ''ABC-123''))]\<rparr>)"
proof -
  let ?p = "AppUserNotificationUnassigned ''ws-1'' ''issue-1'' ''ABC-123''"
  let ?w1 = "marked (generateWebhookId (clock w) ?p) Linear w"
  have p: "parse_linear unassign_externals (rq_body signed_linear_request) = Some ?p"
    by (simp add: unassign_externals_def example_externals_def)
  have "getActiveWorkflowRunByIssue ''issue-1'' (db ?w1) = None"
    using assms(1) by (simp add: getActiveWorkflowRunByIssue_def marked_def markWebhookProcessed_def)
  from handleInboxNotification_idle [OF this, of unassign_externals "''ABC-123''"]
  have "route_linear unassign_externals example_env ?p ?w1
      = (Inr (), ?w1\<lparr>db := (db ?w1)\<lparr>run_log := run_log (db ?w1)
                                            @ [unassigned_entry ''issue-1'' ''ABC-123'']\<rparr>,
                      journal := journal ?w1
                                 @ [Wrote (InsertRunLog (unassigned_event ''issue-1'' ''ABC-123''))]\<rparr>)"
    by (simp add: route_linear_def)
  from try_route_linear_ok [OF this] show ?thesis
    by (simp add: linear_fresh [OF unassign_valid p assms(2)])
      (simp add: marked_def markWebhookProcessed_def)
qed

lemma linear_down_run:
  "handleWorkflowRun linear_down in_progress_payload
       (marked ''github-workflow_run-d-1'' GitHub run_world)
     = (Inl (Error ''Linear API error: 500''),
        run_world\<lparr>db := (db run_world)
                     \<lparr>workflow_runs := [queued_run\<lparr>wr_status := InProgress,
                                                  wr_updated_at := 1700000000\<rparr>],
                      processed_webhooks := [(''github-workflow_run-d-1'', GitHub)]\<rparr>,
                  sent := [LinearActivityCreate ''lin_token'' ''session-1''
                             (Action ''Running'' ''Claude Code'' None)],
                  journal := [Wrote (InsertProcessedWebhook ''github-workflow_run-d-1'' GitHub),
                              Wrote (UpdateWorkflowRun 111 (no_updates\<lparr>upd_status := Some InProgress\<rparr>)),
                              Sent (LinearActivityCreate ''lin_token'' ''session-1''
                                      (Action ''Running'' ''Claude Code'' None))]\<rparr>)"
  by (simp add: handleWorkflowRun_def update_status_def correlate_def bind_def seq_def query_def
      exec_def run_updateWorkflowRun_def ret_def
      throw_def send_def history_def of_failure_def sendAction_def createAgentActivity_def
      getWorkflowRun_def getOAuthToken_def selectOAuthToken_def lin_token_def or_null_def
      truthy_str_def updateWorkflowRun_def
      set_clauses_def no_updates_def db_now_def marked_def markWebhookProcessed_def
      run_world_def empty_world_def empty_db_def queued_run_def completed_run_def
      in_progress_event_def in_progress_payload_def linear_down_def example_externals_def)

lemma signed_github_id:
  "github_webhook_id signed_github_request t = ''github-workflow_run-d-1''"
  "header_or_empty (rq_github_event signed_github_request) = ''workflow_run''"
  by (simp_all add: github_webhook_id_def signed_github_request_def header_or_empty_def
      or_null_def truthy_str_def)



section \<open>Exceptions of the handlers\<close>

lemma linear_exception:
  "linear_valid X env req \<Longrightarrow> parse_linear X (rq_body req) = Some payload
   \<Longrightarrow> \<not> isWebhookProcessed (generateWebhookId (clock w) payload) Linear (db w)
   \<Longrightarrow> route_linear X env payload (marked (generateWebhookId (clock w) payload) Linear w)
         = (Inl e, w')
   \<Longrightarrow> handleLinearWebhook X env req w = (Inr (error_response e), with_webhook_error payload e w')"
  by (simp add: linear_fresh try_route_linear_error)

lemma github_exception:
  "github_valid X env req \<Longrightarrow> parse_github X (rq_body req) = Some payload
   \<Longrightarrow> \<not> isWebhookProcessed (github_webhook_id req (clock w)) GitHub (db w)
   \<Longrightarrow> route_github X (header_or_empty (rq_github_event req)) payload
         (marked (github_webhook_id req (clock w)) GitHub w) = (Inl e, w')
   \<Longrightarrow> handleGitHubWebhook X env req w = (Inr (error_response e), w')"
  by (simp add: github_fresh try_route_github_error)

text \<open>
  Claim C5 asks that an exception of a handler, on either endpoint, is caught, written
  to the run log as a \<open>webhook_error\<close> entry and answered with a success status. The
  Linear endpoint does so (\<open>linear_exception\<close>: the final state is the handler's with
  the entry appended). The GitHub endpoint catches the exception and answers with the
  status 200, and writes nothing: its final state is the state in which the handler
  threw.
\<close>

theorem github_exception_not_logged:
  assumes "github_valid X env req"
    and "parse_github X (rq_body req) = Some payload"
    and "\<not> isWebhookProcessed (github_webhook_id req (clock w)) GitHub (db w)"
    and "route_github X (header_or_empty (rq_github_event req)) payload
           (marked (github_webhook_id req (clock w)) GitHub w) = (Inl e, w')"
  shows "handleGitHubWebhook X env req w = (Inr (error_response e), w')
         \<and> rs_status (error_response e) = 200
         \<and> run_log (db (snd (handleGitHubWebhook X env req w))) = run_log (db w')"
  using assms by (simp add: github_exception error_response_def)

text \<open>The failing input of claim C5: the signed event that run 111 is in progress,
  while the Linear API answers 500. The endpoint answers 200 with the error message,
  and the run log stays empty.\<close>

theorem github_exception_not_logged_witness:
  "github_valid linear_down example_env signed_github_request
   \<and> parse_github linear_down (rq_body signed_github_request) = Some in_progress_payload
   \<and> \<not> isWebhookProcessed (github_webhook_id signed_github_request (clock run_world)) GitHub
         (db run_world)
   \<and> fst (handleGitHubWebhook linear_down example_env signed_github_request run_world)
       = Inr \<lparr> rs_status = 200,
               rs_json = [(''status'', ''error''), (''message'', ''Error: Linear API error: 500'')] \<rparr>
   \<and> run_log (db (snd (handleGitHubWebhook linear_down example_env signed_github_request
                           run_world))) = []"
proof -
  have p: "parse_github linear_down (rq_body signed_github_request) = Some in_progress_payload"
    by (simp add: linear_down_def example_externals_def)
  have f: "\<not> isWebhookProcessed (github_webhook_id signed_github_request (clock run_world)) GitHub
      (db run_world)"
    by (simp add: isWebhookProcessed_def run_world_def empty_world_def empty_db_def)
  have r: "route_github linear_down (header_or_empty (rq_github_event signed_github_request))
        in_progress_payload
        (marked (github_webhook_id signed_github_request (clock run_world)) GitHub run_world)
      = (Inl (Error ''Linear API error: 500''),
         run_world\<lparr>db := (db run_world)
                     \<lparr>workflow_runs := [queued_run\<lparr>wr_status := InProgress,
                                                  wr_updated_at := 1700000000\<rparr>],
                      processed_webhooks := [(''github-workflow_run-d-1'', GitHub)]\<rparr>,
                  sent := [LinearActivityCreate ''lin_token'' ''session-1''
                             (Action ''Running'' ''Claude Code'' None)],
                  journal := [Wrote (InsertProcessedWebhook ''github-workflow_run-d-1'' GitHub),
                              Wrote (UpdateWorkflowRun 111 (no_updates\<lparr>upd_status := Some InProgress\<rparr>)),
                              Sent (LinearActivityCreate ''lin_token'' ''session-1''
                                      (Action ''Running'' ''Claude Code'' None))]\<rparr>)"
    unfolding signed_github_id by (simp add: route_github_def linear_down_run)
  have l: "run_log (db run_world) = []"
    by (simp add: run_world_def empty_world_def empty_db_def)
  show ?thesis
    using github_exception_not_logged [OF linear_down_valid p f r] linear_down_valid p f l
    by (simp add: error_response_def String_of_error_def)
qed

section \<open>Correlation of a started run with a pending trigger\<close>

lemma latest_Some: "latest t xs = Some y \<Longrightarrow> y \<in> set xs \<and> (\<forall>x \<in> set xs. t x \<le> t y)"
proof (induction xs arbitrary: y)
  case Nil
  then show ?case by simp
next
  case (Cons a xs)
  show ?case
  proof (cases "latest t xs")
    case None
    then have "xs = []" by (simp add: latest_None)
    with Cons.prems None show ?thesis by simp
  next
    case (Some z)
    from Cons.IH [OF Some] have z: "z \<in> set xs" and zmax: "\<forall>x \<in> set xs. t x \<le> t z" by simp_all
    show ?thesis
    proof (cases "t a < t z")
      case True
      with Cons.prems Some have "y = z" by simp
      with z zmax True show ?thesis by auto
    next
      case False
      with Cons.prems Some have "y = a" by simp
      with zmax False show ?thesis by fastforce
    qed
  qed
qed

lemma latest_nonempty: "xs \<noteq> [] \<Longrightarrow> \<exists>y. latest t xs = Some y"
  using latest_None [of t xs] by (cases "latest t xs") simp_all

text \<open>The run record that the correlation creates from a trigger.\<close>

definition run_of_trigger :: "world \<Rightarrow> WorkflowRunEvent \<Rightarrow> PendingWorkflowTrigger \<Rightarrow> WorkflowRun" where
  "run_of_trigger w ev t =
     \<lparr> wr_id = workflow_runs_seq (db w) + 1,
       wr_github_run_id = wre_id ev,
       wr_github_owner = wre_owner ev,
       wr_github_repo = wre_repo ev,
       wr_agent_session_id = pt_agent_session_id t,
       wr_linear_issue_id = pt_linear_issue_id t,
       wr_linear_issue_identifier =
         (case pt_linear_issue_identifier t of None \<Rightarrow> [] | Some i \<Rightarrow> i),
       wr_linear_workspace_id = or_null (pt_linear_workspace_id t),
       wr_workflow_type = ''implement'',
       wr_branch_name = wre_head_branch ev,
       wr_status = Queued,
       wr_conclusion = None,
       wr_pr_number = None,
       wr_pr_url = None,
       wr_created_at = db_now w,
       wr_updated_at = db_now w \<rparr>"

text \<open>The argument of \<open>createWorkflowRun\<close> in the correlation.\<close>

definition new_run_of_trigger :: "WorkflowRunEvent \<Rightarrow> PendingWorkflowTrigger \<Rightarrow> NewWorkflowRun" where
  "new_run_of_trigger ev t =
     \<lparr> nwr_githubRunId = wre_id ev,
       nwr_githubOwner = wre_owner ev,
       nwr_githubRepo = wre_repo ev,
       nwr_agentSessionId = pt_agent_session_id t,
       nwr_linearIssueId = pt_linear_issue_id t,
       nwr_linearIssueIdentifier =
         (case or_null (pt_linear_issue_identifier t) of None \<Rightarrow> [] | Some i \<Rightarrow> i),
       nwr_linearWorkspaceId = or_null (pt_linear_workspace_id t),
       nwr_workflowType = ''implement'',
       nwr_branchName = wre_head_branch ev \<rparr>"

definition candidates :: "WorkflowRunEvent \<Rightarrow> world \<Rightarrow> PendingWorkflowTrigger list" where
  "candidates ev w =
     filter (trigger_candidate (wre_owner ev) (wre_repo ev) (wre_head_branch ev))
       (pending_workflow_triggers (db w))"

lemma or_null_or_empty:
  "(case or_null s of None \<Rightarrow> [] | Some i \<Rightarrow> i) = (case s of None \<Rightarrow> [] | Some i \<Rightarrow> i)"
  by (cases s) (simp_all add: or_null_def truthy_str_def)

lemma or_null_idem: "or_null (or_null s) = or_null s"
  by (simp add: or_null_def truthy_str_def)

lemma correlate_no_match:
  "getWorkflowRun (wre_id ev) (db w) = None \<Longrightarrow> candidates ev w = []
   \<Longrightarrow> correlate ev w = (Inr None, w)"
  by (simp add: correlate_def bind_def query_def ret_def matchPendingWorkflowTrigger_def
      candidates_def)

lemma handleWorkflowRun_no_match:
  "gw_workflow_run payload = Some ev \<Longrightarrow> getWorkflowRun (wre_id ev) (db w) = None
   \<Longrightarrow> candidates ev w = []
   \<Longrightarrow> handleWorkflowRun X payload w = (Inr (), w)"
  by (simp add: handleWorkflowRun_def bind_def [of "correlate ev"] correlate_no_match ret_def)

lemma correlate_match:
  assumes absent: "getWorkflowRun (wre_id ev) (db w) = None"
    and pick: "latest pt_created_at (candidates ev w) = Some t"
  shows "correlate ev w
     = (Inr (Some (run_of_trigger w ev t)),
        w\<lparr>db := (db w)
             \<lparr>workflow_runs := workflow_runs (db w) @ [run_of_trigger w ev t],
              workflow_runs_seq := workflow_runs_seq (db w) + 1,
              pending_workflow_triggers :=
                map (\<lambda>u. if pt_id u = pt_id t then u\<lparr>pt_matched_at := Some (db_now w)\<rparr> else u)
                  (pending_workflow_triggers (db w))\<rparr>,
          journal := journal w @ [Wrote (InsertWorkflowRun (new_run_of_trigger ev t)),
                                  Wrote (UpdatePendingWorkflowMatched (pt_id t))]\<rparr>)"
proof -
  from pick have m: "matchPendingWorkflowTrigger (wre_owner ev) (wre_repo ev) (wre_head_branch ev) (db w)
      = Some t"
    by (simp add: matchPendingWorkflowTrigger_def candidates_def)
  show ?thesis
    using absent m
    by (simp add: correlate_def bind_def seq_def query_def ret_def exec_def exec_returning_def
        run_createWorkflowRun_def run_markPendingWorkflowMatched_def new_run_of_trigger_def
        createWorkflowRun_def markPendingWorkflowMatched_def run_of_trigger_def db_now_def
        or_null_or_empty or_null_idem Let_def)
qed


subsection \<open>After the correlation\<close>

text \<open>The columns of a run that identify it and tie it to its session and issue.\<close>

definition run_keys :: "database \<Rightarrow> (nat \<times> string \<times> string \<times> string) list" where
  "run_keys d =
     map (\<lambda>r. (wr_github_run_id r, wr_agent_session_id r, wr_linear_issue_id r,
               wr_linear_issue_identifier r)) (workflow_runs d)"

lemma set_clauses_keys:
  "wr_agent_session_id (set_clauses now u r) = wr_agent_session_id r"
  "wr_linear_issue_id (set_clauses now u r) = wr_linear_issue_id r"
  "wr_linear_issue_identifier (set_clauses now u r) = wr_linear_issue_identifier r"
  by (cases "upd_status u"; cases "upd_conclusion u"; cases "upd_prNumber u"; cases "upd_prUrl u";
      simp add: set_clauses_def)+

lemma keys_statements:
  "keeps run_keys (run_updateWorkflowRun i u)"
  "keeps run_keys (run_logEvent e)"
  by (auto simp: keeps_def run_updateWorkflowRun_def run_logEvent_def exec_def exec_checked_def
      ret_def run_keys_def logEvent_def updateWorkflowRun_rows set_clauses_keys
      set_clauses_run_id split: sum.splits if_splits cong: if_cong)

lemma triggers_statements:
  "keeps pending_workflow_triggers (run_updateWorkflowRun i u)"
  "keeps pending_workflow_triggers (run_logEvent e)"
  by (auto simp: keeps_def run_updateWorkflowRun_def run_logEvent_def exec_def exec_checked_def
      ret_def logEvent_def updateWorkflowRun_def split: sum.splits if_splits)

lemma keys_handleWorkflowComplete:
  "keeps run_keys (handleWorkflowComplete X token run n conclusion)"
  unfolding handleWorkflowComplete_def
  by (auto intro!: keeps_intros keeps_linear keeps_findPullRequests keys_statements
      split: list.splits)

lemma triggers_handleWorkflowComplete:
  "keeps pending_workflow_triggers (handleWorkflowComplete X token run n conclusion)"
  unfolding handleWorkflowComplete_def
  by (auto intro!: keeps_intros keeps_linear keeps_findPullRequests triggers_statements
      split: list.splits)

lemma keys_update_status: "keeps run_keys (update_status X payload ev run)"
  unfolding update_status_def
  by (auto intro!: keeps_intros keeps_linear keys_handleWorkflowComplete keys_statements
      keeps_getOAuthToken simp: run_keys_def updateOAuthToken_def split: option.splits)

lemma triggers_update_status: "keeps pending_workflow_triggers (update_status X payload ev run)"
  unfolding update_status_def
  by (auto intro!: keeps_intros keeps_linear triggers_handleWorkflowComplete triggers_statements
      keeps_getOAuthToken simp: updateOAuthToken_def split: option.splits)


text \<open>
  Claim C2. For a \<open>workflow_run\<close> event whose run id has no run record: when no
  trigger has the owner, repository and branch of the event and no \<open>matched_at\<close>, the
  handler ends at once and leaves the state as it was (no run is created, no trigger is
  changed, nothing is sent). Otherwise the correlation takes a trigger \<open>t\<close> of the
  table that has the owner, repository and branch of the event and no \<open>matched_at\<close>,
  and that was created no earlier than any other such trigger; it appends the run
  record made from the event and from the session, issue and workspace of \<open>t\<close>, and
  sets \<open>matched_at\<close> on the rows with the id of \<open>t\<close>. The rest of the handler leaves
  the triggers so, and leaves the run id, session and issue columns of every run.
\<close>

theorem correlation_of_started_run:
  assumes event: "gw_workflow_run payload = Some ev"
    and absent: "getWorkflowRun (wre_id ev) (db w) = None"
  shows
    "(candidates ev w = [] \<longrightarrow>
        correlate ev w = (Inr None, w) \<and> handleWorkflowRun X payload w = (Inr (), w))
     \<and> (candidates ev w \<noteq> [] \<longrightarrow>
          (\<exists>t \<in> set (pending_workflow_triggers (db w)).
              pt_github_owner t = wre_owner ev \<and> pt_github_repo t = wre_repo ev
              \<and> pt_branch_name t = wre_head_branch ev \<and> pt_matched_at t = None
              \<and> (\<forall>u \<in> set (candidates ev w). pt_created_at u \<le> pt_created_at t)
              \<and> fst (correlate ev w) = Inr (Some (run_of_trigger w ev t))
              \<and> workflow_runs (db (snd (correlate ev w)))
                  = workflow_runs (db w) @ [run_of_trigger w ev t]
              \<and> pending_workflow_triggers (db (snd (correlate ev w)))
                  = map (\<lambda>u. if pt_id u = pt_id t then u\<lparr>pt_matched_at := Some (db_now w)\<rparr> else u)
                      (pending_workflow_triggers (db w))
              \<and> sent (snd (correlate ev w)) = sent w
              \<and> pending_workflow_triggers (db (snd (handleWorkflowRun X payload w)))
                  = map (\<lambda>u. if pt_id u = pt_id t then u\<lparr>pt_matched_at := Some (db_now w)\<rparr> else u)
                      (pending_workflow_triggers (db w))
              \<and> run_keys (db (snd (handleWorkflowRun X payload w)))
                  = run_keys (db w)
                    @ [(wre_id ev, pt_agent_session_id t, pt_linear_issue_id t,
                        case pt_linear_issue_identifier t of None \<Rightarrow> [] | Some i \<Rightarrow> i)]))"
proof (intro conjI impI)
  assume "candidates ev w = []"
  then show "correlate ev w = (Inr None, w)" "handleWorkflowRun X payload w = (Inr (), w)"
    using absent event by (simp_all add: correlate_no_match handleWorkflowRun_no_match)
next
  assume "candidates ev w \<noteq> []"
  then obtain t where pick: "latest pt_created_at (candidates ev w) = Some t"
    using latest_nonempty by blast
  from latest_Some [OF pick] have mem: "t \<in> set (candidates ev w)"
    and newest: "\<forall>u \<in> set (candidates ev w). pt_created_at u \<le> pt_created_at t" by simp_all
  from mem have row: "t \<in> set (pending_workflow_triggers (db w))"
    and cand: "trigger_candidate (wre_owner ev) (wre_repo ev) (wre_head_branch ev) t"
    by (simp_all add: candidates_def)
  let ?run = "run_of_trigger w ev t"
  let ?marked = "map (\<lambda>u. if pt_id u = pt_id t then u\<lparr>pt_matched_at := Some (db_now w)\<rparr> else u)
      (pending_workflow_triggers (db w))"
  let ?w1 = "w\<lparr>db := (db w)
             \<lparr>workflow_runs := workflow_runs (db w) @ [?run],
              workflow_runs_seq := workflow_runs_seq (db w) + 1,
              pending_workflow_triggers := ?marked\<rparr>,
          journal := journal w @ [Wrote (InsertWorkflowRun (new_run_of_trigger ev t)),
                                  Wrote (UpdatePendingWorkflowMatched (pt_id t))]\<rparr>"
  have c: "correlate ev w = (Inr (Some ?run), ?w1)"
    by (rule correlate_match [OF absent pick])
  have h: "handleWorkflowRun X payload w = update_status X payload ev ?run ?w1"
    by (simp add: handleWorkflowRun_def event bind_def [of "correlate ev"] c)
  have trig: "pending_workflow_triggers (db (snd (handleWorkflowRun X payload w))) = ?marked"
    unfolding h by (simp add: keeps_snd [OF triggers_update_status])
  have keys: "run_keys (db (snd (handleWorkflowRun X payload w)))
      = run_keys (db w)
        @ [(wre_id ev, pt_agent_session_id t, pt_linear_issue_id t,
            case pt_linear_issue_identifier t of None \<Rightarrow> [] | Some i \<Rightarrow> i)]"
    unfolding h by (simp add: keeps_snd [OF keys_update_status]) (simp add: run_keys_def run_of_trigger_def)
  from cand have fields: "pt_github_owner t = wre_owner ev \<and> pt_github_repo t = wre_repo ev
      \<and> pt_branch_name t = wre_head_branch ev \<and> pt_matched_at t = None"
    by (simp add: trigger_candidate_def)
  show "\<exists>t \<in> set (pending_workflow_triggers (db w)).
              pt_github_owner t = wre_owner ev \<and> pt_github_repo t = wre_repo ev
              \<and> pt_branch_name t = wre_head_branch ev \<and> pt_matched_at t = None
              \<and> (\<forall>u \<in> set (candidates ev w). pt_created_at u \<le> pt_created_at t)
              \<and> fst (correlate ev w) = Inr (Some (run_of_trigger w ev t))
              \<and> workflow_runs (db (snd (correlate ev w)))
                  = workflow_runs (db w) @ [run_of_trigger w ev t]
              \<and> pending_workflow_triggers (db (snd (correlate ev w)))
                  = map (\<lambda>u. if pt_id u = pt_id t then u\<lparr>pt_matched_at := Some (db_now w)\<rparr> else u)
                      (pending_workflow_triggers (db w))
              \<and> sent (snd (correlate ev w)) = sent w
              \<and> pending_workflow_triggers (db (snd (handleWorkflowRun X payload w)))
                  = map (\<lambda>u. if pt_id u = pt_id t then u\<lparr>pt_matched_at := Some (db_now w)\<rparr> else u)
                      (pending_workflow_triggers (db w))
              \<and> run_keys (db (snd (handleWorkflowRun X payload w)))
                  = run_keys (db w)
                    @ [(wre_id ev, pt_agent_session_id t, pt_linear_issue_id t,
                        case pt_linear_issue_identifier t of None \<Rightarrow> [] | Some i \<Rightarrow> i)]"
  proof (rule bexI [OF _ row], intro conjI)
    show "fst (correlate ev w) = Inr (Some ?run)" by (simp add: c)
    show "workflow_runs (db (snd (correlate ev w))) = workflow_runs (db w) @ [?run]"
      by (simp add: c)
    show "pending_workflow_triggers (db (snd (correlate ev w))) = ?marked" by (simp add: c)
    show "sent (snd (correlate ev w)) = sent w" by (simp add: c)
  qed (use fields newest trig keys in simp_all)
qed


text \<open>Example data: four triggers, of which the first is matched already and the last
  is of another repository, and the payload of the queued event of the run 222 on
  \<open>acme/backend\<close>, branch \<open>main\<close>.\<close>

definition trigger_1 :: PendingWorkflowTrigger where
  "trigger_1 =
     \<lparr> pt_id = 1, pt_agent_session_id = ''session-1'', pt_linear_workspace_id = Some ''ws-1'',
       pt_linear_issue_id = ''issue-1'', pt_linear_issue_identifier = Some ''ABC-1'',
       pt_workflow_type = ''implement'', pt_github_owner = ''acme'', pt_github_repo = ''backend'',
       pt_branch_name = ''main'', pt_created_at = 100, pt_matched_at = Some 150 \<rparr>"

definition trigger_2 :: PendingWorkflowTrigger where
  "trigger_2 =
     trigger_1\<lparr>pt_id := 2, pt_agent_session_id := ''session-2'', pt_linear_issue_id := ''issue-2'',
               pt_linear_issue_identifier := Some ''ABC-2'', pt_created_at := 200,
               pt_matched_at := None\<rparr>"

definition trigger_3 :: PendingWorkflowTrigger where
  "trigger_3 =
     trigger_1\<lparr>pt_id := 3, pt_agent_session_id := ''session-3'', pt_linear_issue_id := ''issue-3'',
               pt_linear_issue_identifier := Some ''ABC-3'', pt_created_at := 300,
               pt_matched_at := None\<rparr>"

definition trigger_4 :: PendingWorkflowTrigger where
  "trigger_4 =
     trigger_1\<lparr>pt_id := 4, pt_agent_session_id := ''session-4'', pt_linear_issue_id := ''issue-4'',
               pt_linear_issue_identifier := Some ''ABC-4'', pt_github_repo := ''frontend'',
               pt_created_at := 400, pt_matched_at := None\<rparr>"

definition trigger_world :: world where
  "trigger_world =
     empty_world\<lparr>db := empty_db\<lparr>pending_workflow_triggers :=
                                   [trigger_1, trigger_2, trigger_3, trigger_4],
                                 pending_workflow_triggers_seq := 4\<rparr>\<rparr>"

definition queued_event :: WorkflowRunEvent where
  "queued_event = in_progress_event\<lparr>wre_id := 222, wre_status := ''queued''\<rparr>"

definition queued_payload :: GitHubWebhook where
  "queued_payload =
     in_progress_payload\<lparr>gw_action := Some ''queued'', gw_workflow_run := Some queued_event\<rparr>"

theorem correlation_of_started_run_witness:
  "gw_workflow_run queued_payload = Some queued_event
   \<and> getWorkflowRun (wre_id queued_event) (db trigger_world) = None
   \<and> candidates queued_event trigger_world = [trigger_2, trigger_3]
   \<and> candidates queued_event trigger_world \<noteq> []
   \<and> run_keys (db (snd (handleWorkflowRun example_externals queued_payload trigger_world)))
       = [(222, ''session-3'', ''issue-3'', ''ABC-3'')]
   \<and> map pt_matched_at
         (pending_workflow_triggers
            (db (snd (handleWorkflowRun example_externals queued_payload trigger_world))))
       = [Some 150, None, Some 1700000000, None]
   \<and> getWorkflowRun (wre_id queued_event) (db empty_world) = None
   \<and> candidates queued_event empty_world = []
   \<and> handleWorkflowRun example_externals queued_payload empty_world = (Inr (), empty_world)"
proof -
  have e: "gw_workflow_run queued_payload = Some queued_event"
    by (simp add: queued_payload_def)
  have a: "getWorkflowRun (wre_id queued_event) (db trigger_world) = None"
    by (simp add: getWorkflowRun_def trigger_world_def empty_world_def empty_db_def)
  have c: "candidates queued_event trigger_world = [trigger_2, trigger_3]"
    by (simp add: candidates_def trigger_candidate_def trigger_world_def empty_world_def
        empty_db_def queued_event_def in_progress_event_def trigger_1_def trigger_2_def
        trigger_3_def trigger_4_def)
  have a0: "getWorkflowRun (wre_id queued_event) (db empty_world) = None"
    by (simp add: getWorkflowRun_def empty_world_def empty_db_def)
  have c0: "candidates queued_event empty_world = []"
    by (simp add: candidates_def empty_world_def empty_db_def)
  have rows: "pending_workflow_triggers (db trigger_world)
      = [trigger_1, trigger_2, trigger_3, trigger_4]"
    by (simp add: trigger_world_def empty_world_def empty_db_def)
  have keys0: "run_keys (db trigger_world) = []"
    by (simp add: run_keys_def trigger_world_def empty_world_def empty_db_def)
  have now: "db_now trigger_world = 1700000000"
    by (simp add: db_now_def trigger_world_def empty_world_def)
  have ev: "wre_id queued_event = 222"
    by (simp add: queued_event_def)
  from correlation_of_started_run [OF e a, of example_externals] c
  obtain t where t: "t \<in> set (pending_workflow_triggers (db trigger_world))"
    and newest: "\<forall>u \<in> set [trigger_2, trigger_3]. pt_created_at u \<le> pt_created_at t"
    and unmatched: "pt_matched_at t = None"
    and repo: "pt_github_repo t = wre_repo queued_event"
    and trig: "pending_workflow_triggers
          (db (snd (handleWorkflowRun example_externals queued_payload trigger_world)))
        = map (\<lambda>u. if pt_id u = pt_id t then u\<lparr>pt_matched_at := Some (db_now trigger_world)\<rparr> else u)
            (pending_workflow_triggers (db trigger_world))"
    and keys: "run_keys (db (snd (handleWorkflowRun example_externals queued_payload trigger_world)))
        = run_keys (db trigger_world)
          @ [(wre_id queued_event, pt_agent_session_id t, pt_linear_issue_id t,
              case pt_linear_issue_identifier t of None \<Rightarrow> [] | Some i \<Rightarrow> i)]"
    by auto
  from t newest unmatched repo have "t = trigger_3"
    by (auto simp: rows trigger_1_def trigger_2_def trigger_3_def trigger_4_def queued_event_def
        in_progress_event_def)
  with trig keys have
    "run_keys (db (snd (handleWorkflowRun example_externals queued_payload trigger_world)))
       = [(222, ''session-3'', ''issue-3'', ''ABC-3'')]"
    "map pt_matched_at
         (pending_workflow_triggers
            (db (snd (handleWorkflowRun example_externals queued_payload trigger_world))))
       = [Some 150, None, Some 1700000000, None]"
    by (simp_all add: rows keys0 now ev trigger_1_def trigger_2_def trigger_3_def trigger_4_def)
  moreover have "handleWorkflowRun example_externals queued_payload empty_world = (Inr (), empty_world)"
    using correlation_of_started_run [OF e a0, of example_externals] c0 by simp
  ultimately show ?thesis using e a c a0 c0 by simp
qed

section \<open>Webhook ids of unassignment events\<close>

lemma unassign_id_inj:
  "generateWebhookId t1 (AppUserNotificationUnassigned org issueId issueIdentifier)
     = generateWebhookId t2 (AppUserNotificationUnassigned org issueId issueIdentifier)
   \<Longrightarrow> t1 = t2"
  by (auto simp: generateWebhookId_def dest: string_of_nat_inj)

text \<open>The ledger after one request to the Linear endpoint holds at most one more
  entry, the id of the request under the type \<open>linear\<close>.\<close>

lemma linear_ledger_after:
  assumes "parse_linear X (rq_body req) = Some payload"
  shows "set (processed_webhooks (db (snd (handleLinearWebhook X env req w))))
     \<subseteq> insert (generateWebhookId (clock w) payload, Linear) (set (processed_webhooks (db w)))"
proof (cases "linear_check X env req")
  case (Inl e)
  then show ?thesis by (auto simp: linear_check_throws)
next
  case (Inr b)
  let ?i = "generateWebhookId (clock w) payload"
  show ?thesis
  proof (cases b)
    case False
    with Inr show ?thesis by (auto simp: linear_rejected)
  next
    case True
    with Inr have valid: "linear_valid X env req" by (simp add: linear_valid_def)
    show ?thesis
    proof (cases "isWebhookProcessed ?i Linear (db w)")
      case True
      from linear_duplicate [OF valid assms True] show ?thesis by auto
    next
      case False
      have "processed_webhooks (db (snd (try_route_linear X env payload (marked ?i Linear w))))
          = processed_webhooks (db (marked ?i Linear w))"
        by (rule keeps_snd [OF ledger_try_route_linear])
      then show ?thesis
        by (auto simp: linear_fresh [OF valid assms False] marked_def markWebhookProcessed_def
            split: if_splits)
    qed
  qed
qed

text \<open>A second delivery of a request, at the clock value of the first, finds the id of
  the first in the ledger (unless the id was stored under the type \<open>github\<close> before,
  in which case the first delivery could not mark it).\<close>

lemma linear_redelivery:
  assumes valid: "linear_valid X env req"
    and parsed: "parse_linear X (rq_body req) = Some payload"
    and other: "(generateWebhookId (clock w) payload, GitHub) \<notin> set (processed_webhooks (db w))"
  shows "handleLinearWebhook X env req (snd (handleLinearWebhook X env req w))
     = (Inr already_processed_response, snd (handleLinearWebhook X env req w))"
proof (cases "isWebhookProcessed (generateWebhookId (clock w) payload) Linear (db w)")
  case True
  from linear_duplicate [OF valid parsed True] show ?thesis by simp
next
  case False
  let ?i = "generateWebhookId (clock w) payload"
  let ?w1 = "snd (try_route_linear X env payload (marked ?i Linear w))"
  have first: "handleLinearWebhook X env req w = try_route_linear X env payload (marked ?i Linear w)"
    by (rule linear_fresh [OF valid parsed False])
  have "?i \<notin> fst ` set (processed_webhooks (db w))"
  proof
    assume "?i \<in> fst ` set (processed_webhooks (db w))"
    then obtain t where "(?i, t) \<in> set (processed_webhooks (db w))" by force
    with False other show False by (cases t) (simp_all add: isWebhookProcessed_def)
  qed
  then have "processed_webhooks (db (marked ?i Linear w)) = processed_webhooks (db w) @ [(?i, Linear)]"
    by (simp add: marked_def markWebhookProcessed_def)
  moreover have "processed_webhooks (db ?w1) = processed_webhooks (db (marked ?i Linear w))"
    by (rule keeps_snd [OF ledger_try_route_linear])
  moreover have "clock ?w1 = clock (marked ?i Linear w)"
    by (rule orderly_clock [OF orderly_try_route_linear])
  ultimately have "isWebhookProcessed (generateWebhookId (clock ?w1) payload) Linear (db ?w1)"
    by (simp add: isWebhookProcessed_def marked_def)
  from linear_duplicate [OF valid parsed this] show ?thesis by (simp add: first)
qed

text \<open>
  Claim C10, as stated: two deliveries of one unassignment payload get distinct ids, and
  the ledger never reports the second as already processed. The id ends with the clock
  in milliseconds, so two deliveries within one millisecond share it: the signed
  unassignment request, delivered to the empty world and delivered again at the same
  clock value, is answered \<open>already_processed\<close> the second time.
\<close>

theorem unassign_redelivery_counterexample:
  "\<not> (\<forall>X env req w org issueId issueIdentifier.
        linear_valid X env req
        \<and> parse_linear X (rq_body req)
            = Some (AppUserNotificationUnassigned org issueId issueIdentifier)
        \<and> processed_webhooks (db w) = [] \<longrightarrow>
        fst (handleLinearWebhook X env req (snd (handleLinearWebhook X env req w)))
          \<noteq> Inr already_processed_response)"
proof
  assume a: "\<forall>X env req w org issueId issueIdentifier.
        linear_valid X env req
        \<and> parse_linear X (rq_body req)
            = Some (AppUserNotificationUnassigned org issueId issueIdentifier)
        \<and> processed_webhooks (db w) = [] \<longrightarrow>
        fst (handleLinearWebhook X env req (snd (handleLinearWebhook X env req w)))
          \<noteq> Inr already_processed_response"
  let ?p = "AppUserNotificationUnassigned ''ws-1'' ''issue-1'' ''ABC-123''"
  let ?h = "handleLinearWebhook unassign_externals example_env signed_linear_request"
  have p: "parse_linear unassign_externals (rq_body signed_linear_request) = Some ?p"
    by (simp add: unassign_externals_def example_externals_def)
  have e: "processed_webhooks (db empty_world) = []"
    by (simp add: empty_world_def empty_db_def)
  from a unassign_valid p e
  have "fst (?h (snd (?h empty_world))) \<noteq> Inr already_processed_response"
    by blast
  moreover from e have "(generateWebhookId (clock empty_world) ?p, GitHub)
      \<notin> set (processed_webhooks (db empty_world))"
    by simp
  from linear_redelivery [OF unassign_valid p this]
  have "fst (?h (snd (?h empty_world))) = Inr already_processed_response"
    by simp
  ultimately show False by simp
qed

text \<open>
  Claim C10, amended. The id of an unassignment payload is \<open>linear-unassign-\<close>, the issue
  id, a hyphen and the clock in milliseconds of the moment it is computed. So the ids
  of one payload at two clock values are equal exactly when the clock values are, and
  marking the one id does not make another processed. After the endpoint has handled
  the payload once, a delivery of the same payload at another clock value, whose id
  was not in the ledger before, is not in the ledger: the endpoint does not answer
  \<open>already_processed\<close>. A second delivery at the same clock value has the same id
  and is answered \<open>already_processed\<close>, with the state untouched. The id of a
  session event, and the id of a CI event that carries a delivery id, do not depend on
  the clock.
\<close>

theorem unassign_id_amended:
  "generateWebhookId t (AppUserNotificationUnassigned org issueId issueIdentifier)
     = ''linear-unassign-'' @ issueId @ ''-'' @ string_of_nat t
   \<and> (generateWebhookId t1 (AppUserNotificationUnassigned org issueId issueIdentifier)
        = generateWebhookId t2 (AppUserNotificationUnassigned org issueId issueIdentifier))
     = (t1 = t2)
   \<and> (t1 \<noteq> t2 \<longrightarrow>
        generateWebhookId t1 (AppUserNotificationUnassigned org issueId issueIdentifier)
          \<noteq> generateWebhookId t2 (AppUserNotificationUnassigned org issueId issueIdentifier))
   \<and> (t1 \<noteq> t2
        \<and> \<not> isWebhookProcessed
              (generateWebhookId t2 (AppUserNotificationUnassigned org issueId issueIdentifier))
              Linear d
      \<longrightarrow> \<not> isWebhookProcessed
              (generateWebhookId t2 (AppUserNotificationUnassigned org issueId issueIdentifier))
              Linear
              (markWebhookProcessed
                 (generateWebhookId t1 (AppUserNotificationUnassigned org issueId issueIdentifier))
                 Linear d))
   \<and> (parse_linear X (rq_body req) = Some (AppUserNotificationUnassigned org issueId issueIdentifier)
        \<and> t2 \<noteq> clock w
        \<and> \<not> isWebhookProcessed
              (generateWebhookId t2 (AppUserNotificationUnassigned org issueId issueIdentifier))
              Linear (db w)
      \<longrightarrow> \<not> isWebhookProcessed
              (generateWebhookId t2 (AppUserNotificationUnassigned org issueId issueIdentifier))
              Linear (db (snd (handleLinearWebhook X env req w))))
   \<and> (linear_valid X env req
        \<and> parse_linear X (rq_body req)
            = Some (AppUserNotificationUnassigned org issueId issueIdentifier)
        \<and> (generateWebhookId (clock w) (AppUserNotificationUnassigned org issueId issueIdentifier),
             GitHub) \<notin> set (processed_webhooks (db w))
      \<longrightarrow> handleLinearWebhook X env req (snd (handleLinearWebhook X env req w))
            = (Inr already_processed_response, snd (handleLinearWebhook X env req w)))
   \<and> generateWebhookId t1 (AgentSessionEvent action org sessionId issue activity)
       = generateWebhookId t2 (AgentSessionEvent action org sessionId issue activity)
   \<and> (truthy_str (rq_github_delivery req) \<longrightarrow>
        github_webhook_id req t1 = github_webhook_id req t2)"
proof (intro conjI impI)
  let ?p = "AppUserNotificationUnassigned org issueId issueIdentifier"
  show "generateWebhookId t ?p = ''linear-unassign-'' @ issueId @ ''-'' @ string_of_nat t"
    by (simp add: generateWebhookId_def)
  show "(generateWebhookId t1 ?p = generateWebhookId t2 ?p) = (t1 = t2)"
    using unassign_id_inj by blast
  show "generateWebhookId t1 ?p \<noteq> generateWebhookId t2 ?p" if "t1 \<noteq> t2"
    using that unassign_id_inj by blast
  show "\<not> isWebhookProcessed (generateWebhookId t2 ?p) Linear
          (markWebhookProcessed (generateWebhookId t1 ?p) Linear d)"
    if "t1 \<noteq> t2 \<and> \<not> isWebhookProcessed (generateWebhookId t2 ?p) Linear d"
    using that unassign_id_inj [of t1 org issueId issueIdentifier t2]
    by (auto simp: isWebhookProcessed_def markWebhookProcessed_def)
  show "\<not> isWebhookProcessed (generateWebhookId t2 ?p) Linear
          (db (snd (handleLinearWebhook X env req w)))"
    if h: "parse_linear X (rq_body req) = Some ?p \<and> t2 \<noteq> clock w
           \<and> \<not> isWebhookProcessed (generateWebhookId t2 ?p) Linear (db w)"
  proof -
    from h have p: "parse_linear X (rq_body req) = Some ?p" by simp
    from h have "generateWebhookId t2 ?p \<noteq> generateWebhookId (clock w) ?p"
      using unassign_id_inj [of t2 org issueId issueIdentifier "clock w"] by blast
    with h linear_ledger_after [OF p, of env w] show ?thesis
      by (auto simp: isWebhookProcessed_def)
  qed
  show "handleLinearWebhook X env req (snd (handleLinearWebhook X env req w))
            = (Inr already_processed_response, snd (handleLinearWebhook X env req w))"
    if "linear_valid X env req \<and> parse_linear X (rq_body req) = Some ?p
        \<and> (generateWebhookId (clock w) ?p, GitHub) \<notin> set (processed_webhooks (db w))"
    using that by (simp add: linear_redelivery)
  show "generateWebhookId t1 (AgentSessionEvent action org sessionId issue activity)
       = generateWebhookId t2 (AgentSessionEvent action org sessionId issue activity)"
    by (simp add: generateWebhookId_def)
  show "github_webhook_id req t1 = github_webhook_id req t2" if "truthy_str (rq_github_delivery req)"
    using that by (cases "rq_github_delivery req") (simp_all add: github_webhook_id_def or_null_def truthy_str_def)
qed


text \<open>Example: the signed unassignment request is delivered at the clock of the empty
  world, again at the same clock value, and again five seconds later. The second
  delivery is answered \<open>already_processed\<close>; the third is handled: its answer is
  \<open>ok\<close>, and the run log holds the entry of the event twice.\<close>

definition five_seconds_later :: "world \<Rightarrow> world" where
  "five_seconds_later w = w\<lparr>clock := clock w + 5000\<rparr>"

theorem unassign_id_amended_witness:
  "(1700000000000::nat) \<noteq> 1700000005000
   \<and> linear_valid unassign_externals example_env signed_linear_request
   \<and> parse_linear unassign_externals (rq_body signed_linear_request)
       = Some (AppUserNotificationUnassigned ''ws-1'' ''issue-1'' ''ABC-123'')
   \<and> (generateWebhookId (clock empty_world)
         (AppUserNotificationUnassigned ''ws-1'' ''issue-1'' ''ABC-123''), GitHub)
       \<notin> set (processed_webhooks (db empty_world))
   \<and> clock (five_seconds_later empty_world) \<noteq> clock empty_world
   \<and> \<not> isWebhookProcessed
         (generateWebhookId (clock (five_seconds_later empty_world))
            (AppUserNotificationUnassigned ''ws-1'' ''issue-1'' ''ABC-123''))
         Linear (db empty_world)
   \<and> truthy_str (rq_github_delivery signed_github_request)
   \<and> github_webhook_id signed_github_request 1700000000000
       = github_webhook_id signed_github_request 1700000005000
   \<and> generateWebhookId 1700000000000 (AppUserNotificationUnassigned ''ws-1'' ''issue-1'' ''ABC-123'')
       \<noteq> generateWebhookId 1700000005000
           (AppUserNotificationUnassigned ''ws-1'' ''issue-1'' ''ABC-123'')
   \<and> fst (handleLinearWebhook unassign_externals example_env signed_linear_request empty_world)
       = Inr ok_response
   \<and> fst (handleLinearWebhook unassign_externals example_env signed_linear_request
           (snd (handleLinearWebhook unassign_externals example_env signed_linear_request
                   empty_world)))
       = Inr already_processed_response
   \<and> fst (handleLinearWebhook unassign_externals example_env signed_linear_request
           (five_seconds_later
              (snd (handleLinearWebhook unassign_externals example_env signed_linear_request
                      empty_world))))
       = Inr ok_response
   \<and> map rl_event_type
         (run_log (db (snd (handleLinearWebhook unassign_externals example_env
                              signed_linear_request
                              (five_seconds_later
                                 (snd (handleLinearWebhook unassign_externals example_env
                                         signed_linear_request empty_world)))))))
       = [''agent_unassigned'', ''agent_unassigned'']"
proof -
  let ?p = "AppUserNotificationUnassigned ''ws-1'' ''issue-1'' ''ABC-123''"
  let ?h = "handleLinearWebhook unassign_externals example_env signed_linear_request"
  have ne: "(1700000000000::nat) \<noteq> 1700000005000" by simp
  have p: "parse_linear unassign_externals (rq_body signed_linear_request) = Some ?p"
    by (simp add: unassign_externals_def example_externals_def)
  have c: "clock (five_seconds_later empty_world) \<noteq> clock empty_world"
    by (simp add: five_seconds_later_def)
  have f0: "\<not> isWebhookProcessed (generateWebhookId t ?p) Linear (db empty_world)" for t
    by (simp add: isWebhookProcessed_def empty_world_def empty_db_def)
  have o: "(generateWebhookId (clock empty_world) ?p, GitHub)
      \<notin> set (processed_webhooks (db empty_world))"
    by (simp add: empty_world_def empty_db_def)
  have d: "truthy_str (rq_github_delivery signed_github_request)"
    by (simp add: signed_github_request_def truthy_str_def)
  have r0: "workflow_runs (db empty_world) = []"
    by (simp add: empty_world_def empty_db_def)
  note first = unassign_delivery [OF r0 f0]
  let ?w2 = "five_seconds_later (snd (?h empty_world))"
  have c0: "1700000005000 \<noteq> clock empty_world"
    by (simp add: empty_world_def)
  note claim = unassign_id_amended
    [where t = 0 and org = "''ws-1''" and issueId = "''issue-1''" and issueIdentifier = "''ABC-123''"
       and ?t1.0 = 1700000000000 and ?t2.0 = 1700000005000 and d = empty_db
       and X = unassign_externals and req = signed_linear_request and w = empty_world
       and env = example_env and action = "[]" and sessionId = "[]"
       and issue = "\<lparr> lis_id = [], lis_identifier = [], lis_title = [], lis_team_id = [] \<rparr>"
       and activity = None]
  from claim ne have ids: "generateWebhookId 1700000000000 ?p \<noteq> generateWebhookId 1700000005000 ?p"
    by blast
  from claim p c0 f0 [of 1700000005000]
  have later: "\<not> isWebhookProcessed (generateWebhookId 1700000005000 ?p) Linear
      (db (snd (?h empty_world)))"
    by blast
  from claim unassign_valid p o
  have again: "?h (snd (?h empty_world)) = (Inr already_processed_response, snd (?h empty_world))"
    by blast
  have gh: "github_webhook_id signed_github_request 1700000000000
      = github_webhook_id signed_github_request 1700000005000"
    using d unassign_id_amended
      [where req = signed_github_request and ?t1.0 = 1700000000000 and ?t2.0 = 1700000005000
         and t = 0 and org = "[]" and issueId = "[]" and issueIdentifier = "[]" and d = empty_db
         and X = example_externals and w = empty_world and env = example_env and action = "[]"
         and sessionId = "[]"
         and issue = "\<lparr> lis_id = [], lis_identifier = [], lis_title = [], lis_team_id = [] \<rparr>"
         and activity = None]
    by blast
  have ck2: "clock ?w2 = 1700000005000"
    by (simp add: five_seconds_later_def first) (simp add: empty_world_def)
  have f2: "\<not> isWebhookProcessed (generateWebhookId (clock ?w2) ?p) Linear (db ?w2)"
    using later by (simp add: ck2) (simp add: five_seconds_later_def)
  have r2: "workflow_runs (db ?w2) = []"
    by (simp add: five_seconds_later_def first r0 markWebhookProcessed_def)
  note second = unassign_delivery [OF r2 f2]
  have l1: "run_log (db (snd (?h empty_world))) = [unassigned_entry ''issue-1'' ''ABC-123'']"
    by (simp add: first) (simp add: empty_world_def empty_db_def)
  have l2: "run_log (db ?w2) = run_log (db (snd (?h empty_world)))"
    by (simp add: five_seconds_later_def)
  have log: "map rl_event_type (run_log (db (snd (?h ?w2))))
      = [''agent_unassigned'', ''agent_unassigned'']"
    by (simp add: second l2 l1 unassigned_entry_def)
  have a1: "fst (?h empty_world) = Inr ok_response" by (simp add: first)
  have a2: "fst (?h (snd (?h empty_world))) = Inr already_processed_response"
    by (simp add: again)
  have a3: "fst (?h ?w2) = Inr ok_response" by (simp add: second)
  from ne unassign_valid p o c f0 [of "clock (five_seconds_later empty_world)"] d gh ids a1 a2 a3 log
  show ?thesis by blast
qed

section \<open>Completion of a run\<close>

text \<open>The remote systems as the completion handler meets them: the answers to its
  requests, whatever was sent before. \<open>github_answers\<close> speaks of the one branch the
  handler asks about, the column \<open>branch_name\<close> of the run; what GitHub would answer
  for another branch is left open.\<close>

definition github_answers ::
  "externals \<Rightarrow> WorkflowRun \<Rightarrow> nat \<Rightarrow> string \<Rightarrow> PullRequest list \<Rightarrow> TitledPullRequest list \<Rightarrow> bool" where
  "github_answers X run installationId ghToken byBranch openPulls =
     ((\<forall>h. github_access_token X h installationId = Inr ghToken)
      \<and> (\<forall>h. github_pulls_for_branch X h ghToken (wr_github_owner run) (wr_github_repo run)
                (wr_branch_name run) = Inr byBranch)
      \<and> (\<forall>h. github_open_pulls X h ghToken (wr_github_owner run) (wr_github_repo run)
                = Inr openPulls))"

definition linear_accepts :: "externals \<Rightarrow> bool" where
  "linear_accepts X = (\<forall>h r. linear_mutation X h r = None)"

text \<open>The open pull requests whose title contains the ticket identifier, whatever the
  case of the letters.\<close>

definition titled :: "string \<Rightarrow> TitledPullRequest list \<Rightarrow> PullRequest list" where
  "titled identifier openPulls =
     map (\<lambda>pr. \<lparr> pr_number = tpr_number pr, pr_html_url = tpr_html_url pr \<rparr>)
       (filter (\<lambda>pr. str_includes (toLowerCase (tpr_title pr)) (toLowerCase identifier)) openPulls)"

text \<open>The requests of the two searches.\<close>

definition branch_search :: "WorkflowRun \<Rightarrow> nat \<Rightarrow> string \<Rightarrow> request list" where
  "branch_search run installationId ghToken =
     [GitHubAccessToken installationId,
      GitHubPullsForBranch ghToken (wr_github_owner run) (wr_github_repo run) (wr_branch_name run)]"

definition title_search :: "WorkflowRun \<Rightarrow> nat \<Rightarrow> string \<Rightarrow> request list" where
  "title_search run installationId ghToken =
     [GitHubAccessToken installationId,
      GitHubOpenPulls ghToken (wr_github_owner run) (wr_github_repo run)]"

lemma listPullRequestsForBranch_ok:
  "github_answers X run n ghToken byBranch openPulls
   \<Longrightarrow> listPullRequestsForBranch X n (wr_github_owner run) (wr_github_repo run) (wr_branch_name run) w
       = (Inr byBranch, w\<lparr>sent := sent w @ branch_search run n ghToken,
                          journal := journal w @ map Sent (branch_search run n ghToken)\<rparr>)"
  by (simp add: github_answers_def listPullRequestsForBranch_def getInstallationToken_def
      bind_def seq_def history_def send_def of_answer_def ret_def branch_search_def)

lemma searchPullRequestsByTitle_ok:
  "github_answers X run n ghToken byBranch openPulls
   \<Longrightarrow> searchPullRequestsByTitle X n (wr_github_owner run) (wr_github_repo run) identifier w
       = (Inr (filter (\<lambda>pr. str_includes (toLowerCase (tpr_title pr)) (toLowerCase identifier))
                 openPulls),
          w\<lparr>sent := sent w @ title_search run n ghToken,
            journal := journal w @ map Sent (title_search run n ghToken)\<rparr>)"
  by (simp add: github_answers_def searchPullRequestsByTitle_def getInstallationToken_def
      bind_def seq_def history_def send_def of_answer_def ret_def title_search_def)

lemma findPullRequests_by_title:
  assumes "github_answers X run n ghToken [] openPulls"
    and "wr_linear_issue_identifier run \<noteq> []"
  shows "findPullRequests X run n w
     = (Inr (titled (wr_linear_issue_identifier run) openPulls),
        w\<lparr>sent := sent w @ branch_search run n ghToken @ title_search run n ghToken,
          journal := journal w @ map Sent (branch_search run n ghToken)
                     @ map Sent (title_search run n ghToken)\<rparr>)"
  using assms(2)
  by (simp add: findPullRequests_def bind_def ret_def titled_def
      listPullRequestsForBranch_ok [OF assms(1)] searchPullRequestsByTitle_ok [OF assms(1)])

lemma createAgentActivity_ok:
  "linear_accepts X
   \<Longrightarrow> createAgentActivity X token s c w
       = (Inr (), w\<lparr>sent := sent w @ [LinearActivityCreate token s c],
                    journal := journal w @ [Sent (LinearActivityCreate token s c)]\<rparr>)"
  by (simp add: linear_accepts_def createAgentActivity_def bind_def seq_def history_def send_def
      of_failure_def ret_def)

text \<open>What the handler stores and sends when it finds no pull request.\<close>

definition completion_entry :: "WorkflowRun \<Rightarrow> string \<Rightarrow> RunLog" where
  "completion_entry run conclusion =
     \<lparr> rl_workflow_run_id = num_or_null (Some (wr_id run)),
       rl_agent_session_id = or_null (Some (wr_agent_session_id run)),
       rl_event_type = ''workflow_completed'',
       rl_message = Some (''Workflow completed with conclusion: '' @ conclusion),
       rl_metadata = Some [(''conclusion'', conclusion)] \<rparr>"

definition completed_without_pr :: "WorkflowRun \<Rightarrow> string \<Rightarrow> world \<Rightarrow> database" where
  "completed_without_pr run conclusion w =
     (db w)\<lparr>workflow_runs :=
               map (\<lambda>r. if wr_github_run_id r = wr_github_run_id run
                         then r\<lparr>wr_status := Completed, wr_conclusion := Some conclusion,
                                wr_updated_at := db_now w\<rparr>
                         else r)
                 (workflow_runs (db w)),
             run_log := run_log (db w) @ [completion_entry run conclusion]\<rparr>"

definition no_changes_response :: "string \<Rightarrow> WorkflowRun \<Rightarrow> request" where
  "no_changes_response token run =
     LinearActivityCreate token (wr_agent_session_id run)
       (Response (check_mark @ '' Analysis complete! No code changes were necessary.''))"

lemma stored_after_update:
  "wr_id ` set (workflow_runs (updateWorkflowRun now i u d)) = wr_id ` set (workflow_runs d)"
proof -
  have "wr_id (set_clauses now u r) = wr_id r" for r
    by (cases "upd_status u"; cases "upd_conclusion u"; cases "upd_prNumber u"; cases "upd_prUrl u")
      (simp_all add: set_clauses_def)
  then have "map wr_id (workflow_runs (updateWorkflowRun now i u d)) = map wr_id (workflow_runs d)"
    unfolding updateWorkflowRun_rows by (simp cong: if_cong)
  then have "set (map wr_id (workflow_runs (updateWorkflowRun now i u d)))
      = set (map wr_id (workflow_runs d))"
    by (simp only:)
  then show ?thesis by (simp only: set_map)
qed

lemma complete_without_pr:
  assumes gh: "github_answers X run n ghToken [] openPulls"
    and lin: "linear_accepts X"
    and ident: "wr_linear_issue_identifier run \<noteq> []"
    and none: "titled (wr_linear_issue_identifier run) openPulls = []"
    and stored: "wr_id run \<in> wr_id ` set (workflow_runs (db w))"
  shows "fst (handleWorkflowComplete X token run n ''success'' w) = Inr ()"
    and "db (snd (handleWorkflowComplete X token run n ''success'' w))
           = completed_without_pr run ''success'' w"
    and "sent (snd (handleWorkflowComplete X token run n ''success'' w))
           = sent w @ branch_search run n ghToken @ title_search run n ghToken
             @ [no_changes_response token run]"
proof -
  let ?u = "no_updates\<lparr>upd_status := Some Completed, upd_conclusion := Some (Some ''success'')\<rparr>"
  let ?e = "\<lparr> ev_workflowRunId = Some (wr_id run),
              ev_agentSessionId = Some (wr_agent_session_id run),
              ev_eventType = ''workflow_completed'',
              ev_message = Some (''Workflow completed with conclusion: '' @ ''success''),
              ev_metadata = Some [(''conclusion'', ''success'')] \<rparr>"
  let ?d1 = "updateWorkflowRun (db_now w) (wr_github_run_id run) ?u (db w)"
  from stored have "wr_id run \<in> wr_id ` set (workflow_runs ?d1)"
    by (simp only: stored_after_update)
  then have l: "logEvent ?e ?d1 = Inr (?d1\<lparr>run_log := run_log ?d1 @ [completion_entry run ''success'']\<rparr>)"
    by (cases "wr_id run = 0")
      (simp_all add: logEvent_def completion_entry_def num_or_null_def truthy_num_def or_null_def
        truthy_str_def)
  have h: "handleWorkflowComplete X token run n ''success'' w
      = (Inr (),
         w\<lparr>db := completed_without_pr run ''success'' w,
           sent := sent w @ branch_search run n ghToken @ title_search run n ghToken
                   @ [no_changes_response token run],
           journal := journal w @ map Sent (branch_search run n ghToken)
                      @ map Sent (title_search run n ghToken)
                      @ [Wrote (UpdateWorkflowRun (wr_github_run_id run) ?u),
                         Sent (no_changes_response token run),
                         Wrote (InsertRunLog ?e)]\<rparr>)"
    using none l
    by (simp add: handleWorkflowComplete_def bind_def seq_def run_updateWorkflowRun_def exec_def
        run_logEvent_def exec_checked_def no_updates_def
        findPullRequests_by_title [OF gh ident] sendResponse_def
        createAgentActivity_ok [OF lin] no_changes_response_def db_now_def)
      (simp add: completed_without_pr_def updateWorkflowRun_def set_clauses_def db_now_def)
  show "fst (handleWorkflowComplete X token run n ''success'' w) = Inr ()"
    and "db (snd (handleWorkflowComplete X token run n ''success'' w))
           = completed_without_pr run ''success'' w"
    and "sent (snd (handleWorkflowComplete X token run n ''success'' w))
           = sent w @ branch_search run n ghToken @ title_search run n ghToken
             @ [no_changes_response token run]"
    by (simp_all add: h)
qed

text \<open>The remote systems as \<open>triggerImplementation\<close> meets them, the inputs of its
  dispatch, and the pending trigger it stores.\<close>

definition dispatch_answers ::
  "externals \<Rightarrow> string \<Rightarrow> nat \<Rightarrow> string \<Rightarrow> string \<Rightarrow> string \<Rightarrow> IssueContext \<Rightarrow> string list \<Rightarrow> bool" where
  "dispatch_answers X issueId installationId owner repo ghToken context existingBranches =
     ((\<forall>h. linear_issue X h issueId = Inr context)
      \<and> (\<forall>h. github_access_token X h installationId = Inr ghToken)
      \<and> (\<forall>h. github_branches X h ghToken owner repo = Inr existingBranches)
      \<and> (\<forall>h r. github_dispatch X h r = None))"

definition dispatch_inputs :: "string \<Rightarrow> string \<Rightarrow> IssueContext \<Rightarrow> string \<Rightarrow> DispatchInputs" where
  "dispatch_inputs agentSessionId issueIdentifier context branchName =
     \<lparr> in_agent_session_id = agentSessionId,
       in_ticket_id = issueIdentifier,
       in_ticket_title = ic_title context,
       in_ticket_description = (case or_null (ic_description context) of None \<Rightarrow> [] | Some t \<Rightarrow> t),
       in_ticket_context = formatIssueContext context,
       in_branch_name = branchName \<rparr>"

definition pending_trigger_of ::
  "world \<Rightarrow> string \<Rightarrow> string \<Rightarrow> string \<Rightarrow> TeamConfig \<Rightarrow> string \<Rightarrow> string \<Rightarrow> PendingWorkflowTrigger" where
  "pending_trigger_of w agentSessionId issueId issueIdentifier config owner repo =
     \<lparr> pt_id = pending_workflow_triggers_seq (db w) + 1,
       pt_agent_session_id = agentSessionId,
       pt_linear_workspace_id = or_null (Some (tc_linear_workspace_id config)),
       pt_linear_issue_id = issueId,
       pt_linear_issue_identifier = or_null (Some issueIdentifier),
       pt_workflow_type = ''implement'',
       pt_github_owner = owner,
       pt_github_repo = repo,
       pt_branch_name = tc_github_branch config,
       pt_created_at = db_now w,
       pt_matched_at = None \<rparr>"

lemma triggerImplementation_dispatches:
  assumes target: "github_target config = Some (n, owner, repo)"
    and ans: "dispatch_answers X issueId n owner repo ghToken context existing"
    and lin: "linear_accepts X"
  shows "fst (triggerImplementation X token agentSessionId issueId issueIdentifier config w) = Inr ()"
    and "pending_workflow_triggers
           (db (snd (triggerImplementation X token agentSessionId issueId issueIdentifier config w)))
         = filter (\<lambda>t. \<not> (pt_agent_session_id t = agentSessionId
                           \<and> pt_workflow_type t = ''implement''))
             (pending_workflow_triggers (db w))
           @ [pending_trigger_of w agentSessionId issueId issueIdentifier config owner repo]"
    and "sent (snd (triggerImplementation X token agentSessionId issueId issueIdentifier config w))
         = sent w
           @ [LinearIssueQuery token issueId,
              GitHubAccessToken n,
              GitHubBranches ghToken owner repo,
              LinearActivityCreate token agentSessionId
                (Action ''Starting'' ''Implementation workflow'' None),
              GitHubAccessToken n,
              GitHubDispatch ghToken owner repo ''linear-agent.yml'' (tc_github_branch config)
                (dispatch_inputs agentSessionId issueIdentifier context
                   (findAvailableBranchName issueIdentifier existing))]"
  using ans
  by (simp_all add: triggerImplementation_def target Let_def getIssueContext_def listBranches_def
      getInstallationToken_def sendAction_def createAgentActivity_ok [OF lin] triggerWorkflow_def
      run_logEvent_def run_createPendingWorkflowTrigger_def exec_checked_def logEvent_def
      createPendingWorkflowTrigger_def bind_def seq_def history_def send_def of_answer_def
      of_failure_def ret_def dispatch_answers_def dispatch_inputs_def pending_trigger_of_def
      num_or_null_def truthy_num_def db_now_def)

text \<open>Example data: the team of \<open>acme/backend\<close> with the base branch \<open>main\<close>; the
  issue ABC-123; a GitHub on which the pull request 7 is on the branch
  \<open>agent/abc-123\<close> and has a title without the identifier; the payloads of the
  started and of the completed run 555, which ran on \<open>main\<close>.\<close>

definition acme_config :: TeamConfig where
  "acme_config =
     \<lparr> tc_linear_workspace_id = ''ws-1'', tc_linear_team_id = ''team-1'',
       tc_linear_team_name = None, tc_github_installation_id = Some 42,
       tc_github_owner = Some ''acme'', tc_github_repo = Some ''backend'',
       tc_github_branch = ''main'' \<rparr>"

definition issue_context :: IssueContext where
  "issue_context =
     \<lparr> ic_identifier = ''ABC-123'', ic_title = ''Login fails'', ic_description = None,
       ic_comments = [], ic_linkedIssues = [], ic_parentIssue = None, ic_attachments = [] \<rparr>"

definition pull_7 :: PullRequest where
  "pull_7 = \<lparr> pr_number = 7, pr_html_url = ''https://github.com/acme/backend/pull/7'' \<rparr>"

definition open_pulls :: "TitledPullRequest list" where
  "open_pulls =
     [\<lparr> tpr_number = 7, tpr_html_url = ''https://github.com/acme/backend/pull/7'',
        tpr_title = ''Fix the login form'' \<rparr>]"

definition scenario_externals :: externals where
  "scenario_externals =
     example_externals
       \<lparr>linear_issue := (\<lambda>h i. Inr issue_context),
        github_pulls_for_branch :=
          (\<lambda>h token owner repo branch. if branch = ''agent/abc-123'' then Inr [pull_7] else Inr []),
        github_open_pulls := (\<lambda>h token owner repo. Inr open_pulls)\<rparr>"

definition token_world :: world where
  "token_world = empty_world\<lparr>db := empty_db\<lparr>oauth_tokens := [lin_token]\<rparr>\<rparr>"

definition started_payload :: GitHubWebhook where
  "started_payload =
     in_progress_payload\<lparr>gw_workflow_run := Some (in_progress_event\<lparr>wre_id := 555\<rparr>)\<rparr>"

definition completed_payload :: GitHubWebhook where
  "completed_payload =
     \<lparr> gw_action = Some ''completed'',
       gw_workflow_run = Some (in_progress_event\<lparr>wre_id := 555, wre_status := ''completed'',
                                                 wre_conclusion := Some ''success''\<rparr>),
       gw_installation = Some \<lparr> ins_id = 42, ins_account = None \<rparr>,
       gw_pull_request = None, gw_repository = None \<rparr>"

definition after_dispatch :: world where
  "after_dispatch =
     snd (triggerImplementation scenario_externals ''lin_token'' ''session-1'' ''issue-1''
            ''ABC-123'' acme_config token_world)"

definition after_start :: world where
  "after_start = snd (handleWorkflowRun scenario_externals started_payload after_dispatch)"

definition after_completion :: world where
  "after_completion = snd (handleWorkflowRun scenario_externals completed_payload after_start)"


lemma branch_for_ticket: "findAvailableBranchName ''ABC-123'' [''main''] = ''agent/abc-123''"
  by code_simp

text \<open>The store after the dispatch, and the run as the correlation creates it and as
  the start of the run leaves it.\<close>

definition base_trigger :: PendingWorkflowTrigger where
  "base_trigger =
     \<lparr> pt_id = 1, pt_agent_session_id = ''session-1'', pt_linear_workspace_id = Some ''ws-1'',
       pt_linear_issue_id = ''issue-1'', pt_linear_issue_identifier = Some ''ABC-123'',
       pt_workflow_type = ''implement'', pt_github_owner = ''acme'', pt_github_repo = ''backend'',
       pt_branch_name = ''main'', pt_created_at = 1700000000, pt_matched_at = None \<rparr>"

definition dispatched_db :: database where
  "dispatched_db =
     empty_db
       \<lparr>run_log :=
          [\<lparr> rl_workflow_run_id = None, rl_agent_session_id = Some ''session-1'',
             rl_event_type = ''workflow_trigger'',
             rl_message = Some ''Triggering implementation workflow for ABC-123'',
             rl_metadata = Some [(''branchName'', ''agent/abc-123''), (''owner'', ''acme''),
                                 (''repo'', ''backend'')] \<rparr>],
        pending_workflow_triggers := [base_trigger],
        pending_workflow_triggers_seq := 1,
        oauth_tokens := [lin_token]\<rparr>"

definition stored_run :: WorkflowRun where
  "stored_run =
     \<lparr> wr_id = 1, wr_github_run_id = 555, wr_github_owner = ''acme'', wr_github_repo = ''backend'',
       wr_agent_session_id = ''session-1'', wr_linear_issue_id = ''issue-1'',
       wr_linear_issue_identifier = ''ABC-123'', wr_linear_workspace_id = Some ''ws-1'',
       wr_workflow_type = ''implement'', wr_branch_name = ''main'', wr_status = Queued,
       wr_conclusion = None, wr_pr_number = None, wr_pr_url = None,
       wr_created_at = 1700000000, wr_updated_at = 1700000000 \<rparr>"

definition started_run :: WorkflowRun where
  "started_run = stored_run\<lparr>wr_status := InProgress\<rparr>"

definition started_db :: database where
  "started_db =
     dispatched_db
       \<lparr>workflow_runs := [started_run], workflow_runs_seq := 1,
        pending_workflow_triggers := [base_trigger\<lparr>pt_matched_at := Some 1700000000\<rparr>]\<rparr>"

lemmas scenario_defs =
  scenario_externals_def example_externals_def acme_config_def issue_context_def pull_7_def
  open_pulls_def token_world_def empty_world_def empty_db_def lin_token_def started_payload_def
  completed_payload_def in_progress_payload_def in_progress_event_def base_trigger_def
  dispatched_db_def stored_run_def started_run_def started_db_def

lemmas io_defs =
  bind_def seq_def ret_def raise_def throw_def query_def exec_def exec_checked_def
  exec_returning_def send_def history_def of_answer_def of_failure_def Date_now_def db_now_def
  try_catch_def

lemma after_dispatch_state:
  "db after_dispatch = dispatched_db"
  "clock after_dispatch = 1700000000000"
  unfolding after_dispatch_def
  by (simp_all add: triggerImplementation_def github_target_def Let_def getIssueContext_def
      listBranches_def getInstallationToken_def sendAction_def createAgentActivity_def
      triggerWorkflow_def run_logEvent_def run_createPendingWorkflowTrigger_def logEvent_def
      createPendingWorkflowTrigger_def num_or_null_def truthy_num_def or_null_def truthy_str_def
      formatIssueContext_def branch_for_ticket io_defs scenario_defs)

lemma started_correlation:
  "fst (correlate (in_progress_event\<lparr>wre_id := 555\<rparr>) after_dispatch) = Inr (Some stored_run)"
  by (simp add: correlate_def getWorkflowRun_def matchPendingWorkflowTrigger_def
      trigger_candidate_def run_createWorkflowRun_def createWorkflowRun_def
      run_markPendingWorkflowMatched_def markPendingWorkflowMatched_def Let_def or_null_def
      truthy_str_def after_dispatch_state io_defs scenario_defs)

lemma after_start_state:
  "db after_start = started_db"
  "clock after_start = 1700000000000"
  unfolding after_start_def
  by (simp_all add: handleWorkflowRun_def correlate_def update_status_def getOAuthToken_def
      selectOAuthToken_def getWorkflowRun_def matchPendingWorkflowTrigger_def trigger_candidate_def
      run_createWorkflowRun_def createWorkflowRun_def run_markPendingWorkflowMatched_def
      markPendingWorkflowMatched_def run_updateWorkflowRun_def updateWorkflowRun_def
      set_clauses_def no_updates_def sendAction_def createAgentActivity_def Let_def
      or_null_def truthy_str_def after_dispatch_state io_defs scenario_defs)

lemma after_completion_run:
  "after_completion
     = snd (handleWorkflowComplete scenario_externals ''lin_token'' started_run 42 ''success''
              after_start)"
proof -
  have r: "getWorkflowRun 555 (db after_start) = Some started_run"
    by (simp add: after_start_state getWorkflowRun_def scenario_defs)
  have t: "selectOAuthToken ''ws-1'' (db after_start) = Some lin_token"
    by (simp add: after_start_state selectOAuthToken_def scenario_defs)
  have ws: "wr_linear_workspace_id started_run = Some ''ws-1''"
    by (simp add: scenario_defs)
  show ?thesis
    unfolding after_completion_def
    by (simp add: handleWorkflowRun_def correlate_def update_status_def getOAuthToken_def
        completed_payload_def in_progress_event_def bind_def query_def ret_def r t ws
        or_null_def truthy_str_def)
      (simp add: lin_token_def)
qed

lemma scenario_answers:
  "github_target acme_config = Some (42, ''acme'', ''backend'')"
  "dispatch_answers scenario_externals ''issue-1'' 42 ''acme'' ''backend'' ''ghs_token''
     issue_context [''main'']"
  "linear_accepts scenario_externals"
  "github_answers scenario_externals started_run 42 ''ghs_token'' [] open_pulls"
  by (simp_all add: github_target_def dispatch_answers_def linear_accepts_def github_answers_def
      scenario_defs)

lemma scenario_titles: "titled ''ABC-123'' open_pulls = []"
  unfolding open_pulls_def by code_simp

text \<open>
  Claim C3 says that the completion handler looks first for a pull request on the
  feature branch of the run. The feature branch is the name \<open>triggerImplementation\<close>
  makes with \<open>findAvailableBranchName\<close>; it goes into the input \<open>branch_name\<close> of
  the dispatch and into a log entry, and into no column. The pending trigger holds the
  branch of the team config, on which the workflow is dispatched. The correlation
  gives the run record the head branch of the event, the branch of the trigger it
  matched. \<open>handleWorkflowComplete\<close> asks GitHub for the pull requests of that column.
  So for a run that the program created, the first search is for the pull requests of
  the base branch: when GitHub has none for the base branch and no open pull request
  has the identifier in its title, the run is completed without a pull request and the
  response says that no code changes were necessary, whatever GitHub holds on the
  feature branch.
\<close>

theorem completion_searches_base_branch:
  "(github_target config = Some (n, owner, repo)
      \<and> dispatch_answers X issueId n owner repo ghToken issueContext existing
      \<and> linear_accepts X \<longrightarrow>
      fst (triggerImplementation X token agentSessionId issueId issueIdentifier config w) = Inr ()
      \<and> pt_branch_name
          (last (pending_workflow_triggers
                   (db (snd (triggerImplementation X token agentSessionId issueId issueIdentifier
                               config w)))))
          = tc_github_branch config
      \<and> last (sent (snd (triggerImplementation X token agentSessionId issueId issueIdentifier
                           config w)))
          = GitHubDispatch ghToken owner repo ''linear-agent.yml'' (tc_github_branch config)
              (dispatch_inputs agentSessionId issueIdentifier issueContext
                 (findAvailableBranchName issueIdentifier existing))
      \<and> in_branch_name (dispatch_inputs agentSessionId issueIdentifier issueContext
                          (findAvailableBranchName issueIdentifier existing))
          = findAvailableBranchName issueIdentifier existing)
   \<and> (getWorkflowRun (wre_id ev) (db w) = None \<and> fst (correlate ev w) = Inr (Some run) \<longrightarrow>
      wr_branch_name run = wre_head_branch ev
      \<and> (\<exists>t \<in> set (pending_workflow_triggers (db w)).
            pt_matched_at t = None \<and> pt_branch_name t = wr_branch_name run
            \<and> pt_agent_session_id t = wr_agent_session_id run))
   \<and> (github_answers X run n ghToken [] openPulls \<and> linear_accepts X
      \<and> wr_linear_issue_identifier run \<noteq> []
      \<and> titled (wr_linear_issue_identifier run) openPulls = []
      \<and> wr_id run \<in> wr_id ` set (workflow_runs (db w)) \<longrightarrow>
      fst (handleWorkflowComplete X token run n ''success'' w) = Inr ()
      \<and> db (snd (handleWorkflowComplete X token run n ''success'' w))
          = completed_without_pr run ''success'' w
      \<and> sent (snd (handleWorkflowComplete X token run n ''success'' w))
          = sent w @ branch_search run n ghToken @ title_search run n ghToken
            @ [no_changes_response token run])"
proof (intro conjI impI)
  assume h: "github_target config = Some (n, owner, repo)
      \<and> dispatch_answers X issueId n owner repo ghToken issueContext existing
      \<and> linear_accepts X"
  then have target: "github_target config = Some (n, owner, repo)"
    and ans: "dispatch_answers X issueId n owner repo ghToken issueContext existing"
    and lin: "linear_accepts X" by blast+
  note d = triggerImplementation_dispatches [OF target ans lin]
  show "fst (triggerImplementation X token agentSessionId issueId issueIdentifier config w) = Inr ()"
    by (rule d(1))
  show "pt_branch_name
          (last (pending_workflow_triggers
                   (db (snd (triggerImplementation X token agentSessionId issueId issueIdentifier
                               config w)))))
          = tc_github_branch config"
    by (simp add: d(2) pending_trigger_of_def)
  show "last (sent (snd (triggerImplementation X token agentSessionId issueId issueIdentifier
                           config w)))
          = GitHubDispatch ghToken owner repo ''linear-agent.yml'' (tc_github_branch config)
              (dispatch_inputs agentSessionId issueIdentifier issueContext
                 (findAvailableBranchName issueIdentifier existing))"
    by (simp add: d(3))
  show "in_branch_name (dispatch_inputs agentSessionId issueIdentifier issueContext
                          (findAvailableBranchName issueIdentifier existing))
          = findAvailableBranchName issueIdentifier existing"
    by (simp add: dispatch_inputs_def)
next
  assume h: "getWorkflowRun (wre_id ev) (db w) = None \<and> fst (correlate ev w) = Inr (Some run)"
  then have absent: "getWorkflowRun (wre_id ev) (db w) = None"
    and c: "fst (correlate ev w) = Inr (Some run)" by blast+
  have "candidates ev w \<noteq> []"
  proof
    assume "candidates ev w = []"
    from correlate_no_match [OF absent this] c show False by simp
  qed
  then obtain t where pick: "latest pt_created_at (candidates ev w) = Some t"
    using latest_nonempty by blast
  from latest_Some [OF pick] have mem: "t \<in> set (candidates ev w)" by simp
  then have row: "t \<in> set (pending_workflow_triggers (db w))"
    and cand: "trigger_candidate (wre_owner ev) (wre_repo ev) (wre_head_branch ev) t"
    by (simp_all add: candidates_def)
  from correlate_match [OF absent pick] c have run: "run = run_of_trigger w ev t" by simp
  then show "wr_branch_name run = wre_head_branch ev"
    by (simp add: run_of_trigger_def)
  from run cand have "pt_matched_at t = None \<and> pt_branch_name t = wr_branch_name run
      \<and> pt_agent_session_id t = wr_agent_session_id run"
    by (simp add: run_of_trigger_def trigger_candidate_def)
  with row show "\<exists>t \<in> set (pending_workflow_triggers (db w)).
            pt_matched_at t = None \<and> pt_branch_name t = wr_branch_name run
            \<and> pt_agent_session_id t = wr_agent_session_id run"
    by blast
next
  assume h: "github_answers X run n ghToken [] openPulls \<and> linear_accepts X
      \<and> wr_linear_issue_identifier run \<noteq> []
      \<and> titled (wr_linear_issue_identifier run) openPulls = []
      \<and> wr_id run \<in> wr_id ` set (workflow_runs (db w))"
  then have gh: "github_answers X run n ghToken [] openPulls" and lin: "linear_accepts X"
    and ident: "wr_linear_issue_identifier run \<noteq> []"
    and none: "titled (wr_linear_issue_identifier run) openPulls = []"
    and stored: "wr_id run \<in> wr_id ` set (workflow_runs (db w))" by blast+
  note c = complete_without_pr [OF gh lin ident none stored]
  show "fst (handleWorkflowComplete X token run n ''success'' w) = Inr ()" by (rule c(1))
  show "db (snd (handleWorkflowComplete X token run n ''success'' w))
          = completed_without_pr run ''success'' w" by (rule c(2))
  show "sent (snd (handleWorkflowComplete X token run n ''success'' w))
          = sent w @ branch_search run n ghToken @ title_search run n ghToken
            @ [no_changes_response token run]" by (rule c(3))
qed

text \<open>The failing input of claim C3. The ticket ABC-123 is dispatched for the team of
  \<open>acme/backend\<close>, whose base branch is \<open>main\<close>: the workflow gets the feature branch
  \<open>agent/abc-123\<close> as an input, and the trigger holds \<open>main\<close>. The run 555 starts and
  completes with the conclusion \<open>success\<close>; its record holds \<open>main\<close>. GitHub has the
  pull request 7 on \<open>agent/abc-123\<close>, with a title that does not name the ticket.
  The handler asks for the pull requests of \<open>main\<close>, then for the open pull requests,
  and answers that no code changes were necessary; the run has no pull request.\<close>

theorem completion_searches_base_branch_witness:
  "github_target acme_config = Some (42, ''acme'', ''backend'')
   \<and> dispatch_answers scenario_externals ''issue-1'' 42 ''acme'' ''backend'' ''ghs_token''
       issue_context [''main'']
   \<and> linear_accepts scenario_externals
   \<and> findAvailableBranchName ''ABC-123'' [''main''] = ''agent/abc-123''
   \<and> github_pulls_for_branch scenario_externals [] ''ghs_token'' ''acme'' ''backend''
       ''agent/abc-123'' = Inr [pull_7]
   \<and> pt_branch_name (last (pending_workflow_triggers (db after_dispatch))) = ''main''
   \<and> last (sent after_dispatch)
       = GitHubDispatch ''ghs_token'' ''acme'' ''backend'' ''linear-agent.yml'' ''main''
           (dispatch_inputs ''session-1'' ''ABC-123'' issue_context ''agent/abc-123'')
   \<and> in_branch_name (dispatch_inputs ''session-1'' ''ABC-123'' issue_context ''agent/abc-123'')
       = ''agent/abc-123''
   \<and> getWorkflowRun 555 (db after_dispatch) = None
   \<and> fst (correlate (in_progress_event\<lparr>wre_id := 555\<rparr>) after_dispatch) = Inr (Some stored_run)
   \<and> wr_branch_name stored_run = ''main''
   \<and> github_answers scenario_externals started_run 42 ''ghs_token'' [] open_pulls
   \<and> wr_linear_issue_identifier started_run \<noteq> []
   \<and> titled (wr_linear_issue_identifier started_run) open_pulls = []
   \<and> wr_id started_run \<in> wr_id ` set (workflow_runs (db after_start))
   \<and> workflow_runs (db after_start) = [started_run]
   \<and> sent after_completion
       = sent after_start
         @ [GitHubAccessToken 42,
            GitHubPullsForBranch ''ghs_token'' ''acme'' ''backend'' ''main'',
            GitHubAccessToken 42,
            GitHubOpenPulls ''ghs_token'' ''acme'' ''backend'',
            LinearActivityCreate ''lin_token'' ''session-1''
              (Response (check_mark @ '' Analysis complete! No code changes were necessary.''))]
   \<and> workflow_runs (db after_completion)
       = [started_run\<lparr>wr_status := Completed, wr_conclusion := Some ''success''\<rparr>]
   \<and> wr_pr_number (started_run\<lparr>wr_status := Completed, wr_conclusion := Some ''success''\<rparr>) = None"
proof -
  let ?ev = "in_progress_event\<lparr>wre_id := 555\<rparr>"
  note claim = completion_searches_base_branch
    [where X = scenario_externals and token = "''lin_token''" and n = 42 and owner = "''acme''"
       and repo = "''backend''" and ghToken = "''ghs_token''" and config = acme_config
       and issueId = "''issue-1''" and issueIdentifier = "''ABC-123''"
       and agentSessionId = "''session-1''" and issueContext = issue_context
       and existing = "[''main'']" and openPulls = open_pulls]
  have pr: "github_pulls_for_branch scenario_externals [] ''ghs_token'' ''acme'' ''backend''
       ''agent/abc-123'' = Inr [pull_7]"
    by (simp add: scenario_externals_def)
  from claim [of token_world ?ev stored_run] scenario_answers(1-3)
  have d1: "pt_branch_name (last (pending_workflow_triggers (db after_dispatch)))
        = tc_github_branch acme_config"
    and d2: "last (sent after_dispatch)
        = GitHubDispatch ''ghs_token'' ''acme'' ''backend'' ''linear-agent.yml''
            (tc_github_branch acme_config)
            (dispatch_inputs ''session-1'' ''ABC-123'' issue_context
               (findAvailableBranchName ''ABC-123'' [''main'']))"
    and d3: "in_branch_name (dispatch_inputs ''session-1'' ''ABC-123'' issue_context
                               (findAvailableBranchName ''ABC-123'' [''main'']))
        = findAvailableBranchName ''ABC-123'' [''main'']"
    unfolding after_dispatch_def by blast+
  have base: "tc_github_branch acme_config = ''main''"
    by (simp add: acme_config_def)
  have absent: "getWorkflowRun 555 (db after_dispatch) = None"
    by (simp add: after_dispatch_state getWorkflowRun_def scenario_defs)
  have ev: "wre_id ?ev = 555" "wre_head_branch ?ev = ''main''"
    by (simp_all add: in_progress_event_def)
  from claim [of after_dispatch ?ev stored_run] absent started_correlation ev
  have c1: "wr_branch_name stored_run = ''main''"
    by simp
  have ident: "wr_linear_issue_identifier started_run = ''ABC-123''"
    by (simp add: scenario_defs)
  have rows: "workflow_runs (db after_start) = [started_run]"
    by (simp add: after_start_state scenario_defs)
  then have stored: "wr_id started_run \<in> wr_id ` set (workflow_runs (db after_start))"
    by simp
  have t0: "titled (wr_linear_issue_identifier started_run) open_pulls = []"
    by (simp add: ident scenario_titles)
  have ne: "wr_linear_issue_identifier started_run \<noteq> []"
    by (simp add: ident)
  from claim [of after_start ?ev started_run] scenario_answers(3,4) ne t0 stored
  have f1: "db after_completion = completed_without_pr started_run ''success'' after_start"
    and f2: "sent after_completion
        = sent after_start @ branch_search started_run 42 ''ghs_token''
          @ title_search started_run 42 ''ghs_token'' @ [no_changes_response ''lin_token'' started_run]"
    unfolding after_completion_run by blast+
  have s: "sent after_completion
       = sent after_start
         @ [GitHubAccessToken 42,
            GitHubPullsForBranch ''ghs_token'' ''acme'' ''backend'' ''main'',
            GitHubAccessToken 42,
            GitHubOpenPulls ''ghs_token'' ''acme'' ''backend'',
            LinearActivityCreate ''lin_token'' ''session-1''
              (Response (check_mark @ '' Analysis complete! No code changes were necessary.''))]"
    unfolding f2
    by (simp add: branch_search_def title_search_def no_changes_response_def scenario_defs)
  have r: "workflow_runs (db after_completion)
       = [started_run\<lparr>wr_status := Completed, wr_conclusion := Some ''success''\<rparr>]"
    unfolding f1
    by (simp add: completed_without_pr_def updateWorkflowRun_def set_clauses_def no_updates_def
        rows db_now_def after_start_state scenario_defs)
  have n: "wr_pr_number (started_run\<lparr>wr_status := Completed, wr_conclusion := Some ''success''\<rparr>)
      = None"
    by (simp add: scenario_defs)
  from scenario_answers branch_for_ticket pr d1 d2 d3 base absent started_correlation c1 ne t0
    stored rows s r n
  show ?thesis by simp
qed

end
